(* ===== verification/Prelude.thy ===== *)
theory Prelude
  imports Main "HOL-Library.Sublist"
begin

text \<open>
  Shared vocabulary of the development. The controllers of
  \<^verbatim>\<open>src/ch06/web/report_flask.py\<close> are Python: an exception is modelled as a
  value \<open>Inl e\<close> of the sum type \<open>py_error + 'a\<close>, and a statement sequence that
  may raise is a chain of \<open>py_bind\<close>. Request parameters (\<^verbatim>\<open>request.args\<close>)
  are a map from names to strings, \<^verbatim>\<open>args.get(k)\<close> being \<open>args k\<close>, and the
  truthiness of the \<open>str | None\<close> it returns is \<open>py_truthy_str\<close>. Python's
  unbounded integers are \<open>int\<close>. The collection \<open>py_simps\<close> gathers the
  evaluation rules of the Python-level helpers of all theories.
\<close>

named_theorems py_simps "evaluation rules of the Python-level helpers"

section \<open>Exceptions as values\<close>

datatype py_error =
    KeyError
  | TypeError
  | ValueError
  | IndexError
  | AttributeError
  | UnboundLocalError
  | RequestError

type_synonym 'a py_result = "py_error + 'a"

definition py_bind :: "'a py_result \<Rightarrow> ('a \<Rightarrow> 'b py_result) \<Rightarrow> 'b py_result" where
  "py_bind m f = (case m of Inl e \<Rightarrow> Inl e | Inr a \<Rightarrow> f a)"

lemma py_bind_Inl [simp]: "py_bind (Inl e) f = Inl e"
  by (simp add: py_bind_def)

lemma py_bind_Inr [simp]: "py_bind (Inr a) f = f a"
  by (simp add: py_bind_def)

lemma py_bind_eq_Inr [simp]:
  "py_bind m f = Inr b \<longleftrightarrow> (\<exists>a. m = Inr a \<and> f a = Inr b)"
  by (cases m) simp_all

lemma py_bind_eq_Inl:
  "py_bind m f = Inl e \<longleftrightarrow> m = Inl e \<or> (\<exists>a. m = Inr a \<and> f a = Inl e)"
  by (cases m) simp_all

section \<open>Request parameters\<close>

type_synonym query_args = "string \<Rightarrow> string option"

text \<open>Truthiness of the value of \<^verbatim>\<open>request.args.get(k)\<close>: \<^verbatim>\<open>None\<close> and the
  empty string are false.\<close>

definition py_truthy_str :: "string option \<Rightarrow> bool" where
  "py_truthy_str v = (case v of None \<Rightarrow> False | Some s \<Rightarrow> s \<noteq> [])"

lemma py_truthy_str_simps [simp, py_simps]:
  "py_truthy_str None = False"
  "py_truthy_str (Some s) = (s \<noteq> [])"
  by (simp_all add: py_truthy_str_def)

section \<open>Strings\<close>

text \<open>The regular-expression dot of Python's \<^verbatim>\<open>re\<close> matches every character but
  the newline.\<close>

abbreviation newline :: char where
  "newline \<equiv> CHR 0x0A"

definition no_newline :: "string \<Rightarrow> bool" where
  "no_newline s = list_all (\<lambda>c. c \<noteq> newline) s"

lemma no_newline_simps [simp, py_simps]:
  "no_newline []"
  "no_newline (c # s) = (c \<noteq> newline \<and> no_newline s)"
  by (simp_all add: no_newline_def)

lemma no_newline_append [simp]:
  "no_newline (s @ t) = (no_newline s \<and> no_newline t)"
  by (simp add: no_newline_def)

lemma no_newline_iff: "no_newline s = (newline \<notin> set s)"
  by (induction s) auto

lemma no_newline_take [intro]: "no_newline s \<Longrightarrow> no_newline (take k s)"
  by (auto simp: no_newline_iff dest: in_set_takeD)

lemma no_newline_drop [intro]: "no_newline s \<Longrightarrow> no_newline (drop k s)"
  by (auto simp: no_newline_iff dest: in_set_dropD)

section \<open>Lists\<close>

lemma le_length_takeWhile:
  "k \<le> length (takeWhile P s) \<longleftrightarrow> k \<le> length s \<and> list_all P (take k s)"
proof (induction s arbitrary: k)
  case (Cons c s)
  then show ?case by (cases k) auto
qed simp

text \<open>The first element of a flattened list comes from the first inner list that
  is not empty: the fact behind every ``first match'' argument of the regular
  expression model.\<close>

lemma concat_map_dropWhile:
  "concat (map f xs) = concat (map f (dropWhile (\<lambda>x. f x = []) xs))"
  by (induction xs) auto

lemma first_concat_map:
  "(case concat (map f xs) of [] \<Rightarrow> None | y # _ \<Rightarrow> Some y) =
   (case List.find (\<lambda>x. f x \<noteq> []) xs of None \<Rightarrow> None | Some x \<Rightarrow> Some (hd (f x)))"
proof (induction xs)
  case (Cons a xs)
  then show ?case by (cases "f a") auto
qed simp

lemma find_SomeD: "List.find P xs = Some x \<Longrightarrow> P x \<and> x \<in> set xs"
  by (induction xs) (auto split: if_splits)

lemma find_rev_upt_Some:
  "List.find P (rev [0..<n]) = Some k \<longleftrightarrow> k < n \<and> P k \<and> (\<forall>j. k < j \<and> j < n \<longrightarrow> \<not> P j)"
proof (induction n)
  case (Suc n)
  show ?case by (auto simp: Suc less_Suc_eq)
qed simp

lemma find_rev_upt_None:
  "List.find P (rev [0..<n]) = None \<longleftrightarrow> (\<forall>j < n. \<not> P j)"
  by (auto simp: find_None_iff)

lemma concat_map_eq_Nil_iff:
  "concat (map f xs) = [] \<longleftrightarrow> (\<forall>x\<in>set xs. f x = [])"
  by simp

end
