(* ===== verification/Navigation.thy ===== *)
theory Navigation
  imports Prelude
begin

text \<open>
  The pagination offset helper \<^verbatim>\<open>get_navigation_offsets\<close>
  (\<^verbatim>\<open>src/ch06/web/report_flask.py\<close>, lines 33--43) and the paging it drives.
  The helper returns a dictionary with the two keys \<^verbatim>\<open>"Previous"\<close> and
  \<^verbatim>\<open>"Next"\<close>, each a dictionary with the keys \<^verbatim>\<open>"top_offset"\<close> and
  \<^verbatim>\<open>"bottom_offset"\<close>; they are the records \<open>nav_offsets\<close> and
  \<open>offset_pair\<close>. The search controllers call it with the current
  \<^verbatim>\<open>start\<close>, \<^verbatim>\<open>end\<close> and the page size, and the page template turns each
  pair into a link whose \<^verbatim>\<open>start\<close> is the bottom offset and whose \<^verbatim>\<open>end\<close>
  is the top offset. Following a link is \<open>follow_link\<close>; the windows a user
  reaches from the first page by following links are \<open>nav_reachable\<close>, an
  inductive relation whose invariant \<open>nav_inv\<close> says every query offset is a
  non-negative multiple of the page size.
\<close>

section \<open>The offset helper\<close>

record offset_pair =
  top_offset :: int
  bottom_offset :: int

record nav_offsets =
  nav_previous :: offset_pair
  nav_next :: offset_pair

definition get_navigation_offsets :: "int \<Rightarrow> int \<Rightarrow> int \<Rightarrow> nav_offsets" where
  "get_navigation_offsets offset1 offset2 increment =
     \<lparr>nav_previous = \<lparr>top_offset = max (offset2 - increment) 0,
                       bottom_offset = max (offset1 - increment) 0\<rparr>,
      nav_next = \<lparr>top_offset = offset2 + increment,
                   bottom_offset = offset1 + increment\<rparr>\<rparr>"

lemma get_navigation_offsets_simps [simp, py_simps]:
  "top_offset (nav_previous (get_navigation_offsets o1 o2 i)) = max (o2 - i) 0"
  "bottom_offset (nav_previous (get_navigation_offsets o1 o2 i)) = max (o1 - i) 0"
  "top_offset (nav_next (get_navigation_offsets o1 o2 i)) = o2 + i"
  "bottom_offset (nav_next (get_navigation_offsets o1 o2 i)) = o1 + i"
  by (simp_all add: get_navigation_offsets_def)

section \<open>Paging through the results\<close>

text \<open>The window of a result page: the \<^verbatim>\<open>start\<close> and \<^verbatim>\<open>end\<close> request
  parameters of the search controllers.\<close>

record page_window =
  win_start :: int
  win_end :: int

datatype nav_link = Previous | Next

definition link_offsets :: "nav_offsets \<Rightarrow> nav_link \<Rightarrow> offset_pair" where
  "link_offsets offs l = (case l of Previous \<Rightarrow> nav_previous offs | Next \<Rightarrow> nav_next offs)"

definition follow_link :: "int \<Rightarrow> page_window \<Rightarrow> nav_link \<Rightarrow> page_window" where
  "follow_link increment w l =
     (let p = link_offsets (get_navigation_offsets (win_start w) (win_end w) increment) l
      in \<lparr>win_start = bottom_offset p, win_end = top_offset p\<rparr>)"

lemma follow_link_simps [simp]:
  "follow_link i w Previous =
     \<lparr>win_start = max (win_start w - i) 0, win_end = max (win_end w - i) 0\<rparr>"
  "follow_link i w Next = \<lparr>win_start = win_start w + i, win_end = win_end w + i\<rparr>"
  by (simp_all add: follow_link_def link_offsets_def)

text \<open>The first page: with neither parameter given the controllers take
  \<^verbatim>\<open>start = 0\<close> and \<^verbatim>\<open>end\<close> the page size.\<close>

definition first_window :: "int \<Rightarrow> page_window" where
  "first_window increment = \<lparr>win_start = 0, win_end = increment\<rparr>"

inductive nav_reachable :: "int \<Rightarrow> page_window \<Rightarrow> bool" for increment where
  first: "nav_reachable increment (first_window increment)"
| link: "nav_reachable increment w \<Longrightarrow> nav_reachable increment (follow_link increment w l)"

fun nav_run :: "int \<Rightarrow> page_window \<Rightarrow> nav_link list \<Rightarrow> page_window" where
  "nav_run increment w [] = w"
| "nav_run increment w (l # ls) = nav_run increment (follow_link increment w l) ls"

definition nav_inv :: "int \<Rightarrow> page_window \<Rightarrow> bool" where
  "nav_inv increment w \<longleftrightarrow>
     0 \<le> win_start w \<and> increment dvd win_start w \<and>
     (win_end w = win_start w \<or> win_end w = win_start w + increment)"

section \<open>Lemmas\<close>

lemma nav_inv_first: "nav_inv i (first_window i)"
  by (simp add: nav_inv_def first_window_def)

lemma nav_inv_follow_link:
  assumes pos: "0 < i" and inv: "nav_inv i w"
  shows "nav_inv i (follow_link i w l)"
proof (cases l)
  case Previous
  from inv obtain k where k: "win_start w = i * k" and "0 \<le> win_start w"
    by (auto simp: nav_inv_def)
  with pos have "0 \<le> k" by (simp add: zero_le_mult_iff)
  then consider "k = 0" | "1 \<le> k" by linarith
  then have "win_start w = 0 \<or> i \<le> win_start w"
    using k pos by cases auto
  with inv pos Previous show ?thesis
    by (auto simp: nav_inv_def)
next
  case Next
  with inv pos show ?thesis by (auto simp: nav_inv_def)
qed

lemma nav_run_reachable:
  "nav_reachable i w \<Longrightarrow> nav_reachable i (nav_run i w ls)"
  by (induction ls arbitrary: w) (auto intro: nav_reachable.link)

lemma nav_reachable_run:
  "nav_reachable i w \<Longrightarrow> \<exists>ls. w = nav_run i (first_window i) ls"
proof (induction rule: nav_reachable.induct)
  case first
  show ?case by (rule exI [of _ "[]"]) simp
next
  case (link w l)
  then obtain ls where "w = nav_run i (first_window i) ls" by blast
  moreover have "nav_run i v (ls @ [l]) = follow_link i (nav_run i v ls) l" for v
    by (induction ls arbitrary: v) simp_all
  ultimately show ?case by metis
qed

lemma nav_run_Next:
  "nav_run i w (replicate k Next) =
     \<lparr>win_start = win_start w + int k * i, win_end = win_end w + int k * i\<rparr>"
  by (induction k arbitrary: w) (simp_all add: algebra_simps)

section \<open>Properties\<close>

text \<open>C24: the ``Previous'' offsets are never negative, for any offsets and any
  increment (the invariant the specification names).\<close>

theorem previous_offsets_nonneg:
  "0 \<le> top_offset (nav_previous (get_navigation_offsets o1 o2 i)) \<and>
   0 \<le> bottom_offset (nav_previous (get_navigation_offsets o1 o2 i))"
  by simp

text \<open>C23: following ``Next'' and then ``Previous'' returns to the window one
  started from, for every window of non-negative offsets and any non-negative
  page size.\<close>

theorem next_previous_roundtrip:
  assumes "0 \<le> i" and "0 \<le> win_start w" and "0 \<le> win_end w"
  shows "follow_link i (follow_link i w Next) Previous = w"
  using assms by simp

theorem next_previous_roundtrip_witness:
  "follow_link 20 (follow_link 20 \<lparr>win_start = 40, win_end = 60\<rparr> Next) Previous
     = \<lparr>win_start = 40, win_end = 60\<rparr>"
  using next_previous_roundtrip [of 20 "\<lparr>win_start = 40, win_end = 60\<rparr>"] by simp

text \<open>C15: every window reached from the first page by following the links has
  a non-negative start that is a multiple of the page size, and its end is the
  start or one page further: the offset sent to the search engine always
  falls on a page boundary.\<close>

theorem nav_reachable_inv:
  assumes "0 < i" and "nav_reachable i w"
  shows "0 \<le> win_start w \<and> i dvd win_start w \<and>
         (win_end w = win_start w \<or> win_end w = win_start w + i)"
proof -
  from assms(2) have "nav_inv i w"
  proof (induction rule: nav_reachable.induct)
    case first
    show ?case by (rule nav_inv_first)
  next
    case (link w l)
    show ?case by (rule nav_inv_follow_link [OF assms(1) link.IH])
  qed
  then show ?thesis by (simp add: nav_inv_def)
qed

theorem nav_reachable_inv_witness:
  "0 \<le> win_start (follow_link 20 (first_window 20) Next) \<and>
   20 dvd win_start (follow_link 20 (first_window 20) Next)"
proof -
  have "nav_reachable 20 (follow_link 20 (first_window 20) Next)"
    by (rule nav_reachable.link [OF nav_reachable.first])
  from nav_reachable_inv [OF _ this] show ?thesis by simp
qed

text \<open>C26: every page of results is reachable: the \<open>k\<close>-th page window
  \<open>[k * i, (k + 1) * i)\<close> is reached from the first page by \<open>k\<close> ``Next''
  links.\<close>

theorem every_page_reachable:
  "nav_reachable i \<lparr>win_start = int k * i, win_end = (int k + 1) * i\<rparr>"
proof -
  have "nav_reachable i (nav_run i (first_window i) (replicate k Next))"
    by (rule nav_run_reachable [OF nav_reachable.first])
  then show ?thesis
    by (simp add: nav_run_Next first_window_def algebra_simps)
qed

text \<open>C27: the ``Previous'' link of the first page collapses the window to
  \<open>start = end = 0\<close>; from then on \<open>end = start\<close> on every page the user
  pages to, so the window no longer spans a page.\<close>

theorem previous_of_first_page_collapses:
  assumes "0 \<le> i"
  shows "follow_link i (first_window i) Previous = \<lparr>win_start = 0, win_end = 0\<rparr> \<and>
         nav_run i \<lparr>win_start = 0, win_end = 0\<rparr> (replicate k Next) =
           \<lparr>win_start = int k * i, win_end = int k * i\<rparr>"
  using assms by (simp add: first_window_def nav_run_Next)

theorem previous_of_first_page_collapses_witness:
  "follow_link 20 (first_window 20) Previous = \<lparr>win_start = 0, win_end = 0\<rparr> \<and>
   nav_run 20 \<lparr>win_start = 0, win_end = 0\<rparr> (replicate 2 Next) =
     \<lparr>win_start = 2 * 20, win_end = 2 * 20\<rparr>"
  using previous_of_first_page_collapses [of 20 2] by simp

text \<open>The ``Next'' offsets are not always non-negative, contrary to the
  specification's ``outputs never negative'': a negative \<^verbatim>\<open>start\<close> request
  parameter, which the controllers accept, gives a negative ``Next'' offset.\<close>

theorem next_offsets_can_be_negative:
  "\<not> (\<forall>o1 o2. 0 \<le> bottom_offset (nav_next (get_navigation_offsets o1 o2 20)))"
proof
  assume "\<forall>o1 o2. 0 \<le> bottom_offset (nav_next (get_navigation_offsets o1 o2 20))"
  then have "0 \<le> bottom_offset (nav_next (get_navigation_offsets (-50) 0 20))" by blast
  then show False by simp
qed

end
