(* ===== verification/PyValue.thy ===== *)
theory PyValue
  imports Prelude
begin

text \<open>
  The Python values the controllers receive from the search client: the
  Elasticsearch client decodes the JSON response into \<open>None\<close>, booleans,
  integers, strings, lists and dictionaries with string keys. A dictionary is
  an association list in insertion order (Python's iteration order). The three
  operations the code applies to such values are modelled with Python's
  exceptions: truthiness (\<open>py_truthy\<close>, the test of \<^verbatim>\<open>if v:\<close>), subscription
  by a string key (\<open>py_getitem\<close>, \<^verbatim>\<open>v["k"]\<close>) and iteration
  (\<open>py_iter\<close>, \<^verbatim>\<open>for x in v\<close>). Documents read from MongoDB may hold
  an \<^verbatim>\<open>ObjectId\<close> (\<open>PObjectId\<close>, its hexadecimal string), which is truthy
  and neither subscriptable nor iterable. Floating-point numbers (the \<^verbatim>\<open>_score\<close> of a
  hit) are not modelled: the code never inspects them.
\<close>

datatype pyval =
    PNone
  | PBool bool
  | PInt int
  | PStr string
  | PList "pyval list"
  | PDict "(string \<times> pyval) list"
  | PObjectId string

fun py_truthy :: "pyval \<Rightarrow> bool" where
  "py_truthy PNone = False"
| "py_truthy (PBool b) = b"
| "py_truthy (PInt n) = (n \<noteq> 0)"
| "py_truthy (PStr s) = (s \<noteq> [])"
| "py_truthy (PList xs) = (xs \<noteq> [])"
| "py_truthy (PDict d) = (d \<noteq> [])"
| "py_truthy (PObjectId i) = True"

text \<open>\<^verbatim>\<open>v[k]\<close> with a string \<open>k\<close>: a missing key of a dictionary raises
  \<^verbatim>\<open>KeyError\<close>; a list or a string wants an integer index and \<^verbatim>\<open>None\<close>,
  booleans and integers are not subscriptable, all \<^verbatim>\<open>TypeError\<close>.\<close>

fun py_getitem :: "pyval \<Rightarrow> string \<Rightarrow> pyval py_result" where
  "py_getitem (PDict d) k = (case map_of d k of None \<Rightarrow> Inl KeyError | Some v \<Rightarrow> Inr v)"
| "py_getitem _ k = Inl TypeError"

text \<open>\<^verbatim>\<open>for x in v\<close>: a list yields its elements, a dictionary its keys, a string
  its one-character strings; anything else is not iterable.\<close>

fun py_iter :: "pyval \<Rightarrow> pyval list py_result" where
  "py_iter (PList xs) = Inr xs"
| "py_iter (PDict d) = Inr (map (\<lambda>kv. PStr (fst kv)) d)"
| "py_iter (PStr s) = Inr (map (\<lambda>c. PStr [c]) s)"
| "py_iter _ = Inl TypeError"

fun_cases py_getitem_InrE: "py_getitem v k = Inr x"

lemma py_getitem_Inr_iff:
  "py_getitem v k = Inr x \<longleftrightarrow> (\<exists>d. v = PDict d \<and> map_of d k = Some x)"
  by (cases v) (auto split: option.splits)

lemma py_getitem_truthy: "py_getitem v k = Inr x \<Longrightarrow> py_truthy v"
  by (auto simp: py_getitem_Inr_iff)

lemma py_getitem_PStr [simp]: "py_getitem (PStr s) k = Inl TypeError"
  by simp

declare py_truthy.simps [py_simps] py_getitem.simps [py_simps] py_iter.simps [py_simps]

end
