(* ===== verification/DocStore.thy ===== *)
theory DocStore
  imports PyValue "HOL-Library.Multiset" "HOL-Library.List_Lexorder" "HOL-Library.Char_ord"
    "HOL-Library.Product_Lexorder"
begin

text \<open>
  The document store the lookup controllers query through PyMongo
  (\<^verbatim>\<open>client.agile_data_science.<collection>\<close>). A document is a Python
  dictionary as PyMongo decodes it (an association list of fields in stored
  order); the database maps a collection name to its documents in natural
  order. The controllers use three calls, collected in the record
  \<open>mongo_store\<close>: \<^verbatim>\<open>find_one(filter)\<close>, \<^verbatim>\<open>find(filter, sort=[(k, 1), ...])\<close>
  and the PyMongo 3 \<^verbatim>\<open>Cursor.count()\<close>. Filters are the equality
  dictionaries the code writes (\<^verbatim>\<open>{"Carrier": carrier, ...}\<close>): a field
  matches a value when it holds the value or is an array containing it, and
  \<^verbatim>\<open>None\<close> also matches a missing field (\<open>field_matches\<close>). Sorts are ascending
  on BSON's cross-type order (\<open>bson_sort_key\<close>: null and missing fields, numbers,
  strings, documents, arrays, ObjectIds, booleans; an array sorts by its least
  element and an empty array before null). Documents and nested arrays are
  ranked by type only: the key is a coarsening of MongoDB's order, so a result
  sorted by MongoDB is sorted by it.

  MongoDB leaves the natural order that \<^verbatim>\<open>find_one\<close> picks from and the order of
  sort ties unspecified. The controllers are therefore verified against every
  store that meets the contract \<open>valid_store\<close>, and \<open>ref_store\<close> is an
  executable store that meets it (\<open>ref_store_valid\<close>), used to run the
  controllers on concrete collections.
\<close>

type_synonym document = "(string \<times> pyval) list"
type_synonym mfilter = "(string \<times> pyval) list"
type_synonym mongo_db = "string \<Rightarrow> document list"

definition field_matches :: "document \<Rightarrow> string \<Rightarrow> pyval \<Rightarrow> bool" where
  "field_matches d k v =
     (case map_of d k of
        None \<Rightarrow> v = PNone
      | Some x \<Rightarrow> x = v \<or> (case x of PList xs \<Rightarrow> v \<in> set xs | _ \<Rightarrow> False))"

definition doc_matches :: "mfilter \<Rightarrow> document \<Rightarrow> bool" where
  "doc_matches flt d = list_all (\<lambda>(k, v). field_matches d k v) flt"

type_synonym bson_key = "nat \<times> int \<times> string"

fun bson_elem_key :: "pyval \<Rightarrow> bson_key" where
  "bson_elem_key PNone = (1, 0, [])"
| "bson_elem_key (PInt n) = (2, n, [])"
| "bson_elem_key (PStr s) = (3, 0, s)"
| "bson_elem_key (PDict d) = (4, 0, [])"
| "bson_elem_key (PList xs) = (5, 0, [])"
| "bson_elem_key (PObjectId i) = (7, 0, i)"
| "bson_elem_key (PBool b) = (8, if b then 1 else 0, [])"

fun bson_sort_key :: "pyval option \<Rightarrow> bson_key" where
  "bson_sort_key None = (1, 0, [])"
| "bson_sort_key (Some (PList [])) = (0, 0, [])"
| "bson_sort_key (Some (PList (x # xs))) = fold min (map bson_elem_key xs) (bson_elem_key x)"
| "bson_sort_key (Some v) = bson_elem_key v"

definition doc_sort_key :: "string list \<Rightarrow> document \<Rightarrow> bson_key list" where
  "doc_sort_key ks d = map (\<lambda>k. bson_sort_key (map_of d k)) ks"

record mongo_store =
  find_one_op :: "string \<Rightarrow> mfilter \<Rightarrow> document option"
  find_op :: "string \<Rightarrow> mfilter \<Rightarrow> string list \<Rightarrow> document list"
  count_op :: "string \<Rightarrow> mfilter \<Rightarrow> nat"

text \<open>\<^verbatim>\<open>Cursor.count()\<close>: PyMongo 3 counts the documents matching the
  cursor's filter; PyMongo 4 removed the method, so the attribute lookup
  raises \<^verbatim>\<open>AttributeError\<close>.\<close>

datatype pymongo_version = PyMongo3 | PyMongo4

definition cursor_count :: "pymongo_version \<Rightarrow> mongo_store \<Rightarrow> string \<Rightarrow> mfilter \<Rightarrow> nat py_result" where
  "cursor_count ver st c flt = (case ver of PyMongo3 \<Rightarrow> Inr (count_op st c flt) | PyMongo4 \<Rightarrow> Inl AttributeError)"

definition valid_store :: "mongo_db \<Rightarrow> mongo_store \<Rightarrow> bool" where
  "valid_store db st \<longleftrightarrow>
     (\<forall>c flt. find_one_op st c flt = None \<longleftrightarrow> \<not> list_ex (doc_matches flt) (db c)) \<and>
     (\<forall>c flt d. find_one_op st c flt = Some d \<longrightarrow> d \<in> set (db c) \<and> doc_matches flt d) \<and>
     (\<forall>c flt ks. mset (find_op st c flt ks) = mset (filter (doc_matches flt) (db c)) \<and>
                 sorted (map (doc_sort_key ks) (find_op st c flt ks))) \<and>
     (\<forall>c flt. count_op st c flt = length (filter (doc_matches flt) (db c)))"

definition ref_store :: "mongo_db \<Rightarrow> mongo_store" where
  "ref_store db =
     \<lparr>find_one_op = (\<lambda>c flt. find (doc_matches flt) (db c)),
      find_op = (\<lambda>c flt ks. sort_key (doc_sort_key ks) (filter (doc_matches flt) (db c))),
      count_op = (\<lambda>c flt. length (filter (doc_matches flt) (db c)))\<rparr>"

section \<open>Lemmas\<close>

lemma doc_matches_Nil [simp]: "doc_matches [] d"
  by (simp add: doc_matches_def)

lemma doc_matches_Cons [simp]:
  "doc_matches ((k, v) # flt) d \<longleftrightarrow> field_matches d k v \<and> doc_matches flt d"
  by (simp add: doc_matches_def)

text \<open>A \<^verbatim>\<open>None\<close> in a filter: the field is missing, null, or an array holding null.\<close>

lemma field_matches_None:
  "field_matches d k PNone \<longleftrightarrow>
     map_of d k = None \<or> map_of d k = Some PNone \<or> (\<exists>xs. map_of d k = Some (PList xs) \<and> PNone \<in> set xs)"
  by (auto simp: field_matches_def split: option.splits pyval.splits)

lemma field_matches_PStr:
  "field_matches d k (PStr s) \<longleftrightarrow>
     map_of d k = Some (PStr s) \<or> (\<exists>xs. map_of d k = Some (PList xs) \<and> PStr s \<in> set xs)"
  by (auto simp: field_matches_def split: option.splits pyval.splits)

lemma valid_store_find_one_None:
  "valid_store db st \<Longrightarrow> find_one_op st c flt = None \<longleftrightarrow> \<not> list_ex (doc_matches flt) (db c)"
  by (simp add: valid_store_def)

lemma valid_store_find_one_Some:
  "valid_store db st \<Longrightarrow> find_one_op st c flt = Some d \<Longrightarrow> d \<in> set (db c) \<and> doc_matches flt d"
  by (simp add: valid_store_def)

lemma valid_store_find_mset:
  "valid_store db st \<Longrightarrow> mset (find_op st c flt ks) = mset (filter (doc_matches flt) (db c))"
  by (simp add: valid_store_def)

lemma valid_store_find_sorted:
  "valid_store db st \<Longrightarrow> sorted (map (doc_sort_key ks) (find_op st c flt ks))"
  by (simp add: valid_store_def)

lemma valid_store_find_set:
  "valid_store db st \<Longrightarrow> d \<in> set (find_op st c flt ks) \<longleftrightarrow> d \<in> set (db c) \<and> doc_matches flt d"
  using mset_eq_setD [OF valid_store_find_mset] by fastforce

lemma valid_store_count:
  "valid_store db st \<Longrightarrow> count_op st c flt = length (find_op st c flt ks)"
  using mset_eq_length [OF valid_store_find_mset [of db st c flt ks]] by (simp add: valid_store_def)

lemma valid_store_find_one_field:
  "valid_store db st \<Longrightarrow> find_one_op st c [(k, v)] = Some d \<Longrightarrow> d \<in> set (db c) \<and> field_matches d k v"
  using valid_store_find_one_Some by fastforce

lemmas valid_store_lemmas = valid_store_find_one_None valid_store_find_one_Some
  valid_store_find_mset valid_store_find_sorted valid_store_find_set valid_store_count

lemma ref_store_valid_find_one:
  "(find (doc_matches flt) xs = None \<longleftrightarrow> \<not> list_ex (doc_matches flt) xs) \<and>
   (find (doc_matches flt) xs = Some d \<longrightarrow> d \<in> set xs \<and> doc_matches flt d)"
  by (auto simp: find_None_iff list_ex_iff dest: find_SomeD)

text \<open>The executable store meets the contract: \<^verbatim>\<open>find_one\<close> returns the
  first match in natural order, \<^verbatim>\<open>find\<close> sorts the matches stably.\<close>

text \<open>A reference store over any reordering of the collections meets the
  contract too: the contract leaves the natural order open.\<close>

lemma ref_store_valid_perm:
  assumes "\<And>c. mset (db' c) = mset (db c)"
  shows "valid_store db (ref_store db')"
proof -
  have set: "set (db' c) = set (db c)" for c using mset_eq_setD [OF assms] .
  have len: "length (filter P (db' c)) = length (filter P (db c))" for P c
    by (metis assms mset_filter size_mset)
  have fo: "(find (doc_matches flt) (db' c) = None \<longleftrightarrow> \<not> list_ex (doc_matches flt) (db c)) \<and>
            (find (doc_matches flt) (db' c) = Some d \<longrightarrow> d \<in> set (db c) \<and> doc_matches flt d)" for flt c d
    using ref_store_valid_find_one [of flt "db' c" d] by (simp add: set list_ex_iff)
  show ?thesis
    unfolding valid_store_def ref_store_def using fo by (simp add: assms len)
qed

lemma ref_store_valid: "valid_store db (ref_store db)"
  by (rule ref_store_valid_perm) simp

text \<open>The order of sort ties does depend on the natural order.\<close>

lemma ref_store_ties_follow_natural_order:
  "find_op (ref_store (\<lambda>c. [[(''Month'', PInt 2), (''n'', PInt 7)], [(''Month'', PInt 1), (''n'', PInt 8)], [(''Month'', PInt 2), (''n'', PInt 9)]])) ''m'' [] [''Month''] \<noteq>
       find_op (ref_store (\<lambda>c. rev [[(''Month'', PInt 2), (''n'', PInt 7)], [(''Month'', PInt 1), (''n'', PInt 8)], [(''Month'', PInt 2), (''n'', PInt 9)]])) ''m'' [] [''Month'']"
  by (simp add: ref_store_def doc_sort_key_def)

lemma sorted_mset_map_eq:
  assumes "mset xs = mset ys" and "sorted (map f xs)" and "sorted (map f ys)"
  shows "map f xs = map f ys"
proof -
  have "mset (map f xs) = mset (map f ys)" using assms(1) by simp
  then show ?thesis
    using assms(2,3) by (metis properties_for_sort)
qed

text \<open>The contract fixes what find returns up to the order of documents with
  equal sort keys: two stores that meet it return the same documents, and the
  same sequence of sort keys, for every collection, filter and sort.\<close>

theorem find_determined_up_to_ties:
  assumes "valid_store db st1" and "valid_store db st2"
  shows "map (doc_sort_key ks) (find_op st1 c flt ks) = map (doc_sort_key ks) (find_op st2 c flt ks) \<and>
         mset (find_op st1 c flt ks) = mset (find_op st2 c flt ks)"
  using sorted_mset_map_eq [of "find_op st1 c flt ks" "find_op st2 c flt ks" "doc_sort_key ks"]
    valid_store_find_mset [OF assms(1)] valid_store_find_mset [OF assms(2)]
    valid_store_find_sorted [OF assms(1)] valid_store_find_sorted [OF assms(2)]
  by simp

theorem find_determined_up_to_ties_witness:
  "map (doc_sort_key [''Month'']) (find_op (ref_store (\<lambda>c. [[(''Month'', PInt 2), (''n'', PInt 7)], [(''Month'', PInt 1), (''n'', PInt 8)], [(''Month'', PInt 2), (''n'', PInt 9)]])) ''m'' [] [''Month''])
     = map (doc_sort_key [''Month'']) (find_op (ref_store (\<lambda>c. rev [[(''Month'', PInt 2), (''n'', PInt 7)], [(''Month'', PInt 1), (''n'', PInt 8)], [(''Month'', PInt 2), (''n'', PInt 9)]])) ''m'' [] [''Month'']) \<and>
   mset (find_op (ref_store (\<lambda>c. [[(''Month'', PInt 2), (''n'', PInt 7)], [(''Month'', PInt 1), (''n'', PInt 8)], [(''Month'', PInt 2), (''n'', PInt 9)]])) ''m'' [] [''Month''])
     = mset (find_op (ref_store (\<lambda>c. rev [[(''Month'', PInt 2), (''n'', PInt 7)], [(''Month'', PInt 1), (''n'', PInt 8)], [(''Month'', PInt 2), (''n'', PInt 9)]])) ''m'' [] [''Month''])"
  by (rule find_determined_up_to_ties [OF ref_store_valid ref_store_valid_perm]) simp


end
