(* ===== verification/ProcessSearch.thy ===== *)
theory ProcessSearch
  imports PyValue
begin

text \<open>
  \<^verbatim>\<open>process_search\<close> (\<^verbatim>\<open>src/ch06/web/report_flask.py\<close>, lines 21--29): from a
  search response, the \<^verbatim>\<open>_source\<close> of every hit and the total. The
  \<^verbatim>\<open>for\<close> loop that appends each \<^verbatim>\<open>hit["_source"]\<close> to \<^verbatim>\<open>records\<close> is
  \<open>collect_sources\<close>, with \<^verbatim>\<open>records\<close> as its accumulator. \<^verbatim>\<open>total\<close> is
  assigned only inside the \<^verbatim>\<open>if\<close>; when the condition is false,
  \<^verbatim>\<open>return records, total\<close> reads an unbound local and raises
  \<^verbatim>\<open>UnboundLocalError\<close>. The expression \<^verbatim>\<open>results["hits"]\<close> is evaluated
  again at each use in the source; it has no effect, so the model evaluates it
  once and reuses the value.
\<close>

fun collect_sources :: "pyval list \<Rightarrow> pyval list \<Rightarrow> pyval list py_result" where
  "collect_sources records [] = Inr records"
| "collect_sources records (hit # hits) =
     py_bind (py_getitem hit ''_source'') (\<lambda>record. collect_sources (records @ [record]) hits)"

definition process_search :: "pyval \<Rightarrow> (pyval list \<times> pyval) py_result" where
  "process_search results =
     py_bind (py_getitem results ''hits'') (\<lambda>rh.
     py_bind (if py_truthy rh
              then py_bind (py_getitem rh ''hits'') (\<lambda>hh. Inr (py_truthy hh))
              else Inr False) (\<lambda>cond.
     if cond then
       py_bind (py_getitem rh ''total'') (\<lambda>tot.
       py_bind (py_getitem rh ''hits'') (\<lambda>hits.
       py_bind (py_iter hits) (\<lambda>items.
       py_bind (collect_sources [] items) (\<lambda>records.
       Inr (records, tot)))))
     else Inl UnboundLocalError))"

text \<open>The shape of a response of the Elasticsearch client, with the fields the
  code reads: \<^verbatim>\<open>{"hits": {"total": t, "hits": [...]}}\<close>.\<close>

definition es_response :: "pyval \<Rightarrow> pyval list \<Rightarrow> pyval" where
  "es_response tot hits = PDict [(''hits'', PDict [(''total'', tot), (''hits'', PList hits)])]"

definition has_sources :: "pyval list \<Rightarrow> pyval list \<Rightarrow> bool" where
  "has_sources hits srcs = list_all2 (\<lambda>hit s. py_getitem hit ''_source'' = Inr s) hits srcs"

section \<open>The loop\<close>

lemma collect_sources_Inr_iff:
  "collect_sources acc hits = Inr out \<longleftrightarrow> (\<exists>srcs. out = acc @ srcs \<and> has_sources hits srcs)"
proof (induction hits arbitrary: acc)
  case Nil
  show ?case by (auto simp: has_sources_def)
next
  case (Cons hit hits)
  show ?case
    by (auto simp: Cons has_sources_def list_all2_Cons1)
qed

lemma collect_sources_PStr:
  "(\<forall>x\<in>set items. \<exists>s. x = PStr s) \<Longrightarrow> items \<noteq> [] \<Longrightarrow>
   collect_sources acc items = Inl TypeError"
  by (cases items) auto

text \<open>The loop succeeds on a non-empty iteration only over a list: a dictionary
  or a string yields strings, and subscripting a string raises.\<close>

lemma iter_collect_nonempty:
  assumes "py_truthy hits" and "py_iter hits = Inr items"
    and "collect_sources [] items = Inr recs"
  shows "\<exists>hs. hits = PList hs \<and> items = hs"
proof (cases hits)
  case (PDict d)
  with assms have "collect_sources [] items = Inl TypeError"
    by (intro collect_sources_PStr) auto
  with assms show ?thesis by simp
next
  case (PStr s)
  with assms have "collect_sources [] items = Inl TypeError"
    by (intro collect_sources_PStr) auto
  with assms show ?thesis by simp
qed (use assms in auto)

section \<open>Properties\<close>

text \<open>C2: a search that finds nothing makes \<open>process_search\<close> raise
  \<^verbatim>\<open>UnboundLocalError\<close> instead of returning no records: whenever
  \<^verbatim>\<open>results["hits"]\<close> is empty or its \<^verbatim>\<open>"hits"\<close> list is empty, \<^verbatim>\<open>total\<close>
  is never assigned.\<close>

theorem process_search_no_hits:
  assumes "py_getitem results ''hits'' = Inr rh"
    and "\<not> py_truthy rh \<or> py_getitem rh ''hits'' = Inr hh \<and> \<not> py_truthy hh"
  shows "process_search results = Inl UnboundLocalError"
  using assms by (auto simp: process_search_def)

theorem process_search_no_hits_witness:
  "process_search (es_response (PDict [(''value'', PInt 0)]) []) = Inl UnboundLocalError"
  by (rule process_search_no_hits [where hh = "PList []"]) (simp add: es_response_def)+

text \<open>C20: \<open>process_search\<close> succeeds exactly on a response whose
  \<^verbatim>\<open>"hits"\<close> holds a \<^verbatim>\<open>"total"\<close> and a non-empty list of hits each with
  a \<^verbatim>\<open>"_source"\<close>, and then returns the sources in the order of the hits,
  one per hit, with the total.\<close>

theorem process_search_Inr_iff:
  "process_search results = Inr (recs, t) \<longleftrightarrow>
   (\<exists>rh hs. py_getitem results ''hits'' = Inr rh \<and> py_getitem rh ''total'' = Inr t \<and>
            py_getitem rh ''hits'' = Inr (PList hs) \<and> hs \<noteq> [] \<and> has_sources hs recs)"
  (is "?l \<longleftrightarrow> ?r")
proof
  assume ?l
  then obtain rh hits items where rh: "py_getitem results ''hits'' = Inr rh"
    and t: "py_getitem rh ''total'' = Inr t" and h: "py_getitem rh ''hits'' = Inr hits"
    and tr: "py_truthy hits" and it: "py_iter hits = Inr items"
    and c: "collect_sources [] items = Inr recs"
    by (auto simp: process_search_def split: if_splits)
  from iter_collect_nonempty [OF tr it c] obtain hs where "hits = PList hs" "items = hs"
    by blast
  with rh t h tr c show ?r by (auto simp: collect_sources_Inr_iff)
next
  assume ?r
  then obtain rh hs where rh: "py_getitem results ''hits'' = Inr rh"
    and t: "py_getitem rh ''total'' = Inr t" and h: "py_getitem rh ''hits'' = Inr (PList hs)"
    and ne: "hs \<noteq> []" and src: "has_sources hs recs"
    by blast
  from t have "py_truthy rh" by (rule py_getitem_truthy)
  with rh t h ne src show ?l
    by (simp add: process_search_def collect_sources_Inr_iff)
qed

text \<open>On a well-formed response with at least one hit,
  \<open>process_search\<close> returns the hits' sources and the total.\<close>

theorem process_search_es_response:
  assumes "hits \<noteq> []" and "has_sources hits srcs"
  shows "process_search (es_response t hits) = Inr (srcs, t)"
  using assms by (simp add: process_search_def es_response_def collect_sources_Inr_iff)

theorem process_search_es_response_witness:
  "process_search (es_response (PInt 2)
      [PDict [(''_source'', PStr ''a'')], PDict [(''_id'', PInt 7), (''_source'', PStr ''b'')]])
   = Inr ([PStr ''a'', PStr ''b''], PInt 2)"
  by (rule process_search_es_response) (simp_all add: has_sources_def)

end
