(* ===== verification/SearchEngine.thy ===== *)
theory SearchEngine
  imports DocStore ProcessSearch
begin

text \<open>
  The search engine the two search controllers of
  \<^verbatim>\<open>src/ch06/web/report_flask.py\<close> call through the Elasticsearch 7 client
  (\<^verbatim>\<open>elastic = Elasticsearch(config.ELASTIC_URL)\<close>, line 17, and
  \<^verbatim>\<open>elastic.search(query, index="agile_data_science")\<close>, lines 161 and 309).
  The body the controllers send is the record \<open>es_query\<close>: the ``must''
  match clauses as field/value pairs in order, the optional sort, \<^verbatim>\<open>from\<close>
  and \<^verbatim>\<open>size\<close>. The client is a function \<open>es_client\<close> of the index name and
  the body that returns the decoded response or raises; an index holds
  documents (\<open>es_db\<close>), as a MongoDB collection does.

  Like the document store, the engine is verified against a contract,
  \<open>valid_es\<close>, and an executable engine \<open>ref_es\<close> meets it. A request whose
  window is out of range (\<^verbatim>\<open>from\<close> or \<^verbatim>\<open>size\<close> negative, or \<^verbatim>\<open>from + size\<close>
  above \<^verbatim>\<open>index.max_result_window\<close>, 10000 by default) is refused with
  HTTP 400, which the client raises as \<^verbatim>\<open>RequestError\<close>. Otherwise the
  matching documents, a list \<open>L\<close> holding each document of the index that
  satisfies every clause (\<open>hit_matches\<close>) exactly as often as the index
  does, sorted ascending on the sort fields that precede \<^verbatim>\<open>_score\<close>
  (\<open>sort_fields\<close>; missing values last, the order of ties left open), are
  cut to the window \<^verbatim>\<open>from\<close>..\<^verbatim>\<open>from + size\<close> (\<open>es_page\<close>), and the response
  carries the hits and the total. Elasticsearch 7 reports the total as an
  object \<^verbatim>\<open>{"value": n, "relation": "eq"}\<close>, counted exactly only up to
  \<^verbatim>\<open>track_total_hits\<close> (10000 by default) and given as
  \<^verbatim>\<open>{"value": 10000, "relation": "gte"}\<close> above (\<open>es_total\<close>). Whether a
  field value matches the text of a \<^verbatim>\<open>match\<close> clause depends on the index's
  analyser, a parameter \<open>mt\<close> of the contract; the witnesses use the exact
  match of a keyword field (\<open>keyword_match\<close>). Sort values are strings and
  integers; the key gives values of other types the rank of a missing value.
\<close>

datatype sort_key = SortAsc string | SortScore

record es_query =
  q_must :: "(string \<times> string) list"
  q_sort :: "sort_key list option"
  q_from :: int
  q_size :: int

type_synonym es_client = "string \<Rightarrow> es_query \<Rightarrow> pyval py_result"
type_synonym es_db = "string \<Rightarrow> document list"

definition max_result_window :: int where
  "max_result_window = 10000"

definition track_total_hits :: nat where
  "track_total_hits = 10000"

definition es_total :: "nat \<Rightarrow> pyval" where
  "es_total n =
     PDict [(''value'', PInt (int (min n track_total_hits))),
            (''relation'', PStr (if n \<le> track_total_hits then ''eq'' else ''gte''))]"

definition es_hit :: "string \<Rightarrow> document \<Rightarrow> pyval" where
  "es_hit idx d = PDict [(''_index'', PStr idx), (''_source'', PDict d)]"

definition clause_matches :: "(pyval \<Rightarrow> string \<Rightarrow> bool) \<Rightarrow> document \<Rightarrow> string \<times> string \<Rightarrow> bool" where
  "clause_matches mt d c = (case map_of d (fst c) of None \<Rightarrow> False | Some x \<Rightarrow> mt x (snd c))"

definition hit_matches :: "(pyval \<Rightarrow> string \<Rightarrow> bool) \<Rightarrow> es_query \<Rightarrow> document \<Rightarrow> bool" where
  "hit_matches mt q d = list_all (clause_matches mt d) (q_must q)"

definition sort_fields :: "es_query \<Rightarrow> string list" where
  "sort_fields q =
     (case q_sort q of
        None \<Rightarrow> []
      | Some ks \<Rightarrow> map (\<lambda>k. case k of SortAsc f \<Rightarrow> f | SortScore \<Rightarrow> []) (takeWhile (\<lambda>k. k \<noteq> SortScore) ks))"

fun es_value_key :: "pyval option \<Rightarrow> nat \<times> int \<times> string" where
  "es_value_key (Some (PInt n)) = (0, n, [])"
| "es_value_key (Some (PStr s)) = (0, 0, s)"
| "es_value_key _ = (1, 0, [])"

definition es_sort_key :: "string list \<Rightarrow> document \<Rightarrow> (nat \<times> int \<times> string) list" where
  "es_sort_key ks d = map (\<lambda>k. es_value_key (map_of d k)) ks"

definition window_ok :: "es_query \<Rightarrow> bool" where
  "window_ok q \<longleftrightarrow> 0 \<le> q_from q \<and> 0 \<le> q_size q \<and> q_from q + q_size q \<le> max_result_window"

definition es_page :: "es_query \<Rightarrow> 'a list \<Rightarrow> 'a list" where
  "es_page q xs = take (nat (q_size q)) (drop (nat (q_from q)) xs)"

definition es_answer :: "string \<Rightarrow> es_query \<Rightarrow> document list \<Rightarrow> pyval" where
  "es_answer idx q L = es_response (es_total (length L)) (map (es_hit idx) (es_page q L))"

definition valid_es :: "(pyval \<Rightarrow> string \<Rightarrow> bool) \<Rightarrow> es_db \<Rightarrow> es_client \<Rightarrow> bool" where
  "valid_es mt db es \<longleftrightarrow>
     (\<forall>idx q. \<not> window_ok q \<longrightarrow> es idx q = Inl RequestError) \<and>
     (\<forall>idx q. window_ok q \<longrightarrow>
        (\<exists>L. mset L = mset (filter (hit_matches mt q) (db idx)) \<and>
             sorted (map (es_sort_key (sort_fields q)) L) \<and> es idx q = Inr (es_answer idx q L)))"

definition ref_es :: "(pyval \<Rightarrow> string \<Rightarrow> bool) \<Rightarrow> es_db \<Rightarrow> es_client" where
  "ref_es mt db idx q =
     (if window_ok q
      then Inr (es_answer idx q (sort_key (es_sort_key (sort_fields q)) (filter (hit_matches mt q) (db idx))))
      else Inl RequestError)"

definition keyword_match :: "pyval \<Rightarrow> string \<Rightarrow> bool" where
  "keyword_match x v \<longleftrightarrow> x = PStr v"

section \<open>Lemmas\<close>

lemma ref_es_valid: "valid_es mt db (ref_es mt db)"
  unfolding valid_es_def ref_es_def
  by (auto intro!: exI [of _ "sort_key (es_sort_key (sort_fields _)) (filter (hit_matches mt _) (db _))"])

lemma valid_es_refused:
  "valid_es mt db es \<Longrightarrow> \<not> window_ok q \<Longrightarrow> es idx q = Inl RequestError"
  by (simp add: valid_es_def)

lemma valid_es_answer:
  assumes "valid_es mt db es" and "window_ok q"
  obtains L where "mset L = mset (filter (hit_matches mt q) (db idx))"
    and "sorted (map (es_sort_key (sort_fields q)) L)" and "es idx q = Inr (es_answer idx q L)"
  using assms unfolding valid_es_def by blast

text \<open>What \<open>process_search\<close> makes of an answer: the sources of the page
  and the total object, or \<^verbatim>\<open>UnboundLocalError\<close> when the page is empty.\<close>

lemma has_sources_es_hit: "has_sources (map (es_hit idx) ds) (map PDict ds)"
  by (induction ds) (simp_all add: has_sources_def es_hit_def)

lemma process_search_answer:
  "process_search (es_answer idx q L) =
     (if es_page q L = [] then Inl UnboundLocalError
      else Inr (map PDict (es_page q L), es_total (length L)))"
  using has_sources_es_hit [of idx "es_page q L"]
  by (auto simp: es_answer_def process_search_def es_response_def collect_sources_Inr_iff)

text \<open>A successful \<open>process_search\<close> of an engine's answer gives the
  window of a sorted arrangement of the matching documents and its total.\<close>

lemma valid_es_process:
  assumes "valid_es mt db es" and "es idx q = Inr results"
    and "process_search results = Inr (recs, tot)"
  shows "\<exists>L. mset L = mset (filter (hit_matches mt q) (db idx)) \<and>
             sorted (map (es_sort_key (sort_fields q)) L) \<and>
             recs = map PDict (es_page q L) \<and> tot = es_total (length L)"
proof -
  have "window_ok q"
    using assms(2) valid_es_refused [OF assms(1), of q idx] by (cases "window_ok q") auto
  then obtain L where L: "mset L = mset (filter (hit_matches mt q) (db idx))"
    and s: "sorted (map (es_sort_key (sort_fields q)) L)" and a: "es idx q = Inr (es_answer idx q L)"
    using valid_es_answer [OF assms(1)] by blast
  from assms(2) a have "results = es_answer idx q L" by simp
  with assms(3) have "recs = map PDict (es_page q L) \<and> tot = es_total (length L)"
    by (simp add: process_search_answer split: if_splits)
  with L s show ?thesis by blast
qed

lemma es_page_Nil_iff:
  "window_ok q \<Longrightarrow> es_page q L = [] \<longleftrightarrow> q_size q = 0 \<or> int (length L) \<le> q_from q"
  by (auto simp: es_page_def window_ok_def)

lemma hit_matches_must: "q_must q = q_must q' \<Longrightarrow> hit_matches mt q = hit_matches mt q'"
  by (simp add: hit_matches_def fun_eq_iff)

end
