(* ===== verification/Regex.thy ===== *)
theory Regex
  imports Prelude
begin

text \<open>
  A model of Python's \<^verbatim>\<open>re.match\<close> for the fragment of the regular-expression
  language that \<^verbatim>\<open>strip_place\<close> uses: literal characters, the dot (any
  character but a newline), the greedy one-or-more repetition \<^verbatim>\<open>+\<close> of a
  single-character pattern, capturing groups and concatenation. The module is
  the standard library's, not the repository's; it is modelled because the
  behaviour of \<^verbatim>\<open>strip_place\<close> is the behaviour of this match.

  Python's engine is a backtracking matcher: it tries the alternatives of a
  greedy repetition longest first and returns the first complete match it
  finds. \<open>matches r s\<close> is the list of all ways \<open>r\<close> matches a prefix of
  \<open>s\<close>, in the order the engine tries them: each is the rest of the input and
  the strings captured by the groups, left to right. \<^verbatim>\<open>re.match\<close> is the
  first of them (\<open>re_match\<close>); \<^verbatim>\<open>None\<close> when there is none. The lemmas
  relate the matcher to the language predicate \<open>full_match\<close>: a result exists
  for a split exactly when the consumed prefix is in the language
  (\<open>matches_complete\<close>), and the repetition lists its splits longest first.
\<close>

datatype re_atom = AnyChar | Lit char

datatype regex =
    REmpty
  | RAtom re_atom
  | RPlus re_atom
  | RGroup regex
  | RSeq regex regex

fun atom_ok :: "re_atom \<Rightarrow> char \<Rightarrow> bool" where
  "atom_ok AnyChar c = (c \<noteq> newline)"
| "atom_ok (Lit d) c = (c = d)"

text \<open>A literal string, as the concatenation of its characters.\<close>

fun re_lits :: "string \<Rightarrow> regex" where
  "re_lits [] = REmpty"
| "re_lits (c # cs) = RSeq (RAtom (Lit c)) (re_lits cs)"

text \<open>The rests of the input after a greedy \<open>a+\<close>: the longest repetition first,
  one character less at each backtracking step.\<close>

fun plus_rests :: "re_atom \<Rightarrow> string \<Rightarrow> string list" where
  "plus_rests a [] = []"
| "plus_rests a (c # cs) = (if atom_ok a c then plus_rests a cs @ [cs] else [])"

fun matches :: "regex \<Rightarrow> string \<Rightarrow> (string \<times> string list) list" where
  "matches REmpty s = [(s, [])]"
| "matches (RAtom a) s =
     (case s of [] \<Rightarrow> [] | c # cs \<Rightarrow> if atom_ok a c then [(cs, [])] else [])"
| "matches (RPlus a) s = map (\<lambda>r. (r, [])) (plus_rests a s)"
| "matches (RGroup r) s =
     map (\<lambda>(rest, gs). (rest, take (length s - length rest) s # gs)) (matches r s)"
| "matches (RSeq r1 r2) s =
     concat (map (\<lambda>(rest, gs). map (\<lambda>(rest', gs'). (rest', gs @ gs')) (matches r2 rest))
                 (matches r1 s))"

text \<open>The match object: the captured groups, or \<^verbatim>\<open>None\<close>.\<close>

definition re_match :: "regex \<Rightarrow> string \<Rightarrow> string list option" where
  "re_match r s = (case matches r s of [] \<Rightarrow> None | (rest, gs) # _ \<Rightarrow> Some gs)"

text \<open>\<^verbatim>\<open>m.group(n)\<close> on the value of \<^verbatim>\<open>re.match\<close>: on \<^verbatim>\<open>None\<close> the
  attribute does not exist (\<^verbatim>\<open>AttributeError\<close>); a group number out of range
  raises \<^verbatim>\<open>IndexError\<close>.\<close>

definition re_group :: "string list option \<Rightarrow> nat \<Rightarrow> string py_result" where
  "re_group m n =
     (case m of None \<Rightarrow> Inl AttributeError
      | Some gs \<Rightarrow> if 1 \<le> n \<and> n \<le> length gs then Inr (gs ! (n - 1)) else Inl IndexError)"

text \<open>The language of a pattern, as a predicate on the whole matched string.\<close>

fun full_match :: "regex \<Rightarrow> string \<Rightarrow> bool" where
  "full_match REmpty w = (w = [])"
| "full_match (RAtom a) w = (case w of [c] \<Rightarrow> atom_ok a c | _ \<Rightarrow> False)"
| "full_match (RPlus a) w = (w \<noteq> [] \<and> list_all (atom_ok a) w)"
| "full_match (RGroup r) w = full_match r w"
| "full_match (RSeq r1 r2) w =
     list_ex (\<lambda>k. full_match r1 (take k w) \<and> full_match r2 (drop k w)) [0..<Suc (length w)]"

fun groups :: "regex \<Rightarrow> nat" where
  "groups REmpty = 0"
| "groups (RAtom a) = 0"
| "groups (RPlus a) = 0"
| "groups (RGroup r) = Suc (groups r)"
| "groups (RSeq r1 r2) = groups r1 + groups r2"

section \<open>The repetition\<close>

lemma plus_rests_explicit:
  "plus_rests a s = map (\<lambda>k. drop (Suc k) s) (rev [0..<length (takeWhile (atom_ok a) s)])"
proof (induction s)
  case Nil
  show ?case by simp
next
  case (Cons c cs)
  show ?case
  proof (cases "atom_ok a c")
    case True
    have "rev [0..<Suc n] = rev (map Suc [0..<n]) @ [0]" for n
      by (simp add: upt_conv_Cons map_Suc_upt)
    with True Cons show ?thesis by (simp add: rev_map comp_def)
  qed simp
qed

lemma plus_rests_sound:
  "rest \<in> set (plus_rests a s) \<Longrightarrow> \<exists>w. s = w @ rest \<and> w \<noteq> [] \<and> list_all (atom_ok a) w"
proof (induction s)
  case (Cons c cs)
  then show ?case by (auto split: if_splits intro: exI [of _ "[c]"])
qed simp

lemma plus_rests_complete:
  "w \<noteq> [] \<Longrightarrow> list_all (atom_ok a) w \<Longrightarrow> rest \<in> set (plus_rests a (w @ rest))"
proof (induction w)
  case (Cons c w)
  then show ?case by (cases w) auto
qed simp

section \<open>The language\<close>

lemma full_match_RAtom: "full_match (RAtom a) w \<longleftrightarrow> (\<exists>c. w = [c] \<and> atom_ok a c)"
  by (auto split: list.splits)

lemma full_match_RSeq:
  "full_match (RSeq r1 r2) w \<longleftrightarrow> (\<exists>u v. w = u @ v \<and> full_match r1 u \<and> full_match r2 v)"
proof
  assume "full_match (RSeq r1 r2) w"
  then have "list_ex (\<lambda>k. full_match r1 (take k w) \<and> full_match r2 (drop k w))
               [0..<Suc (length w)]"
    by simp
  then obtain k where "full_match r1 (take k w)" "full_match r2 (drop k w)"
    unfolding list_ex_iff by blast
  then show "\<exists>u v. w = u @ v \<and> full_match r1 u \<and> full_match r2 v"
    by (metis append_take_drop_id)
next
  assume "\<exists>u v. w = u @ v \<and> full_match r1 u \<and> full_match r2 v"
  then obtain u v where "w = u @ v" "full_match r1 u" "full_match r2 v" by blast
  then show "full_match (RSeq r1 r2) w"
    by (auto simp: list_ex_iff intro!: bexI [of _ "length u"])
qed

declare full_match.simps(2) [simp del] full_match.simps(5) [simp del]
declare full_match_RAtom [simp] full_match_RSeq [simp]

lemma full_match_re_lits [simp]: "full_match (re_lits t) w \<longleftrightarrow> w = t"
proof (induction t arbitrary: w)
  case Nil
  show ?case by simp
next
  case (Cons c cs)
  show ?case
    by (simp add: Cons)
qed

section \<open>The matcher against the language\<close>

lemma matches_sound:
  "(rest, gs) \<in> set (matches r s) \<Longrightarrow> \<exists>w. s = w @ rest \<and> full_match r w"
proof (induction r arbitrary: s rest gs)
  case REmpty
  then show ?case by simp
next
  case (RAtom a)
  then show ?case by (auto split: list.splits if_splits)
next
  case (RPlus a)
  then show ?case by (auto dest: plus_rests_sound)
next
  case (RGroup r)
  then show ?case by auto
next
  case (RSeq r1 r2)
  from RSeq.prems obtain mid gs1 gs2 where m1: "(mid, gs1) \<in> set (matches r1 s)"
    and m2: "(rest, gs2) \<in> set (matches r2 mid)"
    by auto
  from RSeq.IH(1) [OF m1] obtain w1 where "s = w1 @ mid" "full_match r1 w1" by blast
  moreover from RSeq.IH(2) [OF m2] obtain w2 where "mid = w2 @ rest" "full_match r2 w2"
    by blast
  ultimately show ?case by (intro exI [of _ "w1 @ w2"]) auto
qed

lemma matches_complete:
  "full_match r w \<Longrightarrow> \<exists>gs. (rest, gs) \<in> set (matches r (w @ rest))"
proof (induction r arbitrary: w rest)
  case REmpty
  then show ?case by simp
next
  case (RAtom a)
  then show ?case by auto
next
  case (RPlus a)
  then show ?case by (auto intro: plus_rests_complete)
next
  case (RGroup r)
  then show ?case by fastforce
next
  case (RSeq r1 r2)
  from RSeq.prems obtain u v where w: "w = u @ v" and "full_match r1 u" "full_match r2 v"
    by auto
  with RSeq.IH obtain gs1 gs2 where "(v @ rest, gs1) \<in> set (matches r1 (u @ v @ rest))"
    and "(rest, gs2) \<in> set (matches r2 (v @ rest))"
    by blast
  with w show ?case by force
qed

lemma matches_groups:
  "(rest, gs) \<in> set (matches r s) \<Longrightarrow> length gs = groups r"
  by (induction r arbitrary: s rest gs) (auto split: list.splits if_splits)

lemma groups_re_lits [simp]: "groups (re_lits t) = 0"
  by (induction t) simp_all

lemma matches_nonempty_iff:
  "matches r s \<noteq> [] \<longleftrightarrow> (\<exists>w rest. s = w @ rest \<and> full_match r w)"
proof
  assume "matches r s \<noteq> []"
  then obtain rest gs where "(rest, gs) \<in> set (matches r s)"
    by (metis list.set_intros(1) neq_Nil_conv surj_pair)
  then show "\<exists>w rest. s = w @ rest \<and> full_match r w"
    by (blast dest: matches_sound)
next
  assume "\<exists>w rest. s = w @ rest \<and> full_match r w"
  then obtain w rest where s: "s = w @ rest" and "full_match r w" by blast
  then obtain gs where "(rest, gs) \<in> set (matches r (w @ rest))"
    using matches_complete by blast
  with s show "matches r s \<noteq> []" by auto
qed

section \<open>A greedy group followed by a pattern without groups\<close>

lemma matches_group_plus:
  "matches (RGroup (RPlus a)) s =
     map (\<lambda>k. (drop (Suc k) s, [take (Suc k) s])) (rev [0..<length (takeWhile (atom_ok a) s)])"
proof -
  have "length (takeWhile (atom_ok a) s) \<le> length s" by (rule length_takeWhile_le)
  then show ?thesis by (auto simp: plus_rests_explicit)
qed

text \<open>The match of \<open>(a+)t\<close> captures the longest prefix of \<open>a\<close>s after which
  \<open>t\<close> matches: the greedy repetition is tried longest first and the first
  success wins.\<close>

lemma re_match_first:
  "re_match r s = map_option snd (case matches r s of [] \<Rightarrow> None | y # _ \<Rightarrow> Some y)"
  by (simp add: re_match_def split: list.splits)

lemma re_match_group_plus_seq:
  assumes "groups t = 0"
  shows "re_match (RSeq (RGroup (RPlus a)) t) s =
     map_option (\<lambda>k. [take (Suc k) s])
       (List.find (\<lambda>k. matches t (drop (Suc k) s) \<noteq> []) (rev [0..<length (takeWhile (atom_ok a) s)]))"
proof -
  let ?n = "length (takeWhile (atom_ok a) s)"
  let ?f = "\<lambda>k. map (\<lambda>(rest', gs'). (rest', take (Suc k) s # gs')) (matches t (drop (Suc k) s))"
  have hd_groups: "snd (hd (matches t r)) = []" if "matches t r \<noteq> []" for r
    using that assms matches_groups [of "fst (hd (matches t r))" "snd (hd (matches t r))" t r]
    by (cases "matches t r") auto
  have m: "matches (RSeq (RGroup (RPlus a)) t) s = concat (map ?f (rev [0..<?n]))"
    by (simp only: matches.simps(5) matches_group_plus) (simp add: comp_def)
  have ne: "(?f k \<noteq> []) = (matches t (drop (Suc k) s) \<noteq> [])" for k
    by simp
  have hd: "snd (hd (?f k)) = [take (Suc k) s]" if "matches t (drop (Suc k) s) \<noteq> []" for k
    using that hd_groups [of "drop (Suc k) s"] by (cases "matches t (drop (Suc k) s)") auto
  show ?thesis
    unfolding re_match_first m first_concat_map ne
    by (auto dest!: find_SomeD intro: hd split: option.splits)
qed

section \<open>Properties\<close>

text \<open>The backtracking matcher refines the language of the pattern: it
  offers a way to leave exactly the rest \<open>rest\<close> of the input precisely when
  the consumed prefix is a word of the pattern's language.\<close>

theorem matches_refines_full_match:
  "(\<exists>gs. (rest, gs) \<in> set (matches r s)) \<longleftrightarrow> (\<exists>w. s = w @ rest \<and> full_match r w)"
proof
  assume "\<exists>gs. (rest, gs) \<in> set (matches r s)"
  then show "\<exists>w. s = w @ rest \<and> full_match r w" by (blast dest: matches_sound)
next
  assume "\<exists>w. s = w @ rest \<and> full_match r w"
  then show "\<exists>gs. (rest, gs) \<in> set (matches r s)" by (blast dest: matches_complete)
qed

text \<open>\<open>re_match\<close> returns \<^verbatim>\<open>None\<close> exactly when no prefix of the input is
  in the pattern's language.\<close>

theorem re_match_None_iff:
  "re_match r s = None \<longleftrightarrow> \<not> (\<exists>w rest. s = w @ rest \<and> full_match r w)"
proof -
  have "re_match r s = None \<longleftrightarrow> matches r s = []"
    by (simp add: re_match_def split: list.splits)
  then show ?thesis using matches_nonempty_iff [of r s] by blast
qed

end
