(* ===== verification/StripPlace.thy ===== *)
theory StripPlace
  imports Regex
begin

text \<open>
  \<^verbatim>\<open>strip_place\<close> (\<^verbatim>\<open>src/ch06/web/report_flask.py\<close>, lines 47--52) cuts
  the paging parameters off the request URL so that the page template can
  append new ones:
  \<^verbatim>\<open>p = re.match("(.+)&start=.+&end=.+", url).group(1)\<close>, and the URL
  unchanged when \<^verbatim>\<open>re.match\<close> returns \<^verbatim>\<open>None\<close> and \<^verbatim>\<open>.group\<close> raises
  \<^verbatim>\<open>AttributeError\<close>. The pattern is \<open>place_pattern\<close>, the part after the
  group \<open>place_tail\<close>. The result is characterised by \<open>place_split\<close>: a
  split of the URL into a non-empty prefix without newlines, \<^verbatim>\<open>&start=\<close>,
  a non-empty stretch, \<^verbatim>\<open>&end=\<close>, a non-empty stretch and anything. The
  greedy group keeps the longest such prefix, so everything after the value
  of \<^verbatim>\<open>end\<close>, other parameters included, is cut as well.
\<close>

definition place_tail :: regex where
  "place_tail =
     RSeq (re_lits ''&start='') (RSeq (RPlus AnyChar) (RSeq (re_lits ''&end='') (RPlus AnyChar)))"

definition place_pattern :: regex where
  "place_pattern = RSeq (RGroup (RPlus AnyChar)) place_tail"

definition strip_place :: "string \<Rightarrow> string py_result" where
  "strip_place url =
     (case re_group (re_match place_pattern url) 1 of
        Inl e \<Rightarrow> if e = AttributeError then Inr url else Inl e
      | Inr p \<Rightarrow> Inr p)"

definition place_split :: "string \<Rightarrow> string \<Rightarrow> bool" where
  "place_split url p \<longleftrightarrow>
     (\<exists>a b c. url = p @ ''&start='' @ a @ ''&end='' @ b @ c \<and>
              p \<noteq> [] \<and> no_newline p \<and> a \<noteq> [] \<and> no_newline a \<and> b \<noteq> [] \<and> no_newline b)"

section \<open>The match\<close>

lemma list_all_AnyChar [simp]: "list_all (atom_ok AnyChar) w = no_newline w"
  by (induction w) simp_all

lemma full_match_place_tail:
  "full_match place_tail w \<longleftrightarrow>
     (\<exists>a b. w = ''&start='' @ a @ ''&end='' @ b \<and>
            a \<noteq> [] \<and> no_newline a \<and> b \<noteq> [] \<and> no_newline b)"
  by (auto simp: place_tail_def)

lemma place_tail_matches_iff:
  "matches place_tail r \<noteq> [] \<longleftrightarrow>
     (\<exists>a b c. r = ''&start='' @ a @ ''&end='' @ b @ c \<and>
              a \<noteq> [] \<and> no_newline a \<and> b \<noteq> [] \<and> no_newline b)"
  (is "?l \<longleftrightarrow> ?r")
proof
  assume ?l
  then obtain w rest where r: "r = w @ rest" and "full_match place_tail w"
    unfolding matches_nonempty_iff by blast
  then obtain a b where "w = ''&start='' @ a @ ''&end='' @ b"
    and "a \<noteq> []" "no_newline a" "b \<noteq> []" "no_newline b"
    unfolding full_match_place_tail by blast
  with r show ?r by (intro exI [of _ a] exI [of _ b] exI [of _ rest]) simp
next
  assume ?r
  then obtain a b c where r: "r = ''&start='' @ a @ ''&end='' @ b @ c"
    and "a \<noteq> []" "no_newline a" "b \<noteq> []" "no_newline b"
    by blast
  then have "full_match place_tail (''&start='' @ a @ ''&end='' @ b)"
    unfolding full_match_place_tail by blast
  with r show ?l
    unfolding matches_nonempty_iff
    by (intro exI [of _ "''&start='' @ a @ ''&end='' @ b"] exI [of _ c]) simp
qed

abbreviation tail_at :: "string \<Rightarrow> nat \<Rightarrow> bool" where
  "tail_at url k \<equiv> matches place_tail (drop (Suc k) url) \<noteq> []"

abbreviation dot_run :: "string \<Rightarrow> nat" where
  "dot_run url \<equiv> length (takeWhile (atom_ok AnyChar) url)"

lemma strip_place_find:
  "strip_place url =
     Inr (case List.find (tail_at url) (rev [0..<dot_run url]) of
            None \<Rightarrow> url
          | Some k \<Rightarrow> take (Suc k) url)"
proof -
  have "groups place_tail = 0" by (simp add: place_tail_def)
  then show ?thesis
    by (simp add: strip_place_def place_pattern_def re_match_group_plus_seq re_group_def
             split: option.splits)
qed

lemma dot_run_iff:
  "k < dot_run url \<longleftrightarrow> Suc k \<le> length url \<and> no_newline (take (Suc k) url)"
  using le_length_takeWhile [of "Suc k" "atom_ok AnyChar" url] by (simp add: Suc_le_eq)

lemma place_split_iff:
  "place_split url p \<longleftrightarrow> (\<exists>k. p = take (Suc k) url \<and> k < dot_run url \<and> tail_at url k)"
  (is "?l \<longleftrightarrow> ?r")
proof
  assume ?l
  then obtain a b c where u: "url = p @ ''&start='' @ a @ ''&end='' @ b @ c"
    and p: "p \<noteq> []" "no_newline p" and ab: "a \<noteq> []" "no_newline a" "b \<noteq> []" "no_newline b"
    unfolding place_split_def by blast
  define k where "k = length p - 1"
  with p have len: "Suc k = length p" by (cases p) simp_all
  with u have tk: "take (Suc k) url = p" and dk: "drop (Suc k) url = ''&start='' @ a @ ''&end='' @ b @ c"
    by simp_all
  from len u have "Suc k \<le> length url" by simp
  with tk p have "k < dot_run url" by (simp add: dot_run_iff)
  moreover from dk ab have "tail_at url k"
    unfolding place_tail_matches_iff by blast
  ultimately show ?r using tk by blast
next
  assume ?r
  then obtain k where pk: "p = take (Suc k) url" and run: "k < dot_run url" and t: "tail_at url k"
    by blast
  from t obtain a b c where dk: "drop (Suc k) url = ''&start='' @ a @ ''&end='' @ b @ c"
    and ab: "a \<noteq> []" "no_newline a" "b \<noteq> []" "no_newline b"
    unfolding place_tail_matches_iff by blast
  from run have len: "Suc k \<le> length url" and nl: "no_newline p"
    by (simp_all add: dot_run_iff pk)
  from len pk have "p \<noteq> []" by (cases url) simp_all
  moreover have "url = p @ ''&start='' @ a @ ''&end='' @ b @ c"
    using pk dk append_take_drop_id [of "Suc k" url] by simp
  ultimately show ?l using nl ab unfolding place_split_def by blast
qed

lemma place_split_amp: "place_split url q \<Longrightarrow> CHR ''&'' \<in> set url"
  by (auto simp: place_split_def)

lemma strip_place_max_split:
  assumes "place_split url q"
  shows "\<exists>k. strip_place url = Inr (take (Suc k) url) \<and> place_split url (take (Suc k) url) \<and>
             length q \<le> Suc k \<and> Suc k \<le> length url"
proof -
  from assms obtain k where q: "q = take (Suc k) url" and run: "k < dot_run url"
    and t: "tail_at url k"
    by (auto simp: place_split_iff)
  then have "List.find (tail_at url) (rev [0..<dot_run url]) \<noteq> None"
    by (auto simp: find_rev_upt_None)
  then obtain k' where f: "List.find (tail_at url) (rev [0..<dot_run url]) = Some k'"
    by blast
  with run t have k': "k \<le> k'" "k' < dot_run url" "tail_at url k'"
    by (auto simp: find_rev_upt_Some not_less [symmetric])
  moreover from f have "strip_place url = Inr (take (Suc k') url)" by (simp add: strip_place_find)
  ultimately show ?thesis using q run
    by (intro exI [of _ k']) (auto simp: dot_run_iff place_split_iff)
qed

text \<open>A split of the URL that no other split is longer than is what
  \<open>strip_place\<close> returns.\<close>

lemma strip_place_of_longest:
  assumes "place_split url p" and "\<And>q. place_split url q \<Longrightarrow> length q \<le> length p"
  shows "strip_place url = Inr p"
proof -
  from strip_place_max_split [OF assms(1)] obtain k where
    s: "strip_place url = Inr (take (Suc k) url)" and sp: "place_split url (take (Suc k) url)"
    and le: "length p \<le> Suc k" and len: "Suc k \<le> length url"
    by blast
  from assms(2) [OF sp] len le have "length p = Suc k" by simp
  moreover from assms(1) obtain k0 where "p = take (Suc k0) url"
    by (auto simp: place_split_iff)
  ultimately have "p = take (Suc k) url" using len by (simp add: min_def split: if_splits)
  with s show ?thesis by simp
qed

text \<open>A URL without an ampersand has no split and comes back unchanged.\<close>

lemma strip_place_no_amp:
  assumes "CHR ''&'' \<notin> set url"
  shows "strip_place url = Inr url"
proof (cases "List.find (tail_at url) (rev [0..<dot_run url])")
  case None
  then show ?thesis by (simp add: strip_place_find)
next
  case (Some k)
  from find_SomeD [OF Some] have "place_split url (take (Suc k) url)"
    by (auto simp: place_split_iff)
  with assms show ?thesis by (auto dest: place_split_amp)
qed

lemmas strip_place_eval =
  strip_place_def place_pattern_def place_tail_def re_match_def re_group_def

section \<open>Properties\<close>

text \<open>C22: \<open>strip_place\<close> never raises and always returns a prefix of the
  URL: the only exception of the match, \<^verbatim>\<open>AttributeError\<close> on no match, is
  caught.\<close>

theorem strip_place_prefix:
  "\<exists>p. strip_place url = Inr p \<and> prefix p url"
  by (auto simp: strip_place_find take_is_prefix split: option.splits)

text \<open>C21: when \<open>strip_place\<close> changes the URL, what it returns is followed in
  the URL by \<^verbatim>\<open>&start=\<close>, a non-empty value, \<^verbatim>\<open>&end=\<close> and a non-empty
  value, and contains no newline.\<close>

theorem strip_place_split:
  assumes "strip_place url = Inr p" and "p \<noteq> url"
  shows "place_split url p"
proof (cases "List.find (tail_at url) (rev [0..<dot_run url])")
  case None
  with assms show ?thesis by (simp add: strip_place_find)
next
  case (Some k)
  with assms(1) have "p = take (Suc k) url" by (simp add: strip_place_find)
  moreover from find_SomeD [OF Some] have "k < dot_run url" "tail_at url k" by auto
  ultimately show ?thesis by (auto simp: place_split_iff)
qed

theorem strip_place_split_witness:
  "place_split ''/flights/search?Origin=ATL&start=0&end=20'' ''/flights/search?Origin=ATL''"
proof -
  have "strip_place ''/flights/search?Origin=ATL&start=0&end=20'' = Inr ''/flights/search?Origin=ATL''"
    by (simp add: strip_place_eval)
  then show ?thesis by (rule strip_place_split) simp
qed

text \<open>C12: the group is greedy: \<open>strip_place\<close> keeps the longest prefix that
  is followed by \<^verbatim>\<open>&start=\<close>\<dots>\<^verbatim>\<open>&end=\<close>\<dots>, so with the paging
  parameters present twice only the last pair is cut.\<close>

theorem strip_place_longest:
  assumes "place_split url q" and "strip_place url = Inr p"
  shows "length q \<le> length p"
  using strip_place_max_split [OF assms(1)] assms(2) by auto

theorem strip_place_longest_witness:
  "place_split ''/airplanes?Owner=X&start=0&end=20&start=20&end=40'' ''/airplanes?Owner=X'' \<and>
   strip_place ''/airplanes?Owner=X&start=0&end=20&start=20&end=40''
     = Inr ''/airplanes?Owner=X&start=0&end=20'' \<and>
   length ''/airplanes?Owner=X'' \<le> length ''/airplanes?Owner=X&start=0&end=20''"
proof -
  have s: "place_split ''/airplanes?Owner=X&start=0&end=20&start=20&end=40'' ''/airplanes?Owner=X''"
    unfolding place_split_def
    by (intro exI [of _ "''0''"] exI [of _ "''20''"] exI [of _ "''&start=20&end=40''"]) simp
  have e: "strip_place ''/airplanes?Owner=X&start=0&end=20&start=20&end=40''
             = Inr ''/airplanes?Owner=X&start=0&end=20''"
    by (simp add: strip_place_eval)
  from s e strip_place_longest [OF s e] show ?thesis by blast
qed

text \<open>A URL with no such split comes back unchanged.\<close>

theorem strip_place_unchanged:
  assumes "\<not> (\<exists>q. place_split url q)"
  shows "strip_place url = Inr url"
proof (cases "List.find (tail_at url) (rev [0..<dot_run url])")
  case None
  then show ?thesis by (simp add: strip_place_find)
next
  case (Some k)
  from find_SomeD [OF Some] have "place_split url (take (Suc k) url)"
    by (auto simp: place_split_iff)
  with assms show ?thesis by blast
qed

theorem strip_place_unchanged_witness:
  "strip_place ''/flights/search?Carrier=AA'' = Inr ''/flights/search?Carrier=AA''"
proof -
  have "\<not> (\<exists>q. place_split ''/flights/search?Carrier=AA'' q)"
    using place_split_amp [of "''/flights/search?Carrier=AA''"] by auto
  then show ?thesis by (rule strip_place_unchanged)
qed

text \<open>Contrary to its comment (``Strip the existing start and end
  parameters''), \<open>strip_place\<close> also cuts every parameter that follows
  \<^verbatim>\<open>end\<close>: a search filter placed after the paging parameters is lost from the
  navigation links.\<close>

theorem strip_place_drops_later_params:
  "strip_place ''/flights/search?Origin=ATL&start=0&end=20&Dest=SFO''
     = Inr ''/flights/search?Origin=ATL''"
  by (simp add: strip_place_eval)

end
