(* ===== verification/IntParse.thy ===== *)
theory IntParse
  imports Prelude
begin

text \<open>
  Python's \<^verbatim>\<open>int(s)\<close> on a string, as the search controllers apply it to the
  \<^verbatim>\<open>start\<close> and \<^verbatim>\<open>end\<close> request parameters
  (\<^verbatim>\<open>src/ch06/web/report_flask.py\<close>, lines 135--138 and 275--278), and
  \<^verbatim>\<open>str(n)\<close> of an integer, which the page template uses to write the offsets
  back into the navigation links. \<^verbatim>\<open>int\<close> accepts surrounding whitespace, an
  optional sign and decimal digits with single underscores between digits;
  anything else raises \<^verbatim>\<open>ValueError\<close>. The model covers the ASCII range
  (the whitespace characters of \<^verbatim>\<open>str.isspace\<close> below 128); other Unicode
  digits and spaces, which \<^verbatim>\<open>int\<close> also accepts, are not modelled.
\<close>

definition py_space :: "char \<Rightarrow> bool" where
  "py_space c \<longleftrightarrow> c \<in> set [CHR 0x20, CHR 0x09, CHR 0x0A, CHR 0x0B, CHR 0x0C, CHR 0x0D,
                             CHR 0x1C, CHR 0x1D, CHR 0x1E, CHR 0x1F, CHR 0x85, CHR 0xA0]"

definition py_strip :: "string \<Rightarrow> string" where
  "py_strip s = rev (dropWhile py_space (rev (dropWhile py_space s)))"

definition digit_val :: "char \<Rightarrow> nat option" where
  "digit_val c = (let n = of_char c :: nat in if 48 \<le> n \<and> n < 58 then Some (n - 48) else None)"

text \<open>The digits after the first, accumulated from the left; an underscore must be
  followed by a digit.\<close>

fun parse_digits :: "nat \<Rightarrow> string \<Rightarrow> nat option" where
  "parse_digits acc [] = Some acc"
| "parse_digits acc (c # cs) =
     (case digit_val c of
        Some d \<Rightarrow> parse_digits (10 * acc + d) cs
      | None \<Rightarrow>
          if c = CHR ''_'' then
            (case cs of
               d # ds \<Rightarrow> (case digit_val d of Some v \<Rightarrow> parse_digits (10 * acc + v) ds | None \<Rightarrow> None)
             | [] \<Rightarrow> None)
          else None)"

definition parse_unsigned :: "string \<Rightarrow> nat option" where
  "parse_unsigned s =
     (case s of [] \<Rightarrow> None
      | c # cs \<Rightarrow> (case digit_val c of None \<Rightarrow> None | Some d \<Rightarrow> parse_digits d cs))"

definition py_int_of_string :: "string \<Rightarrow> int py_result" where
  "py_int_of_string s =
     (let t = py_strip s;
          r = (case t of
                 c # cs \<Rightarrow>
                   if c = CHR ''-'' then map_option (\<lambda>n. - int n) (parse_unsigned cs)
                   else if c = CHR ''+'' then map_option int (parse_unsigned cs)
                   else map_option int (parse_unsigned t)
               | [] \<Rightarrow> None)
      in case r of None \<Rightarrow> Inl ValueError | Some n \<Rightarrow> Inr n)"

text \<open>\<^verbatim>\<open>request.args.get(k) or default\<close> followed by \<^verbatim>\<open>int(...)\<close>: a missing
  or empty parameter gives the default (an integer, which \<^verbatim>\<open>int\<close> returns
  unchanged).\<close>

definition page_param :: "query_args \<Rightarrow> string \<Rightarrow> int \<Rightarrow> int py_result" where
  "page_param args k dflt =
     (if py_truthy_str (args k) then py_int_of_string (the (args k)) else Inr dflt)"

definition digit_char :: "nat \<Rightarrow> char" where
  "digit_char d = char_of (48 + d)"

fun show_nat :: "nat \<Rightarrow> string" where
  "show_nat n = (if n < 10 then [digit_char n] else show_nat (n div 10) @ [digit_char (n mod 10)])"

definition py_str_int :: "int \<Rightarrow> string" where
  "py_str_int i = (if i < 0 then CHR ''-'' # show_nat (nat (- i)) else show_nat (nat i))"

declare show_nat.simps [simp del]

section \<open>Lemmas\<close>

lemma of_char_digit_char: "d < 10 \<Longrightarrow> of_char (digit_char d) = 48 + d"
  by (simp add: digit_char_def)

lemma digit_val_digit_char [simp]: "d < 10 \<Longrightarrow> digit_val (digit_char d) = Some d"
  by (simp add: digit_val_def of_char_digit_char)

lemma digit_char_neq: "d < 10 \<Longrightarrow> of_char c < (48::nat) \<Longrightarrow> digit_char d \<noteq> c"
  using of_char_digit_char [of d] by auto

lemma show_nat_digits: "c \<in> set (show_nat n) \<Longrightarrow> \<exists>d < 10. c = digit_char d"
proof (induction n rule: show_nat.induct)
  case (1 n)
  show ?case
  proof (cases "n < 10")
    case True
    with "1.prems" show ?thesis by (auto simp: show_nat.simps [of n])
  next
    case False
    with "1.prems" have "c \<in> set (show_nat (n div 10)) \<or> c = digit_char (n mod 10)"
      by (auto simp: show_nat.simps [of n])
    then show ?thesis
    proof
      assume "c \<in> set (show_nat (n div 10))"
      with False "1.IH" show ?thesis by blast
    next
      assume "c = digit_char (n mod 10)"
      then show ?thesis by (intro exI [of _ "n mod 10"]) simp
    qed
  qed
qed

text \<open>The characters of \<open>str(n)\<close>: the sign and the ten digits.\<close>

lemma py_str_int_char:
  assumes "c \<in> set (py_str_int n)"
  shows "of_char c = (45::nat) \<or> 48 \<le> (of_char c :: nat) \<and> (of_char c :: nat) < 58"
proof -
  have "48 \<le> (of_char c :: nat) \<and> (of_char c :: nat) < 58" if "c \<in> set (show_nat m)" for m
    using show_nat_digits [OF that] of_char_digit_char by auto
  with assms show ?thesis by (auto simp: py_str_int_def split: if_splits)
qed

lemma show_nat_ne: "show_nat n \<noteq> []"
  by (simp add: show_nat.simps [of n])

abbreviation is_digit :: "char \<Rightarrow> bool" where
  "is_digit c \<equiv> digit_val c \<noteq> None"

lemma show_nat_is_digit: "list_all is_digit (show_nat n)"
  by (auto simp: list_all_iff dest!: show_nat_digits)

lemma parse_digits_snoc:
  "list_all is_digit cs \<Longrightarrow> d < 10 \<Longrightarrow>
   parse_digits acc (cs @ [digit_char d]) = map_option (\<lambda>a. 10 * a + d) (parse_digits acc cs)"
proof (induction cs arbitrary: acc)
  case (Cons c cs)
  then obtain v where "digit_val c = Some v" by auto
  with Cons show ?case by simp
qed simp

lemma parse_unsigned_show_nat: "parse_unsigned (show_nat n) = Some n"
proof (induction n rule: show_nat.induct)
  case (1 n)
  show ?case
  proof (cases "n < 10")
    case True
    then show ?thesis by (simp add: show_nat.simps [of n] parse_unsigned_def)
  next
    case False
    obtain x xs where sx: "show_nat (n div 10) = x # xs"
      using show_nat_ne [of "n div 10"] by (cases "show_nat (n div 10)") auto
    from sx show_nat_is_digit [of "n div 10"] have "list_all is_digit xs" by simp
    moreover from False "1.IH" sx obtain v where "digit_val x = Some v" "parse_digits v xs = Some (n div 10)"
      by (auto simp: parse_unsigned_def split: option.splits)
    ultimately show ?thesis
      using False sx by (simp add: show_nat.simps [of n] parse_unsigned_def parse_digits_snoc)
  qed
qed

lemma digit_char_not_sign:
  "d < 10 \<Longrightarrow> digit_char d \<noteq> CHR ''-'' \<and> digit_char d \<noteq> CHR ''+'' \<and> \<not> py_space (digit_char d)"
  using of_char_digit_char [of d] by (auto simp: py_space_def)

lemma py_strip_id: "list_all (\<lambda>c. \<not> py_space c) s \<Longrightarrow> py_strip s = s"
proof -
  have dw: "list_all (\<lambda>c. \<not> py_space c) t \<Longrightarrow> dropWhile py_space t = t" for t
    by (cases t) simp_all
  assume "list_all (\<lambda>c. \<not> py_space c) s"
  then show ?thesis by (simp add: py_strip_def dw)
qed

lemma show_nat_no_space: "list_all (\<lambda>c. \<not> py_space c) (show_nat n)"
  by (auto simp: list_all_iff dest!: show_nat_digits dest: digit_char_not_sign)

lemma show_nat_hd: "\<exists>d cs. d < 10 \<and> show_nat n = digit_char d # cs"
proof -
  obtain x xs where sx: "show_nat n = x # xs"
    using show_nat_ne [of n] by (cases "show_nat n") auto
  then obtain d where "d < 10" "x = digit_char d"
    using show_nat_digits [of x n] by auto
  with sx show ?thesis by blast
qed

lemma show_nat_inj_zero: "show_nat m = ''0'' \<Longrightarrow> m = 0"
  using parse_unsigned_show_nat [of m] by (simp add: parse_unsigned_def digit_val_def)

lemma show_nat_leading_zero: "hd (show_nat n) = CHR ''0'' \<Longrightarrow> show_nat n = ''0''"
proof (induction n rule: show_nat.induct)
  case (1 n)
  show ?case
  proof (cases "n < 10")
    case True
    with "1.prems" have "digit_char n = CHR ''0''" by (simp add: show_nat.simps [of n])
    then have "n = 0" using True of_char_digit_char [of n] by simp
    moreover have "digit_char 0 = CHR ''0''" unfolding digit_char_def by code_simp
    ultimately show ?thesis by (simp add: show_nat.simps [of 0])
  next
    case False
    then have "hd (show_nat (n div 10)) = CHR ''0''"
      using "1.prems" show_nat_ne [of "n div 10"] by (simp add: show_nat.simps [of n])
    with False "1.IH" have "show_nat (n div 10) = ''0''" by blast
    then have "n div 10 = 0" by (rule show_nat_inj_zero)
    with False show ?thesis by simp
  qed
qed

text \<open>Printing an integer with \<^verbatim>\<open>str\<close> and reading it back with \<^verbatim>\<open>int\<close>
  gives the integer back.\<close>

lemma int_str_roundtrip: "py_int_of_string (py_str_int i) = Inr i"
proof (cases "i < 0")
  case True
  have "py_strip (CHR ''-'' # show_nat (nat (- i))) = CHR ''-'' # show_nat (nat (- i))"
    by (rule py_strip_id) (simp add: show_nat_no_space, simp add: py_space_def)
  with True show ?thesis
    by (simp add: py_int_of_string_def py_str_int_def parse_unsigned_show_nat)
next
  case False
  obtain d cs where d: "d < 10" and sn: "show_nat (nat i) = digit_char d # cs"
    using show_nat_hd by blast
  have "py_strip (show_nat (nat i)) = show_nat (nat i)"
    by (rule py_strip_id) (rule show_nat_no_space)
  with False d sn digit_char_not_sign [OF d] parse_unsigned_show_nat [of "nat i"] show ?thesis
    by (simp add: py_int_of_string_def py_str_int_def)
qed

end
