(* ===== verification/SearchQuery.thy ===== *)
theory SearchQuery
  imports Navigation SearchEngine StripPlace IntParse
begin

text \<open>
  The two search controllers of \<^verbatim>\<open>src/ch06/web/report_flask.py\<close>:
  \<^verbatim>\<open>search_airplanes\<close> (lines 118--174) and \<^verbatim>\<open>search_flights\<close> (lines
  262--325). Each reads its search parameters, parses \<^verbatim>\<open>start\<close> and
  \<^verbatim>\<open>end\<close> (\<open>page_param\<close>), strips the paging parameters from the URL
  (\<open>strip_place\<close>), computes the navigation offsets, builds an Elasticsearch
  query (\<open>es_query\<close>: the ``must'' match clauses as field/value pairs in order,
  the optional sort, \<^verbatim>\<open>from\<close> and \<^verbatim>\<open>size\<close>), sends it, runs
  \<open>process_search\<close> on the response and renders the page, whose template
  variables are the records \<open>flights_page\<close> and \<open>airplanes_page\<close>.

  The search engine is a parameter \<open>elastic_search\<close> of the controllers, the
  client \<open>es_client\<close> of \<open>SearchEngine\<close>: the response it returns for
  the index and the query, or the exception it raises.

  Both controllers call helpers of the module \<^verbatim>\<open>search_helpers\<close>, which is
  not under \<^verbatim>\<open>src/\<close>: \<^verbatim>\<open>search_flights\<close> its \<^verbatim>\<open>strip_place\<close> and
  \<^verbatim>\<open>get_navigation_offsets\<close> (lines 281--284), \<^verbatim>\<open>search_airplanes\<close> these
  (lines 141--144) and its \<^verbatim>\<open>process_search\<close> (line 163); only
  \<^verbatim>\<open>search_flights\<close>' \<^verbatim>\<open>process_search\<close> (line 310) is the function of
  this file. The model substitutes the same-named functions of this file
  (lines 21--52, theories \<open>ProcessSearch\<close>, \<open>Navigation\<close>, \<open>StripPlace\<close>),
  which no handler of the file calls itself: the specification describes
  the offset helper (section 4.1) and the URL fallback (section 7) as these
  functions do. The specification says nothing of \<^verbatim>\<open>process_search\<close>, so
  what the model derives from it for \<^verbatim>\<open>search_airplanes\<close> assumes that the
  module's copy is this file's. The page sizes of the module
  \<^verbatim>\<open>config\<close> (not under \<^verbatim>\<open>src/\<close>) are the record \<open>config\<close>.

  The abstract specification of a search is \<open>must_clauses\<close>: one clause per
  listed field whose request parameter is present and not empty, in the order
  of the fields. The hand-unrolled \<^verbatim>\<open>if\<close> chain of \<^verbatim>\<open>search_flights\<close>
  and the loop over \<^verbatim>\<open>search_config\<close> of \<^verbatim>\<open>search_airplanes\<close> both
  implement it.
\<close>

record config =
  records_per_page :: int
  airplane_records_per_page :: int

record request =
  req_args :: query_args
  req_url :: string

text \<open>\<^verbatim>\<open>if value: query["query"]["bool"]["must"].append({"match": {field: value}})\<close>\<close>

definition must_append :: "es_query \<Rightarrow> string \<Rightarrow> string option \<Rightarrow> es_query" where
  "must_append q field value =
     (if py_truthy_str value then q\<lparr>q_must := q_must q @ [(field, the value)]\<rparr> else q)"

section \<open>search_flights\<close>

record flights_page =
  fp_flights :: "pyval list"
  fp_flight_date :: "string option"
  fp_flight_count :: pyval
  fp_nav_path :: string
  fp_nav_offsets :: nav_offsets
  fp_carrier :: "string option"
  fp_origin :: "string option"
  fp_dest :: "string option"
  fp_tail_number :: "string option"
  fp_flight_number :: "string option"

definition search_flights_query ::
  "config \<Rightarrow> string option \<Rightarrow> string option \<Rightarrow> string option \<Rightarrow> string option \<Rightarrow>
   string option \<Rightarrow> string option \<Rightarrow> int \<Rightarrow> es_query" where
  "search_flights_query cfg carrier flight_date origin dest tail_number flight_number start =
     (let q0 = \<lparr>q_must = [], q_sort = Some [SortAsc ''FlightDate'', SortScore],
                q_from = start, q_size = records_per_page cfg\<rparr>;
          q1 = must_append q0 ''Carrier'' carrier;
          q2 = must_append q1 ''FlightDate'' flight_date;
          q3 = must_append q2 ''Origin'' origin;
          q4 = must_append q3 ''Dest'' dest;
          q5 = must_append q4 ''TailNum'' tail_number
      in must_append q5 ''FlightNum'' flight_number)"

definition search_flights ::
  "config \<Rightarrow> es_client \<Rightarrow> request \<Rightarrow> flights_page py_result" where
  "search_flights cfg elastic_search req =
     (let args = req_args req;
          carrier = args ''Carrier''; flight_date = args ''FlightDate'';
          origin = args ''Origin''; dest = args ''Dest'';
          tail_number = args ''TailNum''; flight_number = args ''FlightNum''
      in
      py_bind (page_param args ''start'' 0) (\<lambda>start.
      py_bind (page_param args ''end'' (records_per_page cfg)) (\<lambda>stop.
      py_bind (strip_place (req_url req)) (\<lambda>nav_path.
      let nav_offsets = get_navigation_offsets start stop (records_per_page cfg);
          query = search_flights_query cfg carrier flight_date origin dest
                    tail_number flight_number start
      in
      py_bind (elastic_search ''agile_data_science'' query) (\<lambda>results.
      py_bind (process_search results) (\<lambda>(flights, flight_count).
      Inr \<lparr>fp_flights = flights, fp_flight_date = flight_date, fp_flight_count = flight_count,
           fp_nav_path = nav_path, fp_nav_offsets = nav_offsets, fp_carrier = carrier,
           fp_origin = origin, fp_dest = dest, fp_tail_number = tail_number,
           fp_flight_number = flight_number\<rparr>))))))"

section \<open>search_airplanes\<close>

record search_item =
  item_field :: string
  item_label :: "string option"
  item_sort_order :: "nat option"

definition airplane_search_config :: "search_item list" where
  "airplane_search_config =
     [\<lparr>item_field = ''TailNum'', item_label = Some ''Tail Number'', item_sort_order = None\<rparr>,
      \<lparr>item_field = ''Owner'', item_label = None, item_sort_order = Some 0\<rparr>,
      \<lparr>item_field = ''OwnerState'', item_label = Some ''Owner State'', item_sort_order = None\<rparr>,
      \<lparr>item_field = ''Manufacturer'', item_label = None, item_sort_order = Some 1\<rparr>,
      \<lparr>item_field = ''Model'', item_label = None, item_sort_order = Some 2\<rparr>,
      \<lparr>item_field = ''ManufacturerYear'', item_label = Some ''MFR Year'', item_sort_order = None\<rparr>,
      \<lparr>item_field = ''SerialNumber'', item_label = Some ''Serial Number'', item_sort_order = None\<rparr>,
      \<lparr>item_field = ''EngineManufacturer'', item_label = Some ''Engine MFR'', item_sort_order = Some 3\<rparr>,
      \<lparr>item_field = ''EngineModel'', item_label = Some ''Engine Model'', item_sort_order = Some 4\<rparr>]"

text \<open>The loop over \<^verbatim>\<open>search_config\<close>: \<^verbatim>\<open>arg_dict[field] = value\<close> (the value
  may be \<^verbatim>\<open>None\<close>, so \<^verbatim>\<open>arg_dict\<close> maps to \<open>string option\<close>) and the
  clause append.\<close>

fun search_config_loop ::
  "query_args \<Rightarrow> search_item list \<Rightarrow> (string \<rightharpoonup> string option) \<Rightarrow> es_query \<Rightarrow>
   (string \<rightharpoonup> string option) \<times> es_query" where
  "search_config_loop args [] arg_dict q = (arg_dict, q)"
| "search_config_loop args (item # items) arg_dict q =
     (let field = item_field item; value = args field
      in search_config_loop args items (arg_dict(field \<mapsto> value)) (must_append q field value))"

record airplanes_page =
  ap_search_config :: "search_item list"
  ap_args :: "string \<rightharpoonup> string option"
  ap_airplanes :: "pyval list"
  ap_airplane_count :: pyval
  ap_nav_path :: string
  ap_nav_offsets :: nav_offsets

definition search_airplanes ::
  "config \<Rightarrow> es_client \<Rightarrow> request \<Rightarrow> airplanes_page py_result" where
  "search_airplanes cfg elastic_search req =
     (let args = req_args req; search_config = airplane_search_config in
      py_bind (page_param args ''start'' 0) (\<lambda>start.
      py_bind (page_param args ''end'' (airplane_records_per_page cfg)) (\<lambda>stop.
      py_bind (strip_place (req_url req)) (\<lambda>nav_path.
      let nav_offsets = get_navigation_offsets start stop (airplane_records_per_page cfg);
          query0 = \<lparr>q_must = [], q_sort = None, q_from = start,
                    q_size = airplane_records_per_page cfg\<rparr>;
          (arg_dict, query) = search_config_loop args search_config Map.empty query0
      in
      py_bind (elastic_search ''agile_data_science'' query) (\<lambda>results.
      py_bind (process_search results) (\<lambda>(airplanes, airplane_count).
      Inr \<lparr>ap_search_config = search_config, ap_args = arg_dict, ap_airplanes = airplanes,
           ap_airplane_count = airplane_count, ap_nav_path = nav_path,
           ap_nav_offsets = nav_offsets\<rparr>))))))"

section \<open>The abstract query\<close>

definition must_clauses :: "query_args \<Rightarrow> string list \<Rightarrow> (string \<times> string) list" where
  "must_clauses args fs =
     map (\<lambda>f. (f, the (args f))) (filter (\<lambda>f. py_truthy_str (args f)) fs)"

definition flight_fields :: "string list" where
  "flight_fields = [''Carrier'', ''FlightDate'', ''Origin'', ''Dest'', ''TailNum'', ''FlightNum'']"

text \<open>The query \<^verbatim>\<open>search_flights\<close> is meant to send.\<close>

definition flights_query :: "config \<Rightarrow> query_args \<Rightarrow> int \<Rightarrow> es_query" where
  "flights_query cfg args start =
     \<lparr>q_must = must_clauses args flight_fields, q_sort = Some [SortAsc ''FlightDate'', SortScore],
      q_from = start, q_size = records_per_page cfg\<rparr>"

definition airplanes_query :: "config \<Rightarrow> query_args \<Rightarrow> int \<Rightarrow> es_query" where
  "airplanes_query cfg args start =
     \<lparr>q_must = must_clauses args (map item_field airplane_search_config), q_sort = None,
      q_from = start, q_size = airplane_records_per_page cfg\<rparr>"

section \<open>Lemmas\<close>

lemma must_append_fields [simp]:
  "q_must (must_append q f v) = q_must q @ (if py_truthy_str v then [(f, the v)] else [])"
  "q_sort (must_append q f v) = q_sort q"
  "q_from (must_append q f v) = q_from q"
  "q_size (must_append q f v) = q_size q"
  by (simp_all add: must_append_def)

lemma must_clauses_simps [simp]:
  "must_clauses args [] = []"
  "must_clauses args (f # fs) =
     (if py_truthy_str (args f) then [(f, the (args f))] else []) @ must_clauses args fs"
  by (simp_all add: must_clauses_def)

lemma must_clauses_member:
  "(f, v) \<in> set (must_clauses args fs) \<longleftrightarrow> f \<in> set fs \<and> args f = Some v \<and> v \<noteq> []"
  by (induction fs) (auto simp: py_truthy_str_def split: option.splits)

lemma must_clauses_distinct: "distinct fs \<Longrightarrow> distinct (map fst (must_clauses args fs))"
  by (induction fs) (auto simp: must_clauses_def)

text \<open>The unrolled \<^verbatim>\<open>if\<close> chain of \<^verbatim>\<open>search_flights\<close> builds the abstract
  query.\<close>

lemma search_flights_query_eq:
  "search_flights_query cfg (args ''Carrier'') (args ''FlightDate'') (args ''Origin'')
     (args ''Dest'') (args ''TailNum'') (args ''FlightNum'') start = flights_query cfg args start"
  by (simp add: search_flights_query_def flights_query_def flight_fields_def Let_def)

text \<open>The loop of \<^verbatim>\<open>search_airplanes\<close> records every field of the
  configuration in \<^verbatim>\<open>arg_dict\<close> and appends the abstract clauses.\<close>

lemma search_config_loop_eq:
  "search_config_loop args items ad q =
     (\<lambda>f. if f \<in> set (map item_field items) then Some (args f) else ad f,
      q\<lparr>q_must := q_must q @ must_clauses args (map item_field items)\<rparr>)"
proof (induction items arbitrary: ad q)
  case Nil
  show ?case by (simp add: fun_eq_iff)
next
  case (Cons item items)
  show ?case
    by (simp add: Cons fun_eq_iff must_append_def Let_def)
qed

lemma search_airplanes_loop:
  "search_config_loop args airplane_search_config Map.empty
     \<lparr>q_must = [], q_sort = None, q_from = start, q_size = airplane_records_per_page cfg\<rparr> =
   (\<lambda>f. if f \<in> set (map item_field airplane_search_config) then Some (args f) else None,
    airplanes_query cfg args start)"
  by (simp add: search_config_loop_eq airplanes_query_def)

lemma process_search_response:
  "hits \<noteq> [] \<Longrightarrow> has_sources hits srcs \<Longrightarrow> process_search (es_response t hits) = Inr (srcs, t)"
  by (simp add: process_search_def es_response_def collect_sources_Inr_iff)

lemma process_search_empty_response:
  "process_search (es_response t []) = Inl UnboundLocalError"
  by (simp add: process_search_def es_response_def)

lemma py_int_of_string_error: "py_int_of_string s = Inl e \<Longrightarrow> e = ValueError"
  by (auto simp: py_int_of_string_def Let_def split: option.splits)

text \<open>What a page \<^verbatim>\<open>search_flights\<close> renders shows of the request: the
  stripped path, the offsets of \<^verbatim>\<open>start\<close> and \<^verbatim>\<open>end\<close>, and the six search
  parameters.\<close>

lemma search_flights_page_fields:
  assumes "search_flights cfg elastic_search \<lparr>req_args = args, req_url = url\<rparr> = Inr page"
    and "page_param args ''start'' 0 = Inr start"
    and "page_param args ''end'' (records_per_page cfg) = Inr stop"
    and "strip_place url = Inr nav_path"
  shows "fp_nav_path page = nav_path \<and>
         fp_nav_offsets page = get_navigation_offsets start stop (records_per_page cfg) \<and>
         fp_carrier page = args ''Carrier'' \<and> fp_flight_date page = args ''FlightDate'' \<and>
         fp_origin page = args ''Origin'' \<and> fp_dest page = args ''Dest'' \<and>
         fp_tail_number page = args ''TailNum'' \<and> fp_flight_number page = args ''FlightNum''"
  using assms by (auto simp: search_flights_def Let_def split: prod.splits)

lemma must_clauses_cong:
  "(\<And>f. f \<in> set fs \<Longrightarrow> a f = a' f) \<Longrightarrow> must_clauses a fs = must_clauses a' fs"
  by (induction fs) auto

lemma flights_query_fields [simp]:
  "sort_fields (flights_query cfg args start) = [''FlightDate'']"
  "es_page (flights_query cfg args start) xs = take (nat (records_per_page cfg)) (drop (nat start) xs)"
  "window_ok (flights_query cfg args start) \<longleftrightarrow>
     0 \<le> start \<and> 0 \<le> records_per_page cfg \<and> start + records_per_page cfg \<le> max_result_window"
  by (simp_all add: flights_query_def sort_fields_def es_page_def window_ok_def)

text \<open>A page \<^verbatim>\<open>search_flights\<close> renders comes from the engine's answer to
  the abstract query.\<close>

lemma search_flights_Inr:
  assumes "search_flights cfg es req = Inr page"
    and "page_param (req_args req) ''start'' 0 = Inr start"
  shows "\<exists>results. es ''agile_data_science'' (flights_query cfg (req_args req) start) = Inr results \<and>
           process_search results = Inr (fp_flights page, fp_flight_count page)"
  using assms by (auto simp: search_flights_def search_flights_query_eq Let_def split: prod.splits)

lemma airplanes_query_fields [simp]:
  "sort_fields (airplanes_query cfg args start) = []"
  "es_page (airplanes_query cfg args start) xs = take (nat (airplane_records_per_page cfg)) (drop (nat start) xs)"
  by (simp_all add: airplanes_query_def sort_fields_def es_page_def)

lemma search_airplanes_Inr:
  assumes "search_airplanes cfg es req = Inr page"
    and "page_param (req_args req) ''start'' 0 = Inr start"
  shows "\<exists>results. es ''agile_data_science'' (airplanes_query cfg (req_args req) start) = Inr results \<and>
           process_search results = Inr (ap_airplanes page, ap_airplane_count page)"
  using assms
  by (auto simp: search_airplanes_def search_airplanes_loop Let_def split: prod.splits)

text \<open>A request whose \<^verbatim>\<open>start\<close> is at or past the number of matching
  documents fails, with \<^verbatim>\<open>UnboundLocalError\<close> inside the result window and
  \<^verbatim>\<open>RequestError\<close> outside.\<close>

lemma search_flights_past_end:
  assumes "valid_es mt db es"
    and "page_param args ''start'' 0 = Inr start"
    and "page_param args ''end'' (records_per_page cfg) = Inr stop"
    and "strip_place url = Inr nav_path" and "0 \<le> start"
    and "length (filter (hit_matches mt (flights_query cfg args start)) (db ''agile_data_science'')) \<le> nat start"
  shows "search_flights cfg es \<lparr>req_args = args, req_url = url\<rparr> =
           (if window_ok (flights_query cfg args start) then Inl UnboundLocalError else Inl RequestError)"
proof (cases "window_ok (flights_query cfg args start)")
  case True
  then obtain L where L: "mset L = mset (filter (hit_matches mt (flights_query cfg args start)) (db ''agile_data_science''))"
    and r: "es ''agile_data_science'' (flights_query cfg args start) = Inr (es_answer ''agile_data_science'' (flights_query cfg args start) L)"
    using valid_es_answer [OF assms(1)] by blast
  from L have "length L = length (filter (hit_matches mt (flights_query cfg args start)) (db ''agile_data_science''))"
    by (metis size_mset)
  with assms(6) have "es_page (flights_query cfg args start) L = []" by simp
  with True r assms(2-4) show ?thesis
    by (simp add: search_flights_def search_flights_query_eq process_search_answer Let_def)
next
  case False
  with valid_es_refused [OF assms(1) False] assms(2-4) show ?thesis
    by (simp add: search_flights_def search_flights_query_eq Let_def)
qed

text \<open>The parameters and the engine call behind a rendered page.\<close>

lemma search_flights_Inr_cases:
  assumes "search_flights cfg es req = Inr page"
  obtains start stop results where "page_param (req_args req) ''start'' 0 = Inr start"
    and "page_param (req_args req) ''end'' (records_per_page cfg) = Inr stop"
    and "es ''agile_data_science'' (flights_query cfg (req_args req) start) = Inr results"
    and "fp_nav_offsets page = get_navigation_offsets start stop (records_per_page cfg)"
  using assms by (auto simp: search_flights_def search_flights_query_eq Let_def split: prod.splits)

section \<open>Properties\<close>

text \<open>C25: on every page \<^verbatim>\<open>search_flights\<close> renders over an engine meeting the
  contract, the ``Next'' start offset is non-negative (a negative
  \<^verbatim>\<open>start\<close> is refused by the engine before a page is rendered), but the
  ``Next'' end offset is \<^verbatim>\<open>end\<close> plus the page size, whatever \<^verbatim>\<open>int\<close>
  accepted for \<^verbatim>\<open>end\<close>: the controller never checks \<^verbatim>\<open>end\<close>, so a
  request with \<^verbatim>\<open>end=-100\<close> renders a page with a negative offset,
  contrary to the specification's ``outputs never negative''.\<close>

theorem search_flights_next_offsets:
  assumes "valid_es mt db es" and "search_flights cfg es req = Inr page"
    and "page_param (req_args req) ''end'' (records_per_page cfg) = Inr stop"
  shows "0 \<le> bottom_offset (nav_next (fp_nav_offsets page)) \<and>
         top_offset (nav_next (fp_nav_offsets page)) = stop + records_per_page cfg"
proof -
  obtain start stop' results where st: "page_param (req_args req) ''start'' 0 = Inr start"
    and en: "page_param (req_args req) ''end'' (records_per_page cfg) = Inr stop'"
    and r: "es ''agile_data_science'' (flights_query cfg (req_args req) start) = Inr results"
    and offs: "fp_nav_offsets page = get_navigation_offsets start stop' (records_per_page cfg)"
    using search_flights_Inr_cases [OF assms(2)] by blast
  have "window_ok (flights_query cfg (req_args req) start)"
    using r valid_es_refused [OF assms(1), of "flights_query cfg (req_args req) start" "''agile_data_science''"]
    by (cases "window_ok (flights_query cfg (req_args req) start)") auto
  with offs en assms(3) show ?thesis by simp
qed

theorem search_flights_next_offsets_witness:
  "\<exists>page. search_flights \<lparr>records_per_page = 20, airplane_records_per_page = 10\<rparr>
       (ref_es keyword_match (\<lambda>i. [[(''Origin'', PStr ''ATL'')]]))
       \<lparr>req_args = [''end'' \<mapsto> ''-100''], req_url = ''/flights/search?end=-100''\<rparr> = Inr page \<and>
     page_param [''end'' \<mapsto> ''-100''] ''end'' 20 = Inr (-100) \<and>
     0 \<le> bottom_offset (nav_next (fp_nav_offsets page)) \<and>
     top_offset (nav_next (fp_nav_offsets page)) = -80"
proof -
  let ?cfg = "\<lparr>records_per_page = 20, airplane_records_per_page = 10\<rparr>"
  let ?es = "ref_es keyword_match (\<lambda>i. [[(''Origin'', PStr ''ATL'')]])"
  let ?req = "\<lparr>req_args = [''end'' \<mapsto> ''-100''], req_url = ''/flights/search?end=-100''\<rparr>"
  have en: "page_param [''end'' \<mapsto> ''-100''] ''end'' 20 = Inr (-100)"
    by code_simp
  have pg: "search_flights ?cfg ?es ?req =
          Inr \<lparr>fp_flights = [PDict [(''Origin'', PStr ''ATL'')]], fp_flight_date = None,
               fp_flight_count = PDict [(''value'', PInt 1), (''relation'', PStr ''eq'')],
               fp_nav_path = ''/flights/search?end=-100'', fp_nav_offsets = get_navigation_offsets 0 (-100) 20,
               fp_carrier = None, fp_origin = None, fp_dest = None, fp_tail_number = None,
               fp_flight_number = None\<rparr>"
    by code_simp
  from search_flights_next_offsets [OF ref_es_valid pg] en pg show ?thesis by auto
qed

text \<open>C11: the query of \<^verbatim>\<open>search_flights\<close> has exactly one match clause
  \<open>(f, v)\<close> for each of the six search fields whose request parameter is
  present and not empty, with that parameter as value, no clause for anything
  else, starts at \<^verbatim>\<open>start\<close> and asks for one page.\<close>

theorem search_flights_clauses:
  "let q = search_flights_query cfg (args ''Carrier'') (args ''FlightDate'') (args ''Origin'')
             (args ''Dest'') (args ''TailNum'') (args ''FlightNum'') start
   in ((f, v) \<in> set (q_must q) \<longleftrightarrow> f \<in> set flight_fields \<and> args f = Some v \<and> v \<noteq> []) \<and>
      distinct (map fst (q_must q)) \<and> q_from q = start \<and> q_size q = records_per_page cfg"
proof -
  have "distinct flight_fields" by (simp add: flight_fields_def)
  then show ?thesis
    by (simp add: search_flights_query_eq flights_query_def must_clauses_member must_clauses_distinct)
qed

text \<open>C18: the loop of \<^verbatim>\<open>search_airplanes\<close> keeps every field of
  \<^verbatim>\<open>search_config\<close> in \<^verbatim>\<open>arg_dict\<close>, with the request's value (or
  \<^verbatim>\<open>None\<close>), and nothing else, and its query has exactly one clause per
  field with a non-empty parameter.\<close>

theorem search_airplanes_args:
  "let (arg_dict, q) = search_config_loop args airplane_search_config Map.empty
          \<lparr>q_must = [], q_sort = None, q_from = start, q_size = airplane_records_per_page cfg\<rparr>
   in arg_dict f = (if f \<in> set (map item_field airplane_search_config) then Some (args f) else None) \<and>
      ((f, v) \<in> set (q_must q) \<longleftrightarrow>
         f \<in> set (map item_field airplane_search_config) \<and> args f = Some v \<and> v \<noteq> []) \<and>
      distinct (map fst (q_must q))"
proof -
  have "distinct (map item_field airplane_search_config)" by (simp add: airplane_search_config_def)
  then show ?thesis
    by (simp add: search_config_loop_eq must_clauses_member must_clauses_distinct)
qed



text \<open>C10: over any search engine meeting the contract, a page
  \<^verbatim>\<open>search_flights\<close> renders shows the window \<^verbatim>\<open>start\<close>.. of one page
  of the flights matching every non-empty search parameter, sorted by
  \<^verbatim>\<open>FlightDate\<close>, and as \<^verbatim>\<open>flight_count\<close> the Elasticsearch 7 total
  object \<^verbatim>\<open>{"value": n, "relation": ...}\<close>, not a number, capped at
  10000.\<close>

theorem search_flights_refines:
  assumes "valid_es mt db es" and "search_flights cfg es req = Inr page"
    and "page_param (req_args req) ''start'' 0 = Inr start"
  shows "\<exists>L. mset L = mset (filter (hit_matches mt (flights_query cfg (req_args req) start))
                              (db ''agile_data_science'')) \<and>
             sorted (map (es_sort_key [''FlightDate'']) L) \<and>
             fp_flights page = map PDict (take (nat (records_per_page cfg)) (drop (nat start) L)) \<and>
             fp_flight_count page = es_total (length L)"
proof -
  obtain results where "es ''agile_data_science'' (flights_query cfg (req_args req) start) = Inr results"
    and "process_search results = Inr (fp_flights page, fp_flight_count page)"
    using search_flights_Inr [OF assms(2,3)] by blast
  from valid_es_process [OF assms(1) this] show ?thesis by simp
qed

theorem search_flights_refines_witness:
  "\<exists>page. search_flights \<lparr>records_per_page = 20, airplane_records_per_page = 10\<rparr>
       (ref_es keyword_match (\<lambda>i. [[(''Origin'', PStr ''ATL''), (''FlightDate'', PStr ''2015-01-02'')],
                                     [(''Origin'', PStr ''SFO''), (''FlightDate'', PStr ''2015-01-01'')],
                                     [(''Origin'', PStr ''ATL''), (''FlightDate'', PStr ''2015-01-01'')]]))
       \<lparr>req_args = [''Origin'' \<mapsto> ''ATL''], req_url = ''/flights/search?Origin=ATL''\<rparr> = Inr page \<and>
     fp_flights page = [PDict [(''Origin'', PStr ''ATL''), (''FlightDate'', PStr ''2015-01-01'')],
                        PDict [(''Origin'', PStr ''ATL''), (''FlightDate'', PStr ''2015-01-02'')]] \<and>
     fp_flight_count page = PDict [(''value'', PInt 2), (''relation'', PStr ''eq'')] \<and>
     (\<exists>L. mset L = mset (filter (hit_matches keyword_match
                 (flights_query \<lparr>records_per_page = 20, airplane_records_per_page = 10\<rparr> [''Origin'' \<mapsto> ''ATL''] 0))
               [[(''Origin'', PStr ''ATL''), (''FlightDate'', PStr ''2015-01-02'')],
                [(''Origin'', PStr ''SFO''), (''FlightDate'', PStr ''2015-01-01'')],
                [(''Origin'', PStr ''ATL''), (''FlightDate'', PStr ''2015-01-01'')]]) \<and>
        sorted (map (es_sort_key [''FlightDate'']) L) \<and>
        fp_flights page = map PDict (take 20 (drop 0 L)) \<and> fp_flight_count page = es_total (length L))"
proof -
  let ?cfg = "\<lparr>records_per_page = 20, airplane_records_per_page = 10\<rparr>"
  let ?db = "\<lambda>i::string. [[(''Origin'', PStr ''ATL''), (''FlightDate'', PStr ''2015-01-02'')],
                          [(''Origin'', PStr ''SFO''), (''FlightDate'', PStr ''2015-01-01'')],
                          [(''Origin'', PStr ''ATL''), (''FlightDate'', PStr ''2015-01-01'')]]"
  let ?req = "\<lparr>req_args = [''Origin'' \<mapsto> ''ATL''], req_url = ''/flights/search?Origin=ATL''\<rparr>"
  have st: "page_param (req_args ?req) ''start'' 0 = Inr 0" by (simp add: page_param_def)
  have "search_flights ?cfg (ref_es keyword_match ?db) ?req =
          Inr \<lparr>fp_flights = [PDict [(''Origin'', PStr ''ATL''), (''FlightDate'', PStr ''2015-01-01'')],
                             PDict [(''Origin'', PStr ''ATL''), (''FlightDate'', PStr ''2015-01-02'')]],
               fp_flight_date = None, fp_flight_count = PDict [(''value'', PInt 2), (''relation'', PStr ''eq'')],
               fp_nav_path = ''/flights/search?Origin=ATL'', fp_nav_offsets = get_navigation_offsets 0 20 20,
               fp_carrier = None, fp_origin = Some ''ATL'', fp_dest = None, fp_tail_number = None,
               fp_flight_number = None\<rparr>" (is "_ = Inr ?page")
    by code_simp
  with search_flights_refines [OF ref_es_valid this st] show ?thesis by auto
qed







text \<open>C17: over any search engine meeting the contract, a page
  \<^verbatim>\<open>search_airplanes\<close> renders shows one page, at \<^verbatim>\<open>start\<close>, of an
  arrangement of the documents matching every non-empty configured
  parameter (the query has no sort, so the order is the engine's relevance
  order, left open), and as \<^verbatim>\<open>airplane_count\<close> the Elasticsearch 7 total
  object.\<close>

theorem search_airplanes_refines:
  assumes "valid_es mt db es" and "search_airplanes cfg es req = Inr page"
    and "page_param (req_args req) ''start'' 0 = Inr start"
  shows "\<exists>L. mset L = mset (filter (hit_matches mt (airplanes_query cfg (req_args req) start))
                              (db ''agile_data_science'')) \<and>
             ap_airplanes page = map PDict (take (nat (airplane_records_per_page cfg)) (drop (nat start) L)) \<and>
             ap_airplane_count page = es_total (length L)"
proof -
  obtain results where "es ''agile_data_science'' (airplanes_query cfg (req_args req) start) = Inr results"
    and "process_search results = Inr (ap_airplanes page, ap_airplane_count page)"
    using search_airplanes_Inr [OF assms(2,3)] by blast
  from valid_es_process [OF assms(1) this] show ?thesis by auto
qed

theorem search_airplanes_refines_witness:
  "\<exists>page. search_airplanes \<lparr>records_per_page = 20, airplane_records_per_page = 10\<rparr>
       (ref_es keyword_match (\<lambda>i. [[(''TailNum'', PStr ''N123''), (''Model'', PStr ''737'')],
                                     [(''TailNum'', PStr ''N456''), (''Model'', PStr ''A320'')]]))
       \<lparr>req_args = [''Model'' \<mapsto> ''737''], req_url = ''/airplanes?Model=737''\<rparr> = Inr page \<and>
     ap_airplanes page = [PDict [(''TailNum'', PStr ''N123''), (''Model'', PStr ''737'')]] \<and>
     (\<exists>L. mset L = mset (filter (hit_matches keyword_match
                 (airplanes_query \<lparr>records_per_page = 20, airplane_records_per_page = 10\<rparr> [''Model'' \<mapsto> ''737''] 0))
               [[(''TailNum'', PStr ''N123''), (''Model'', PStr ''737'')],
                [(''TailNum'', PStr ''N456''), (''Model'', PStr ''A320'')]]) \<and>
        ap_airplanes page = map PDict (take 10 (drop 0 L)) \<and> ap_airplane_count page = es_total (length L))"
proof -
  let ?cfg = "\<lparr>records_per_page = 20, airplane_records_per_page = 10\<rparr>"
  let ?db = "\<lambda>i::string. [[(''TailNum'', PStr ''N123''), (''Model'', PStr ''737'')],
                          [(''TailNum'', PStr ''N456''), (''Model'', PStr ''A320'')]]"
  let ?req = "\<lparr>req_args = [''Model'' \<mapsto> ''737''], req_url = ''/airplanes?Model=737''\<rparr>"
  have st: "page_param (req_args ?req) ''start'' 0 = Inr 0" by (simp add: page_param_def)
  let ?ans = "es_answer ''agile_data_science'' (airplanes_query ?cfg [''Model'' \<mapsto> ''737''] 0)
               [[(''TailNum'', PStr ''N123''), (''Model'', PStr ''737'')]]"
  have r: "ref_es keyword_match ?db ''agile_data_science'' (airplanes_query ?cfg [''Model'' \<mapsto> ''737''] 0) = Inr ?ans"
    by code_simp
  have ps: "process_search ?ans = Inr ([PDict [(''TailNum'', PStr ''N123''), (''Model'', PStr ''737'')]],
                                       PDict [(''value'', PInt 1), (''relation'', PStr ''eq'')])"
    by code_simp
  have "\<exists>page. search_airplanes ?cfg (ref_es keyword_match ?db) ?req = Inr page \<and>
          ap_airplanes page = [PDict [(''TailNum'', PStr ''N123''), (''Model'', PStr ''737'')]]"
  proof -
    obtain ad where loop: "search_config_loop [''Model'' \<mapsto> ''737''] airplane_search_config (\<lambda>x. None)
        \<lparr>q_must = [], q_sort = None, q_from = 0, q_size = 10\<rparr> = (ad, airplanes_query ?cfg [''Model'' \<mapsto> ''737''] 0)"
      using search_airplanes_loop [of "[''Model'' \<mapsto> ''737'']" 0 ?cfg] by simp
    show ?thesis
      using r ps by (simp add: search_airplanes_def loop Let_def page_param_def strip_place_eval)
  qed
  then obtain page where pg: "search_airplanes ?cfg (ref_es keyword_match ?db) ?req = Inr page"
    and ap: "ap_airplanes page = [PDict [(''TailNum'', PStr ''N123''), (''Model'', PStr ''737'')]]" by blast
  with search_airplanes_refines [OF ref_es_valid pg st] show ?thesis by auto
qed

text \<open>An airplane search that matches nothing fails with
  \<^verbatim>\<open>UnboundLocalError\<close>, as the flight search does.\<close>

theorem search_airplanes_no_results:
  assumes "page_param (req_args req) ''start'' 0 = Inr start"
    and "page_param (req_args req) ''end'' (airplane_records_per_page cfg) = Inr stop"
    and "strip_place (req_url req) = Inr nav_path"
    and "elastic_search ''agile_data_science'' (airplanes_query cfg (req_args req) start) = Inr (es_response tot [])"
  shows "search_airplanes cfg elastic_search req = Inl UnboundLocalError"
  using assms
  by (simp add: search_airplanes_def search_config_loop_eq airplanes_query_def
                process_search_empty_response Let_def)

theorem search_airplanes_no_results_witness:
  "search_airplanes \<lparr>records_per_page = 20, airplane_records_per_page = 10\<rparr>
     (\<lambda>i q. Inr (es_response (PInt 0) []))
     \<lparr>req_args = [''Owner'' \<mapsto> ''nobody''], req_url = ''/airplanes?Owner=nobody''\<rparr>
   = Inl UnboundLocalError"
  using search_airplanes_no_results
    [where req = "\<lparr>req_args = [''Owner'' \<mapsto> ''nobody''], req_url = ''/airplanes?Owner=nobody''\<rparr>"
       and cfg = "\<lparr>records_per_page = 20, airplane_records_per_page = 10\<rparr>"
       and elastic_search = "\<lambda>i q. Inr (es_response (PInt 0) [])"
       and start = 0 and stop = 10 and nav_path = "''/airplanes?Owner=nobody''"
       and tot = "PInt 0"]
  by (simp add: page_param_def strip_place_eval)

end
