(* ===== verification/Json.thy ===== *)
theory Json
  imports PyValue IntParse
begin

text \<open>
  The two JSON serialisers the controllers return: Python's
  \<^verbatim>\<open>json.dumps(v)\<close> (\<^verbatim>\<open>airplane_manufacturers_chart\<close>,
  \<^verbatim>\<open>src/ch06/web/report_flask.py\<close> line 179) and PyMongo's
  \<^verbatim>\<open>bson.json_util.dumps(v)\<close> (\<^verbatim>\<open>total_flights_json\<close>, line 106, and the
  ch02 \<^verbatim>\<open>executive\<close> app). \<open>json_dumps ascii v\<close> follows the standard encoder
  with its default separators \<^verbatim>\<open>", "\<close> and \<^verbatim>\<open>": "\<close>: \<^verbatim>\<open>None\<close>, booleans and
  integers as \<^verbatim>\<open>null\<close>, \<^verbatim>\<open>true\<close>/\<^verbatim>\<open>false\<close> and \<^verbatim>\<open>str(n)\<close>, strings
  quoted with the escapes of \<^verbatim>\<open>encode_basestring_ascii\<close> (\<open>ascii\<close>, the default
  \<^verbatim>\<open>ensure_ascii=True\<close>) or \<^verbatim>\<open>encode_basestring\<close> (\<^verbatim>\<open>ensure_ascii=False\<close>),
  lists and dictionaries in order; any other object, here an
  \<^verbatim>\<open>ObjectId\<close>, raises \<^verbatim>\<open>TypeError\<close>. \<open>json_util_dumps\<close> first applies
  \<^verbatim>\<open>_json_convert\<close> (\<open>bson_json_convert\<close>), which turns each \<^verbatim>\<open>ObjectId\<close>
  into \<^verbatim>\<open>{"$oid": "<hex>"}\<close> and leaves the other values alone. Characters
  are modelled up to code point 255, the range of HOL's \<open>char\<close>.

  A JSON string-literal reader \<open>json_str_parse\<close>, written from RFC 8259, is
  the reference against which the escaping is proved invertible.
\<close>

definition hex_digit :: "nat \<Rightarrow> char" where
  "hex_digit d = (if d < 10 then char_of (48 + d) else char_of (87 + d))"

definition json_u_escape :: "char \<Rightarrow> string" where
  "json_u_escape c =
     (let n = of_char c :: nat in
      [CHR 0x5C, CHR ''u'', hex_digit (n div 4096), hex_digit (n div 256 mod 16),
       hex_digit (n div 16 mod 16), hex_digit (n mod 16)])"

definition json_escape_char :: "bool \<Rightarrow> char \<Rightarrow> string" where
  "json_escape_char ascii c =
     (if c = CHR 0x5C then [CHR 0x5C, CHR 0x5C]
      else if c = CHR 0x22 then [CHR 0x5C, CHR 0x22]
      else if c = CHR 0x08 then [CHR 0x5C, CHR ''b'']
      else if c = CHR 0x0C then [CHR 0x5C, CHR ''f'']
      else if c = CHR 0x0A then [CHR 0x5C, CHR ''n'']
      else if c = CHR 0x0D then [CHR 0x5C, CHR ''r'']
      else if c = CHR 0x09 then [CHR 0x5C, CHR ''t'']
      else if of_char c < (32::nat) \<or> (ascii \<and> 126 < (of_char c :: nat)) then json_u_escape c
      else [c])"

definition json_str :: "bool \<Rightarrow> string \<Rightarrow> string" where
  "json_str ascii s = CHR 0x22 # concat (map (json_escape_char ascii) s) @ [CHR 0x22]"

fun json_join :: "string list \<Rightarrow> string" where
  "json_join [] = []"
| "json_join [s] = s"
| "json_join (s # ss) = s @ '', '' @ json_join ss"

fun json_dumps :: "bool \<Rightarrow> pyval \<Rightarrow> string py_result"
and json_elems :: "bool \<Rightarrow> pyval list \<Rightarrow> string list py_result"
and json_members :: "bool \<Rightarrow> (string \<times> pyval) list \<Rightarrow> string list py_result" where
  "json_dumps a PNone = Inr ''null''"
| "json_dumps a (PBool b) = Inr (if b then ''true'' else ''false'')"
| "json_dumps a (PInt n) = Inr (py_str_int n)"
| "json_dumps a (PStr s) = Inr (json_str a s)"
| "json_dumps a (PList xs) = py_bind (json_elems a xs) (\<lambda>ss. Inr (''['' @ json_join ss @ '']''))"
| "json_dumps a (PDict d) = py_bind (json_members a d) (\<lambda>ss. Inr (''{'' @ json_join ss @ ''}''))"
| "json_dumps a (PObjectId i) = Inl TypeError"
| "json_elems a [] = Inr []"
| "json_elems a (x # xs) = py_bind (json_dumps a x) (\<lambda>s. py_bind (json_elems a xs) (\<lambda>ss. Inr (s # ss)))"
| "json_members a [] = Inr []"
| "json_members a ((k, v) # kvs) =
     py_bind (json_dumps a v) (\<lambda>s. py_bind (json_members a kvs) (\<lambda>ss. Inr ((json_str a k @ '': '' @ s) # ss)))"

fun bson_json_convert :: "pyval \<Rightarrow> pyval"
and bson_convert_list :: "pyval list \<Rightarrow> pyval list"
and bson_convert_members :: "(string \<times> pyval) list \<Rightarrow> (string \<times> pyval) list" where
  "bson_json_convert (PObjectId i) = PDict [(''$oid'', PStr i)]"
| "bson_json_convert (PList xs) = PList (bson_convert_list xs)"
| "bson_json_convert (PDict d) = PDict (bson_convert_members d)"
| "bson_json_convert PNone = PNone"
| "bson_json_convert (PBool b) = PBool b"
| "bson_json_convert (PInt n) = PInt n"
| "bson_json_convert (PStr s) = PStr s"
| "bson_convert_list [] = []"
| "bson_convert_list (x # xs) = bson_json_convert x # bson_convert_list xs"
| "bson_convert_members [] = []"
| "bson_convert_members ((k, v) # kvs) = (k, bson_json_convert v) # bson_convert_members kvs"

definition json_util_dumps :: "bool \<Rightarrow> pyval \<Rightarrow> string py_result" where
  "json_util_dumps a v = json_dumps a (bson_json_convert v)"

fun has_oid :: "pyval \<Rightarrow> bool"
and has_oid_list :: "pyval list \<Rightarrow> bool"
and has_oid_members :: "(string \<times> pyval) list \<Rightarrow> bool" where
  "has_oid (PObjectId i) = True"
| "has_oid (PList xs) = has_oid_list xs"
| "has_oid (PDict d) = has_oid_members d"
| "has_oid PNone = False"
| "has_oid (PBool b) = False"
| "has_oid (PInt n) = False"
| "has_oid (PStr s) = False"
| "has_oid_list [] = False"
| "has_oid_list (x # xs) = (has_oid x \<or> has_oid_list xs)"
| "has_oid_members [] = False"
| "has_oid_members ((k, v) # kvs) = (has_oid v \<or> has_oid_members kvs)"

text \<open>The reader of a JSON string literal (RFC 8259, section 7), restricted to
  the characters below 256: the opening quote, then unescaped characters from
  U+0020 on, the two-character escapes and the \<open>u\<close> escape with four hex digits, up to the closing quote;
  it returns the string and the rest of the input.\<close>

definition hex_val :: "char \<Rightarrow> nat option" where
  "hex_val c =
     (let n = of_char c :: nat in
      if 48 \<le> n \<and> n < 58 then Some (n - 48)
      else if 97 \<le> n \<and> n < 103 then Some (n - 87)
      else if 65 \<le> n \<and> n < 71 then Some (n - 55) else None)"

definition json_simple_escape :: "char \<Rightarrow> char option" where
  "json_simple_escape e =
     map_of [(CHR 0x22, CHR 0x22), (CHR 0x5C, CHR 0x5C), (CHR ''/'', CHR ''/''),
             (CHR ''b'', CHR 0x08), (CHR ''f'', CHR 0x0C), (CHR ''n'', CHR 0x0A),
             (CHR ''r'', CHR 0x0D), (CHR ''t'', CHR 0x09)] e"

fun json_str_body :: "string \<Rightarrow> (string \<times> string) option" where
  "json_str_body [] = None"
| "json_str_body (c # cs) =
     (if c = CHR 0x22 then Some ([], cs)
      else if of_char c < (32::nat) then None
      else if c \<noteq> CHR 0x5C then map_option (apfst (Cons c)) (json_str_body cs)
      else (case cs of
              [] \<Rightarrow> None
            | e # r \<Rightarrow>
                if e = CHR ''u'' then
                  (case r of
                     h1 # h2 # h3 # h4 # r' \<Rightarrow>
                       (case (hex_val h1, hex_val h2, hex_val h3, hex_val h4) of
                          (Some a, Some b, Some x, Some y) \<Rightarrow>
                            (let n = 4096 * a + 256 * b + 16 * x + y in
                             if n < 256 then map_option (apfst (Cons (char_of n))) (json_str_body r')
                             else None)
                        | _ \<Rightarrow> None)
                   | _ \<Rightarrow> None)
                else (case json_simple_escape e of
                        Some x \<Rightarrow> map_option (apfst (Cons x)) (json_str_body r)
                      | None \<Rightarrow> None)))"

definition json_str_parse :: "string \<Rightarrow> (string \<times> string) option" where
  "json_str_parse s = (case s of c # cs \<Rightarrow> if c = CHR 0x22 then json_str_body cs else None | [] \<Rightarrow> None)"

text \<open>The characters \<^verbatim>\<open>ensure_ascii\<close> lets through unescaped: printable ASCII.\<close>

definition printable :: "char \<Rightarrow> bool" where
  "printable c \<longleftrightarrow> 32 \<le> (of_char c :: nat) \<and> (of_char c :: nat) \<le> 126"

section \<open>Lemmas\<close>

lemma json_dumps_ok:
  "(\<exists>s. json_dumps a v = Inr s) \<longleftrightarrow> \<not> has_oid v"
  "(\<exists>ss. json_elems a xs = Inr ss) \<longleftrightarrow> \<not> has_oid_list xs"
  "(\<exists>ss. json_members a kvs = Inr ss) \<longleftrightarrow> \<not> has_oid_members kvs"
  by (induction a v and a xs and a kvs rule: json_dumps_json_elems_json_members.induct)
     auto

lemma json_dumps_error:
  "json_dumps a v = Inl e \<Longrightarrow> e = TypeError"
  "json_elems a xs = Inl e \<Longrightarrow> e = TypeError"
  "json_members a kvs = Inl e \<Longrightarrow> e = TypeError"
  by (induction a v and a xs and a kvs rule: json_dumps_json_elems_json_members.induct)
     (auto simp: py_bind_eq_Inl)

lemma bson_json_convert_no_oid:
  "\<not> has_oid (bson_json_convert v)"
  "\<not> has_oid_list (bson_convert_list xs)"
  "\<not> has_oid_members (bson_convert_members kvs)"
  by (induction v and xs and kvs rule: bson_json_convert_bson_convert_list_bson_convert_members.induct)
     simp_all

lemma bson_json_convert_id:
  "\<not> has_oid v \<Longrightarrow> bson_json_convert v = v"
  "\<not> has_oid_list xs \<Longrightarrow> bson_convert_list xs = xs"
  "\<not> has_oid_members kvs \<Longrightarrow> bson_convert_members kvs = kvs"
  by (induction v and xs and kvs rule: bson_json_convert_bson_convert_list_bson_convert_members.induct)
     simp_all

lemma hex_val_hex_digit [simp]: "d < 16 \<Longrightarrow> hex_val (hex_digit d) = Some d"
  by (auto simp: hex_val_def hex_digit_def Let_def)

lemma json_str_body_u_escape:
  "json_str_body (json_u_escape c @ r) = map_option (apfst (Cons c)) (json_str_body r)"
proof -
  define n where "n = (of_char c :: nat)"
  have lt: "n < 256" unfolding n_def by (rule nat_of_char_less_256)
  have h: "hex_val (hex_digit (n div 4096)) = Some 0" "hex_val (hex_digit (n div 256 mod 16)) = Some 0"
    "hex_val (hex_digit (n div 16 mod 16)) = Some (n div 16)" "hex_val (hex_digit (n mod 16)) = Some (n mod 16)"
    using lt by simp_all
  have "16 * (n div 16) + n mod 16 = n" by simp
  then have "char_of (16 * (n div 16) + n mod 16) = c" by (simp add: n_def)
  with lt h show ?thesis
    by (simp add: json_u_escape_def n_def [symmetric])
qed

lemma json_str_body_escape_char:
  "json_str_body (json_escape_char a c @ r) = map_option (apfst (Cons c)) (json_str_body r)"
  unfolding json_escape_char_def
  by (auto simp: json_str_body_u_escape json_simple_escape_def)

lemma json_str_body_shorter: "json_str_body cs = Some (s, r) \<Longrightarrow> length r < length cs"
proof (induction "length cs" arbitrary: cs s rule: less_induct)
  case less
  have step: "length r < length t"
    if "json_str_body t = Some (s', r)" "length t < length cs" for t s'
    using that less.hyps [of t] by blast
  from less.prems show ?case
    by (cases cs) (auto simp: Let_def split: if_splits list.splits option.splits prod.splits dest!: step)
qed

lemma json_str_body_escaped:
  "json_str_body (concat (map (json_escape_char a) s) @ CHR 0x22 # rest) = Some (s, rest)"
  by (induction s) (simp_all add: json_str_body_escape_char)

lemma printable_hex_digit: "d < 16 \<Longrightarrow> printable (hex_digit d)"
  by (simp add: printable_def hex_digit_def)

lemma printable_json_u_escape: "list_all printable (json_u_escape c)"
proof -
  have "(of_char c :: nat) < 4096" by (rule less_trans [OF nat_of_char_less_256]) simp
  then have "(of_char c :: nat) div 4096 = 0" by (rule div_less)
  then show ?thesis
    by (simp add: json_u_escape_def Let_def printable_hex_digit, simp add: printable_def)
qed

lemma printable_json_escape_char: "list_all printable (json_escape_char True c)"
  using printable_json_u_escape [of c]
  by (auto simp: json_escape_char_def printable_def not_less)

lemma printable_json_str: "list_all printable (json_str True s)"
  using printable_json_escape_char by (simp add: json_str_def printable_def list_all_iff)

lemma printable_py_str_int: "list_all printable (py_str_int n)"
proof -
  have "list_all printable (show_nat m)" for m
    by (auto simp: list_all_iff printable_def dest!: show_nat_digits simp: of_char_digit_char)
  then show ?thesis by (simp add: py_str_int_def printable_def)
qed

lemma printable_json_join: "list_all (list_all printable) ss \<Longrightarrow> list_all printable (json_join ss)"
  by (induction ss rule: json_join.induct) (simp_all add: printable_def)

lemma json_dumps_printable:
  "json_dumps True v = Inr s \<Longrightarrow> list_all printable s"
  "json_elems True xs = Inr ss \<Longrightarrow> list_all (list_all printable) ss"
  "json_members True kvs = Inr ss \<Longrightarrow> list_all (list_all printable) ss"
proof (induction True v and True xs and True kvs arbitrary: s and ss and ss
       rule: json_dumps_json_elems_json_members.induct)
qed (auto simp: printable_json_str printable_py_str_int printable_def intro!: printable_json_join)

text \<open>Every string \<^verbatim>\<open>json.dumps\<close> writes, with or without
  \<^verbatim>\<open>ensure_ascii\<close>, is a JSON string literal that reads back as the same string,
  whatever follows it.\<close>

theorem json_dumps_str_roundtrip:
  "\<exists>t. json_dumps a (PStr s) = Inr t \<and> json_str_parse (t @ rest) = Some (s, rest)"
  by (simp add: json_str_parse_def json_str_def json_str_body_escaped)

end
