(* ===== verification/JsonRead.thy ===== *)
theory JsonRead
  imports Json
begin

text \<open>
  A reader of JSON texts (RFC 8259), the reference against which the output of
  the JSON endpoints is checked: \<open>json_lex\<close> splits the text into tokens,
  skipping the four whitespace characters, and \<open>jparse_value\<close> reads one value
  from the tokens by recursive descent. Numbers are restricted to integers
  (\<^verbatim>\<open>-\<close>\<open>?\<close>, then \<^verbatim>\<open>0\<close> or a digit run without a leading zero), the only
  numbers the serialisers write here; strings are read by \<open>json_str_body\<close>.
  The descent is bounded by fuel (\<open>JFuel\<close>, a result of its own, apart from
  a syntax error \<open>JErr\<close>); \<open>json_loads\<close> gives it twice the number of tokens
  plus one, which never runs out.
\<close>

datatype jtok = JLBrack | JRBrack | JLBrace | JRBrace | JComma | JColon
  | JNull | JTrue | JFalse | JNum int | JStrT string

datatype 'a jres = JOk 'a | JErr | JFuel

definition json_ws :: "char \<Rightarrow> bool" where
  "json_ws c \<longleftrightarrow> c \<in> set [CHR 0x20, CHR 0x09, CHR 0x0A, CHR 0x0D]"

definition json_lex_nat :: "string \<Rightarrow> (nat \<times> string) option" where
  "json_lex_nat s =
     (let ds = takeWhile is_digit s in
      if ds = [] \<or> (hd ds = CHR ''0'' \<and> 1 < length ds) then None
      else map_option (\<lambda>n. (n, dropWhile is_digit s)) (parse_unsigned ds))"

function json_lex :: "string \<Rightarrow> jtok list option" where
  "json_lex [] = Some []"
| "json_lex (c # cs) =
     (if json_ws c then json_lex cs
      else if c = CHR ''['' then map_option (Cons JLBrack) (json_lex cs)
      else if c = CHR '']'' then map_option (Cons JRBrack) (json_lex cs)
      else if c = CHR ''{'' then map_option (Cons JLBrace) (json_lex cs)
      else if c = CHR ''}'' then map_option (Cons JRBrace) (json_lex cs)
      else if c = CHR '','' then map_option (Cons JComma) (json_lex cs)
      else if c = CHR '':'' then map_option (Cons JColon) (json_lex cs)
      else if c = CHR 0x22 then
        (case json_str_body cs of
           None \<Rightarrow> None
         | Some (s, r) \<Rightarrow> map_option (Cons (JStrT s)) (json_lex r))
      else if c = CHR ''n'' \<and> take 3 cs = ''ull'' then map_option (Cons JNull) (json_lex (drop 3 cs))
      else if c = CHR ''t'' \<and> take 3 cs = ''rue'' then map_option (Cons JTrue) (json_lex (drop 3 cs))
      else if c = CHR ''f'' \<and> take 4 cs = ''alse'' then map_option (Cons JFalse) (json_lex (drop 4 cs))
      else if c = CHR ''-'' then
        (case json_lex_nat cs of
           None \<Rightarrow> None
         | Some (n, r) \<Rightarrow> map_option (Cons (JNum (- int n))) (json_lex r))
      else if is_digit c then
        (case json_lex_nat (c # cs) of
           None \<Rightarrow> None
         | Some (n, r) \<Rightarrow> map_option (Cons (JNum (int n))) (json_lex r))
      else None)"
  by pat_completeness auto
termination
  apply (relation "measure length")
  apply (auto simp: json_lex_nat_def Let_def le_imp_less_Suc length_dropWhile_le
      dest!: json_str_body_shorter split: if_splits)
  done

fun jres_map :: "('a \<Rightarrow> 'b) \<Rightarrow> 'a jres \<Rightarrow> 'b jres" where
  "jres_map f (JOk x) = JOk (f x)"
| "jres_map f JErr = JErr"
| "jres_map f JFuel = JFuel"

fun jres_bind :: "'a jres \<Rightarrow> ('a \<Rightarrow> 'b jres) \<Rightarrow> 'b jres" where
  "jres_bind (JOk x) f = f x"
| "jres_bind JErr f = JErr"
| "jres_bind JFuel f = JFuel"

fun jparse_value :: "nat \<Rightarrow> jtok list \<Rightarrow> (pyval \<times> jtok list) jres"
and jparse_elems :: "nat \<Rightarrow> jtok list \<Rightarrow> (pyval list \<times> jtok list) jres"
and jparse_members :: "nat \<Rightarrow> jtok list \<Rightarrow> ((string \<times> pyval) list \<times> jtok list) jres" where
  "jparse_value 0 ts = JFuel"
| "jparse_value (Suc n) [] = JErr"
| "jparse_value (Suc n) (JNull # ts) = JOk (PNone, ts)"
| "jparse_value (Suc n) (JTrue # ts) = JOk (PBool True, ts)"
| "jparse_value (Suc n) (JFalse # ts) = JOk (PBool False, ts)"
| "jparse_value (Suc n) (JNum i # ts) = JOk (PInt i, ts)"
| "jparse_value (Suc n) (JStrT s # ts) = JOk (PStr s, ts)"
| "jparse_value (Suc n) (JLBrack # JRBrack # ts) = JOk (PList [], ts)"
| "jparse_value (Suc n) (JLBrack # ts) = jres_map (\<lambda>(xs, r). (PList xs, r)) (jparse_elems n ts)"
| "jparse_value (Suc n) (JLBrace # JRBrace # ts) = JOk (PDict [], ts)"
| "jparse_value (Suc n) (JLBrace # ts) = jres_map (\<lambda>(kvs, r). (PDict kvs, r)) (jparse_members n ts)"
| "jparse_value (Suc n) (JRBrack # ts) = JErr"
| "jparse_value (Suc n) (JRBrace # ts) = JErr"
| "jparse_value (Suc n) (JComma # ts) = JErr"
| "jparse_value (Suc n) (JColon # ts) = JErr"
| "jparse_elems 0 ts = JFuel"
| "jparse_elems (Suc n) ts =
     jres_bind (jparse_value n ts) (\<lambda>(v, r).
       case r of
         JComma # r' \<Rightarrow> jres_map (\<lambda>(vs, r''). (v # vs, r'')) (jparse_elems n r')
       | JRBrack # r' \<Rightarrow> JOk ([v], r')
       | _ \<Rightarrow> JErr)"
| "jparse_members 0 ts = JFuel"
| "jparse_members (Suc n) (JStrT k # JColon # ts) =
     jres_bind (jparse_value n ts) (\<lambda>(v, r).
       case r of
         JComma # r' \<Rightarrow> jres_map (\<lambda>(kvs, r''). ((k, v) # kvs, r'')) (jparse_members n r')
       | JRBrace # r' \<Rightarrow> JOk ([(k, v)], r')
       | _ \<Rightarrow> JErr)"
| "jparse_members (Suc n) ts = JErr"

definition json_loads :: "string \<Rightarrow> pyval option" where
  "json_loads s =
     (case json_lex s of
        None \<Rightarrow> None
      | Some ts \<Rightarrow>
          (case jparse_value (2 * length ts + 1) ts of
             JOk (v, []) \<Rightarrow> Some v
           | _ \<Rightarrow> None))"

text \<open>The tokens of a value as the serialisers write it.\<close>

fun json_toks :: "pyval \<Rightarrow> jtok list"
and elems_toks :: "pyval list \<Rightarrow> jtok list"
and members_toks :: "(string \<times> pyval) list \<Rightarrow> jtok list" where
  "json_toks PNone = [JNull]"
| "json_toks (PBool b) = [if b then JTrue else JFalse]"
| "json_toks (PInt i) = [JNum i]"
| "json_toks (PStr s) = [JStrT s]"
| "json_toks (PList xs) = JLBrack # elems_toks xs @ [JRBrack]"
| "json_toks (PDict d) = JLBrace # members_toks d @ [JRBrace]"
| "json_toks (PObjectId i) = []"
| "elems_toks [] = []"
| "elems_toks [x] = json_toks x"
| "elems_toks (x # y # ys) = json_toks x @ JComma # elems_toks (y # ys)"
| "members_toks [] = []"
| "members_toks [(k, v)] = JStrT k # JColon # json_toks v"
| "members_toks ((k, v) # kv # kvs) = JStrT k # JColon # json_toks v @ JComma # members_toks (kv # kvs)"

section \<open>Lemmas\<close>

lemma jres_bind_JOk_iff: "jres_bind m f = JOk y \<longleftrightarrow> (\<exists>x. m = JOk x \<and> f x = JOk y)"
  by (cases m) auto

lemma jres_map_iff [simp]:
  "jres_map f m = JOk y \<longleftrightarrow> (\<exists>x. m = JOk x \<and> y = f x)"
  "jres_map f m = JFuel \<longleftrightarrow> m = JFuel"
  by (cases m; auto)+

lemma jparse_value_LBrack:
  "jparse_value (Suc n) (JLBrack # ts) =
     (case ts of JRBrack # r \<Rightarrow> JOk (PList [], r) | _ \<Rightarrow> jres_map (\<lambda>(xs, r). (PList xs, r)) (jparse_elems n ts))"
  by (cases ts rule: list.exhaust; case_tac "hd ts") auto

lemma jparse_value_LBrace:
  "jparse_value (Suc n) (JLBrace # ts) =
     (case ts of JRBrace # r \<Rightarrow> JOk (PDict [], r) | _ \<Rightarrow> jres_map (\<lambda>(kvs, r). (PDict kvs, r)) (jparse_members n ts))"
  by (cases ts rule: list.exhaust; case_tac "hd ts") auto

lemma jparse_value_step:
  assumes e: "\<And>ts. 2 * length ts + 2 \<le> n \<Longrightarrow>
      jparse_elems n ts \<noteq> JFuel \<and> (\<forall>v r. jparse_elems n ts = JOk (v, r) \<longrightarrow> length r < length ts)"
    and m: "\<And>ts. 2 * length ts + 2 \<le> n \<Longrightarrow>
      jparse_members n ts \<noteq> JFuel \<and> (\<forall>v r. jparse_members n ts = JOk (v, r) \<longrightarrow> length r < length ts)"
    and len: "2 * length ts + 1 \<le> Suc n"
  shows "jparse_value (Suc n) ts \<noteq> JFuel \<and> (\<forall>v r. jparse_value (Suc n) ts = JOk (v, r) \<longrightarrow> length r < length ts)"
proof (cases ts)
  case (Cons t ts')
  from len Cons have l: "2 * length ts' + 2 \<le> n" by simp
  show ?thesis
  proof (cases t)
    case JLBrack
    with Cons e [OF l] show ?thesis
      by (cases ts') (fastforce simp: jparse_value_LBrack split: jtok.splits)+
  next
    case JLBrace
    with Cons m [OF l] show ?thesis
      by (cases ts') (fastforce simp: jparse_value_LBrace split: jtok.splits)+
  qed (simp_all add: Cons)
qed simp

lemma jparse_elems_step:
  assumes v: "\<And>ts. 2 * length ts + 1 \<le> n \<Longrightarrow>
      jparse_value n ts \<noteq> JFuel \<and> (\<forall>v r. jparse_value n ts = JOk (v, r) \<longrightarrow> length r < length ts)"
    and e: "\<And>ts. 2 * length ts + 2 \<le> n \<Longrightarrow>
      jparse_elems n ts \<noteq> JFuel \<and> (\<forall>v r. jparse_elems n ts = JOk (v, r) \<longrightarrow> length r < length ts)"
    and len: "2 * length ts + 2 \<le> Suc n"
  shows "jparse_elems (Suc n) ts \<noteq> JFuel \<and> (\<forall>v r. jparse_elems (Suc n) ts = JOk (v, r) \<longrightarrow> length r < length ts)"
proof -
  from len have vt: "jparse_value n ts \<noteq> JFuel \<and> (\<forall>v r. jparse_value n ts = JOk (v, r) \<longrightarrow> length r < length ts)"
    by (intro v) simp
  show ?thesis
  proof (cases "jparse_value n ts")
    case (JOk x)
    obtain x1 r where x: "x = (x1, r)" by (cases x)
    with vt JOk have lr: "length r < length ts" by blast
    show ?thesis
    proof (cases r)
      case (Cons t r')
      with lr len have l: "2 * length r' + 2 \<le> n" by simp
      from e [OF l] JOk x Cons lr show ?thesis
        by (cases t) (fastforce split: prod.splits)+
    qed (simp add: JOk x)
  qed (use vt in simp_all)
qed

lemma jparse_members_step:
  assumes v: "\<And>ts. 2 * length ts + 1 \<le> n \<Longrightarrow>
      jparse_value n ts \<noteq> JFuel \<and> (\<forall>v r. jparse_value n ts = JOk (v, r) \<longrightarrow> length r < length ts)"
    and m: "\<And>ts. 2 * length ts + 2 \<le> n \<Longrightarrow>
      jparse_members n ts \<noteq> JFuel \<and> (\<forall>v r. jparse_members n ts = JOk (v, r) \<longrightarrow> length r < length ts)"
    and len: "2 * length ts + 2 \<le> Suc n"
  shows "jparse_members (Suc n) ts \<noteq> JFuel \<and> (\<forall>v r. jparse_members (Suc n) ts = JOk (v, r) \<longrightarrow> length r < length ts)"
proof (cases "\<exists>k ts'. ts = JStrT k # JColon # ts'")
  case True
  then obtain k ts' where ts: "ts = JStrT k # JColon # ts'" by blast
  from len ts have vt: "jparse_value n ts' \<noteq> JFuel \<and> (\<forall>v r. jparse_value n ts' = JOk (v, r) \<longrightarrow> length r < length ts')"
    by (intro v) simp
  show ?thesis
  proof (cases "jparse_value n ts'")
    case (JOk x)
    obtain x1 r where x: "x = (x1, r)" by (cases x)
    with vt JOk have lr: "length r < length ts'" by blast
    show ?thesis
    proof (cases r)
      case (Cons t r')
      with lr len ts have l: "2 * length r' + 2 \<le> n" by simp
      from m [OF l] JOk x Cons lr ts show ?thesis
        by (cases t) (fastforce split: prod.splits)+
    qed (simp add: JOk x ts)
  qed (use vt ts in simp_all)
next
  case False
  have "jparse_members (Suc n) ts = JErr"
  proof (cases ts)
    case (Cons t ts')
    with False show ?thesis
      by (cases t; cases ts'; simp) (rename_tac t' ts'', case_tac t', simp_all)
  qed simp
  then show ?thesis by simp
qed

lemma jparse_fuel:
  "(\<forall>ts. 2 * length ts + 1 \<le> n \<longrightarrow>
      jparse_value n ts \<noteq> JFuel \<and> (\<forall>v r. jparse_value n ts = JOk (v, r) \<longrightarrow> length r < length ts)) \<and>
   (\<forall>ts. 2 * length ts + 2 \<le> n \<longrightarrow>
      jparse_elems n ts \<noteq> JFuel \<and> (\<forall>v r. jparse_elems n ts = JOk (v, r) \<longrightarrow> length r < length ts)) \<and>
   (\<forall>ts. 2 * length ts + 2 \<le> n \<longrightarrow>
      jparse_members n ts \<noteq> JFuel \<and> (\<forall>v r. jparse_members n ts = JOk (v, r) \<longrightarrow> length r < length ts))"
proof (induction n)
  case (Suc n)
  then show ?case
    using jparse_value_step [of n] jparse_elems_step [of n] jparse_members_step [of n] by blast
qed simp

text \<open>The fuel \<open>json_loads\<close> gives the descent never runs out: the reader
  answers, with a value or a syntax error, on every input.\<close>

lemma jparse_terminates: "jparse_value (2 * length ts + 1) ts \<noteq> JFuel"
  using jparse_fuel [of "2 * length ts + 1"] by blast

lemma json_toks_head:
  "\<not> has_oid v \<Longrightarrow> \<exists>t r. json_toks v = t # r \<and> t \<noteq> JRBrack \<and> t \<noteq> JRBrace \<and> t \<noteq> JComma \<and> t \<noteq> JColon"
  by (cases v) auto

lemma jparse_toks:
  "\<not> has_oid v \<Longrightarrow> 2 * length (json_toks v) + 1 \<le> n \<Longrightarrow> jparse_value n (json_toks v @ ts) = JOk (v, ts)"
  "\<not> has_oid_list xs \<Longrightarrow> xs \<noteq> [] \<Longrightarrow> 2 * length (elems_toks xs) + 2 \<le> n \<Longrightarrow>
     jparse_elems n (elems_toks xs @ JRBrack # ts) = JOk (xs, ts)"
  "\<not> has_oid_members kvs \<Longrightarrow> kvs \<noteq> [] \<Longrightarrow> 2 * length (members_toks kvs) + 2 \<le> n \<Longrightarrow>
     jparse_members n (members_toks kvs @ JRBrace # ts) = JOk (kvs, ts)"
proof (induction v and xs and kvs arbitrary: n ts and n ts and n ts
       rule: json_toks_elems_toks_members_toks.induct)
  case (5 xs)
  then obtain m where n: "n = Suc m" by (cases n) auto
  show ?case
  proof (cases xs)
    case (Cons x xs')
    have "\<not> has_oid x" using "5.prems"(1) Cons by simp
    then obtain t r where tr: "json_toks x = t # r" "t \<noteq> JRBrack"
      using json_toks_head by blast
    have et: "\<exists>r'. elems_toks xs = t # r'"
      using Cons tr by (cases xs') auto
    have "jparse_elems m (elems_toks xs @ JRBrack # ts) = JOk (xs, ts)"
      using "5.IH" "5.prems" Cons n by simp
    with et tr show ?thesis
      by (auto simp: n jparse_value_LBrack split: list.splits jtok.splits)
  qed (simp add: n)
next
  case (6 d)
  then obtain m where n: "n = Suc m" by (cases n) auto
  show ?case
  proof (cases d)
    case (Cons kv d')
    obtain k v where kv: "kv = (k, v)" by (cases kv)
    have et: "\<exists>r'. members_toks d = JStrT k # r'"
      using Cons kv by (cases d') auto
    have "jparse_members m (members_toks d @ JRBrace # ts) = JOk (d, ts)"
      using "6.IH" "6.prems" Cons n by simp
    with et show ?thesis
      by (auto simp: n jparse_value_LBrace)
  qed (simp add: n)
next
  case (9 x)
  then obtain m where n: "n = Suc m" by (cases n) auto
  with 9 show ?case by simp
next
  case (10 x y ys)
  then obtain m where n: "n = Suc m" by (cases n) auto
  have "jparse_value m (json_toks x @ JComma # elems_toks (y # ys) @ JRBrack # ts) = JOk (x, JComma # elems_toks (y # ys) @ JRBrack # ts)"
    using "10.IH"(1) [of m "JComma # elems_toks (y # ys) @ JRBrack # ts"] "10.prems" n by simp
  moreover have "jparse_elems m (elems_toks (y # ys) @ JRBrack # ts) = JOk (y # ys, ts)"
    using "10.IH"(2) "10.prems" n by simp
  ultimately show ?case by (simp add: n)
next
  case (12 k v)
  then obtain m where n: "n = Suc m" by (cases n) auto
  with 12 show ?case by simp
next
  case (13 k v kv kvs)
  then obtain m where n: "n = Suc m" by (cases n) auto
  have "jparse_value m (json_toks v @ JComma # members_toks (kv # kvs) @ JRBrace # ts) = JOk (v, JComma # members_toks (kv # kvs) @ JRBrace # ts)"
    using "13.IH"(1) [of m "JComma # members_toks (kv # kvs) @ JRBrace # ts"] "13.prems" n by simp
  moreover have "jparse_members m (members_toks (kv # kvs) @ JRBrace # ts) = JOk (kv # kvs, ts)"
    using "13.IH"(2) "13.prems" n by (cases kv) simp
  ultimately show ?case by (simp add: n)
qed (auto simp: numeral_2_eq_2 elim!: Suc_le_D [THEN exE])
lemma is_digit_not_special:
  "is_digit c \<Longrightarrow> \<not> json_ws c \<and> c \<noteq> CHR ''['' \<and> c \<noteq> CHR '']'' \<and> c \<noteq> CHR ''{'' \<and>
     c \<noteq> CHR ''}'' \<and> c \<noteq> CHR '','' \<and> c \<noteq> CHR '':'' \<and> c \<noteq> CHR 0x22 \<and> c \<noteq> CHR ''n'' \<and>
     c \<noteq> CHR ''t'' \<and> c \<noteq> CHR ''f'' \<and> c \<noteq> CHR ''-''"
  by (auto simp: digit_val_def Let_def json_ws_def)

lemma json_lex_digit:
  "is_digit c \<Longrightarrow> json_lex (c # cs) =
     (case json_lex_nat (c # cs) of None \<Rightarrow> None | Some (n, r) \<Rightarrow> map_option (Cons (JNum (int n))) (json_lex r))"
  using is_digit_not_special [of c] by simp

lemma json_lex_nat_show_nat:
  assumes "rest = [] \<or> \<not> is_digit (hd rest)"
  shows "json_lex_nat (show_nat m @ rest) = Some (m, rest)"
proof -
  have d: "\<And>x. x \<in> set (show_nat m) \<Longrightarrow> is_digit x"
    using show_nat_is_digit [of m] by (simp add: list_all_iff)
  have tw: "takeWhile is_digit (show_nat m @ rest) = show_nat m"
    using takeWhile_append2 [of "show_nat m" is_digit rest] d assms by (cases rest) auto
  have dw: "dropWhile is_digit (show_nat m @ rest) = rest"
    using dropWhile_append2 [of "show_nat m" is_digit rest] d assms by (cases rest) auto
  have "hd (show_nat m) = CHR ''0'' \<Longrightarrow> length (show_nat m) = 1"
    using show_nat_leading_zero by fastforce
  then show ?thesis
    using show_nat_ne [of m] unfolding json_lex_nat_def Let_def tw dw
    by (simp add: parse_unsigned_show_nat)
qed

lemma json_lex_py_str_int:
  assumes "rest = [] \<or> \<not> is_digit (hd rest)"
  shows "json_lex (py_str_int i @ rest) = map_option (Cons (JNum i)) (json_lex rest)"
proof (cases "i < 0")
  case True
  then show ?thesis
    by (simp add: py_str_int_def json_lex_nat_show_nat [OF assms] json_ws_def)
next
  case False
  obtain d cs where d: "d < 10" and sn: "show_nat (nat i) = digit_char d # cs"
    using show_nat_hd by blast
  have dig: "is_digit (digit_char d)" using d by simp
  have "json_lex (show_nat (nat i) @ rest) =
          (case json_lex_nat (show_nat (nat i) @ rest) of None \<Rightarrow> None
           | Some (n, r) \<Rightarrow> map_option (Cons (JNum (int n))) (json_lex r))"
    unfolding sn append_Cons by (rule json_lex_digit [OF dig])
  with False show ?thesis
    by (simp add: py_str_int_def json_lex_nat_show_nat [OF assms])
qed

lemma append_singleton_fun: "(@) [x] = (#) x"
  by (rule ext) simp

lemma json_lex_dumps:
  "json_dumps a v = Inr s \<Longrightarrow> rest = [] \<or> \<not> is_digit (hd rest) \<Longrightarrow>
     json_lex (s @ rest) = map_option ((@) (json_toks v)) (json_lex rest)"
  "json_elems a xs = Inr ss \<Longrightarrow> xs \<noteq> [] \<Longrightarrow> rest = [] \<or> \<not> is_digit (hd rest) \<Longrightarrow>
     json_lex (json_join ss @ rest) = map_option ((@) (elems_toks xs)) (json_lex rest)"
  "json_members a kvs = Inr ss \<Longrightarrow> kvs \<noteq> [] \<Longrightarrow> rest = [] \<or> \<not> is_digit (hd rest) \<Longrightarrow>
     json_lex (json_join ss @ rest) = map_option ((@) (members_toks kvs)) (json_lex rest)"
proof (induction a v and a xs and a kvs arbitrary: s rest and ss rest and ss rest
       rule: json_dumps_json_elems_json_members.induct)
  case (3 a n)
  then have "s = py_str_int n" by simp
  with "3.prems"(2) show ?case by (simp add: json_lex_py_str_int)
next
  case (4 a str)
  then have "s = json_str a str" by simp
  then show ?case by (simp add: json_str_def json_str_body_escaped json_ws_def)
next
  case (5 a xs)
  then show ?case
    by (cases xs) (auto simp: json_ws_def digit_val_def option.map_comp comp_def)
next
  case (6 a d)
  then show ?case
    by (cases d) (auto simp: json_ws_def digit_val_def option.map_comp comp_def)
next
  case (9 a x xs)
  then obtain s1 ss' where s1: "json_dumps a x = Inr s1" and ss': "json_elems a xs = Inr ss'"
    and ss: "ss = s1 # ss'" by (auto simp: py_bind_eq_Inr)
  show ?case
  proof (cases xs)
    case Nil
    with ss' ss "9.IH"(1) [OF s1] "9.prems"(3) show ?thesis by simp
  next
    case (Cons y ys)
    from "9.IH"(2) [OF ss'] Cons "9.prems"(3)
    have IHxs: "json_lex (json_join ss' @ rest) = map_option ((@) (elems_toks xs)) (json_lex rest)" by simp
    from ss' Cons obtain s2 ss'' where ss'': "ss' = s2 # ss''" by (auto simp: py_bind_eq_Inr)
    have "json_lex (s1 @ '', '' @ json_join ss' @ rest) =
            map_option ((@) (json_toks x)) (json_lex ('', '' @ json_join ss' @ rest))"
      using "9.IH"(1) [OF s1, of "'', '' @ json_join ss' @ rest"] by (simp add: digit_val_def)
    with IHxs show ?thesis
      by (simp add: ss ss'' Cons json_ws_def option.map_comp comp_def)
  qed
next
  case (11 a k v kvs)
  then obtain s1 ss' where s1: "json_dumps a v = Inr s1" and ss': "json_members a kvs = Inr ss'"
    and ss: "ss = (json_str a k @ '': '' @ s1) # ss'" by (auto simp: py_bind_eq_Inr)
  have kv: "json_lex (json_str a k @ '': '' @ t) = map_option (\<lambda>x. JStrT k # JColon # x) (json_lex t)" for t
    by (simp add: json_str_def json_str_body_escaped json_ws_def option.map_comp comp_def)
  show ?case
  proof (cases kvs)
    case Nil
    with ss' ss "11.IH"(1) [OF s1] "11.prems"(3) kv show ?thesis
      by (simp add: option.map_comp comp_def)
  next
    case (Cons kv' kvs')
    from "11.IH"(2) [OF ss'] Cons "11.prems"(3)
    have IHkvs: "json_lex (json_join ss' @ rest) = map_option ((@) (members_toks kvs)) (json_lex rest)" by simp
    from ss' Cons obtain s2 ss'' where ss'': "ss' = s2 # ss''" by (cases kv') (auto simp: py_bind_eq_Inr)
    have "json_lex (s1 @ '', '' @ json_join ss' @ rest) =
            map_option ((@) (json_toks v)) (json_lex ('', '' @ json_join ss' @ rest))"
      using "11.IH"(1) [OF s1, of "'', '' @ json_join ss' @ rest"] by (simp add: digit_val_def)
    with IHkvs kv Cons show ?thesis
      by (cases kv') (simp add: ss ss'' json_ws_def option.map_comp comp_def)
  qed
qed (auto simp: json_ws_def append_singleton_fun split: if_splits)

text \<open>What \<^verbatim>\<open>json.dumps\<close> writes reads back as the value it was given.\<close>

lemma json_loads_dumps: "json_dumps a v = Inr s \<Longrightarrow> json_loads s = Some v"
proof -
  assume s: "json_dumps a v = Inr s"
  then have nv: "\<not> has_oid v" using json_dumps_ok(1) by blast
  have "json_lex s = Some (json_toks v)"
    using json_lex_dumps(1) [OF s, of "[]"] by simp
  moreover have "jparse_value (2 * length (json_toks v) + 1) (json_toks v @ []) = JOk (v, [])"
    by (rule jparse_toks(1) [OF nv]) simp
  ultimately show ?thesis by (simp add: json_loads_def)
qed

end
