(* ===== verification/Lookups.thy ===== *)
theory Lookups
  imports DocStore JsonRead
begin

text \<open>
  The controllers of \<^verbatim>\<open>src/ch06/web/report_flask.py\<close> that read MongoDB, and
  the two chapter 2 applications. Each takes the store (\<open>mongo_store\<close>, the
  calls on \<^verbatim>\<open>client.agile_data_science\<close>) and the request, and returns the
  response: a template with its variables (\<open>Render\<close>, the arguments of
  \<^verbatim>\<open>render_template\<close>) or a body (\<open>Body\<close>, a string returned as is). A
  cursor handed to a template is the list of documents it yields. Handlers
  that can raise return \<open>response py_result\<close>. \<^verbatim>\<open>list_flights\<close> calls
  \<^verbatim>\<open>Cursor.count()\<close> (\<open>cursor_count\<close> of \<open>DocStore\<close>), which PyMongo 4
  removed, so it is modelled for both major versions (\<open>pymongo_version\<close>). The \<^verbatim>\<open>print\<close> in
  \<^verbatim>\<open>flights_per_airplane\<close> writes to the server log only and is not modelled.
\<close>

datatype tvar = TDoc "document option" | TDocs "document list" | TStr string | TNat nat

datatype response = Render string "(string \<times> tvar) list" | Body string

text \<open>\<^verbatim>\<open>request.args.get(k)\<close> is a string or \<^verbatim>\<open>None\<close>, and goes into the filter
  as such.\<close>

definition arg_value :: "string option \<Rightarrow> pyval" where
  "arg_value a = (case a of None \<Rightarrow> PNone | Some s \<Rightarrow> PStr s)"

definition flight_filter :: "query_args \<Rightarrow> mfilter" where
  "flight_filter args =
     [(''Carrier'', arg_value (args ''Carrier'')), (''FlightDate'', arg_value (args ''FlightDate'')),
      (''FlightNum'', arg_value (args ''FlightNum''))]"

definition on_time_performance :: "mongo_store \<Rightarrow> query_args \<Rightarrow> response" where
  "on_time_performance st args =
     (let flight = find_one_op st ''on_time_performance'' (flight_filter args)
      in Render ''flight.html'' [(''flight'', TDoc flight)])"

definition route_filter :: "string \<Rightarrow> string \<Rightarrow> string \<Rightarrow> mfilter" where
  "route_filter origin dest flight_date =
     [(''Origin'', PStr origin), (''Dest'', PStr dest), (''FlightDate'', PStr flight_date)]"

definition list_flights ::
  "pymongo_version \<Rightarrow> mongo_store \<Rightarrow> string \<Rightarrow> string \<Rightarrow> string \<Rightarrow> response py_result" where
  "list_flights ver st origin dest flight_date =
     (let flt = route_filter origin dest flight_date;
          flights = find_op st ''on_time_performance'' flt [''DepTime'', ''ArrTime'']
      in py_bind (cursor_count ver st ''on_time_performance'' flt) (\<lambda>flight_count.
         Inr (Render ''flights.html''
                [(''flights'', TDocs flights), (''flight_date'', TStr flight_date),
                 (''flight_count'', TNat flight_count)])))"

definition monthly_totals :: "mongo_store \<Rightarrow> document list" where
  "monthly_totals st = find_op st ''flights_by_month'' [] [''Year'', ''Month'']"

definition total_flights :: "mongo_store \<Rightarrow> response" where
  "total_flights st = Render ''total_flights.html'' [(''total_flights'', TDocs (monthly_totals st))]"

definition total_flights_json :: "mongo_store \<Rightarrow> response py_result" where
  "total_flights_json st =
     py_bind (json_util_dumps False (PList (map PDict (monthly_totals st)))) (\<lambda>s. Inr (Body s))"

definition total_flights_chart :: "mongo_store \<Rightarrow> response" where
  "total_flights_chart st =
     Render ''total_flights_chart.html'' [(''total_flights'', TDocs (monthly_totals st))]"

definition doc_value :: "document option \<Rightarrow> pyval" where
  "doc_value d = (case d of None \<Rightarrow> PNone | Some fs \<Rightarrow> PDict fs)"

definition airplane_manufacturers_chart :: "mongo_store \<Rightarrow> response py_result" where
  "airplane_manufacturers_chart st =
     (let mfr_chart = find_one_op st ''airplane_manufacturer_totals'' []
      in py_bind (json_dumps True (doc_value mfr_chart)) (\<lambda>s. Inr (Body s)))"

definition flights_per_airplane :: "mongo_store \<Rightarrow> string \<Rightarrow> response" where
  "flights_per_airplane st tail_number =
     (let flights = find_one_op st ''flights_per_airplane'' [(''TailNum'', PStr tail_number)]
      in Render ''flights_per_airplane.html'' [(''flights'', TDoc flights), (''tail_number'', TStr tail_number)])"

definition airline :: "mongo_store \<Rightarrow> string \<Rightarrow> response" where
  "airline st carrier_code =
     (let airline_airplanes = find_one_op st ''airplanes_per_carrier'' [(''Carrier'', PStr carrier_code)];
          airline_airports = find_one_op st ''airports_per_carrier'' [(''Carrier'', PStr carrier_code)]
      in Render ''airlines.html''
           [(''airline_airplanes'', TDoc airline_airplanes), (''carrier_code'', TStr carrier_code),
            (''airline_airports'', TDoc airline_airports)])"

definition airport :: "mongo_store \<Rightarrow> string \<Rightarrow> response" where
  "airport st airport_code =
     (let carriers_per_airport = find_one_op st ''carriers_per_airport'' [(''Airport'', PStr airport_code)];
          airport_metadata = find_one_op st ''airport_metadata'' [(''AirportCode'', PStr airport_code)]
      in Render ''airport.html''
           [(''airport_code'', TStr airport_code), (''carriers_per_airport'', TDoc carriers_per_airport),
            (''airport_metadata'', TDoc airport_metadata)])"

definition airline2 :: "mongo_store \<Rightarrow> string \<Rightarrow> response" where
  "airline2 st carrier_code =
     (let airline_summary = find_one_op st ''airlines'' [(''CarrierCode'', PStr carrier_code)];
          airline_airplanes = find_one_op st ''airplanes_per_carrier'' [(''Carrier'', PStr carrier_code)];
          airline_airports = find_one_op st ''airports_per_carrier'' [(''Carrier'', PStr carrier_code)]
      in Render ''airlines2.html''
           [(''airline_summary'', TDoc airline_summary), (''airline_airplanes'', TDoc airline_airplanes),
            (''airline_airports'', TDoc airline_airports), (''carrier_code'', TStr carrier_code)])"

definition airlines :: "mongo_store \<Rightarrow> response" where
  "airlines st = Render ''all_airlines.html'' [(''airlines'', TDocs (find_op st ''airplanes_per_carrier'' [] []))]"

text \<open>Chapter 2: \<^verbatim>\<open>src/ch02/web/test_flask.py\<close> echoes the path, and the two
  \<^verbatim>\<open>executive\<close> handlers of \<^verbatim>\<open>test_flask_bootstrap.py\<close> and
  \<^verbatim>\<open>test_flask_pymongo.py\<close> list the executives of a name as a table or as
  JSON.\<close>

definition hello :: "string \<Rightarrow> response" where
  "hello input = Body input"

definition executives_named :: "mongo_store \<Rightarrow> string \<Rightarrow> document list" where
  "executives_named st name = find_op st ''executives'' [(''name'', PStr name)] []"

definition executive_bootstrap :: "mongo_store \<Rightarrow> string \<Rightarrow> response" where
  "executive_bootstrap st name = Render ''table.html'' [(''executives'', TDocs (executives_named st name))]"

definition executive_pymongo :: "mongo_store \<Rightarrow> string \<Rightarrow> response py_result" where
  "executive_pymongo st name =
     py_bind (json_util_dumps True (PList (map PDict (executives_named st name)))) (\<lambda>s. Inr (Body s))"

section \<open>Lemmas\<close>

lemma json_util_dumps_Inr: "\<exists>s. json_util_dumps a v = Inr s"
  unfolding json_util_dumps_def using json_dumps_ok(1) bson_json_convert_no_oid(1) by blast

lemma bson_convert_list_map_PDict:
  "bson_convert_list (map PDict docs) = map (\<lambda>d. PDict (bson_convert_members d)) docs"
  by (induction docs) simp_all

text \<open>A body written by \<^verbatim>\<open>bson.json_util.dumps\<close> from a list of documents reads
  back as those documents, each \<^verbatim>\<open>ObjectId\<close> as \<^verbatim>\<open>{"$oid": ...}\<close>.\<close>

lemma json_util_docs_body:
  "json_util_dumps a (PList (map PDict docs)) = Inr s \<Longrightarrow>
     json_loads s = Some (PList (map (\<lambda>d. PDict (bson_convert_members d)) docs))"
  unfolding json_util_dumps_def
  by (drule json_loads_dumps) (simp add: bson_convert_list_map_PDict)

lemma has_oid_doc_value: "has_oid (doc_value d) \<longleftrightarrow> (case d of None \<Rightarrow> False | Some fs \<Rightarrow> has_oid_members fs)"
  by (simp add: doc_value_def split: option.splits)

lemma json_dumps_Inl_iff: "(\<exists>e. json_dumps a v = Inl e) \<longleftrightarrow> has_oid v"
  using json_dumps_ok(1) [of a v] by (cases "json_dumps a v") auto

lemma has_oid_members_field: "map_of d k = Some v \<Longrightarrow> has_oid v \<Longrightarrow> has_oid_members d"
proof (induction d)
  case (Cons p d)
  then show ?case by (cases p) (auto split: if_splits)
qed simp

lemma airplane_manufacturers_chart_Inl_iff:
  "airplane_manufacturers_chart st = Inl TypeError \<longleftrightarrow>
     (\<exists>d. find_one_op st ''airplane_manufacturer_totals'' [] = Some d \<and> has_oid_members d)"
proof -
  have "airplane_manufacturers_chart st = Inl TypeError \<longleftrightarrow>
          (\<exists>e. json_dumps True (doc_value (find_one_op st ''airplane_manufacturer_totals'' [])) = Inl e)"
    using json_dumps_error(1) by (auto simp: airplane_manufacturers_chart_def py_bind_eq_Inl)
  then show ?thesis
    by (simp add: json_dumps_Inl_iff has_oid_doc_value split: option.splits)
qed

text \<open>With a store that meets the MongoDB contract, on_time_performance renders flight.html with the flight that find_one returns for the Carrier, FlightDate and FlightNum filter: no flight exactly when no document of on_time_performance matches the filter, and otherwise a document of the collection that matches it.\<close>

theorem on_time_performance_result:
  assumes "valid_store db st"
  shows "\<exists>flight. on_time_performance st args = Render ''flight.html'' [(''flight'', TDoc flight)] \<and>
           (flight = None \<longleftrightarrow> \<not> list_ex (doc_matches (flight_filter args)) (db ''on_time_performance'')) \<and>
           (\<forall>d. flight = Some d \<longrightarrow> d \<in> set (db ''on_time_performance'') \<and> doc_matches (flight_filter args) d)"
  using valid_store_find_one_None [OF assms] valid_store_find_one_Some [OF assms]
  by (simp add: on_time_performance_def)

text \<open>C14: A request to /on_time_performance without the Carrier, FlightDate and FlightNum parameters does not render an empty page when the collection holds a document lacking these fields: the None values in the filter match missing fields, and some document whose three fields are all missing or null is shown.\<close>

theorem on_time_performance_no_params:
  assumes "valid_store db st"
    and "args ''Carrier'' = None" "args ''FlightDate'' = None" "args ''FlightNum'' = None"
    and "d \<in> set (db ''on_time_performance'')"
    and "map_of d ''Carrier'' = None" "map_of d ''FlightDate'' = None" "map_of d ''FlightNum'' = None"
  shows "\<exists>d'. on_time_performance st args = Render ''flight.html'' [(''flight'', TDoc (Some d'))] \<and>
              field_matches d' ''Carrier'' PNone \<and> field_matches d' ''FlightDate'' PNone \<and>
              field_matches d' ''FlightNum'' PNone"
proof -
  have flt: "flight_filter args = [(''Carrier'', PNone), (''FlightDate'', PNone), (''FlightNum'', PNone)]"
    using assms(2-4) by (simp add: flight_filter_def arg_value_def)
  have "doc_matches (flight_filter args) d"
    using assms(6-8) by (simp add: flt field_matches_None)
  with assms(5) have "find_one_op st ''on_time_performance'' (flight_filter args) \<noteq> None"
    using valid_store_find_one_None [OF assms(1)] by (auto simp: list_ex_iff)
  then obtain d' where d': "find_one_op st ''on_time_performance'' (flight_filter args) = Some d'" by auto
  with valid_store_find_one_Some [OF assms(1) d'] show ?thesis
    by (simp add: on_time_performance_def flt)
qed

theorem on_time_performance_no_params_witness:
  "\<exists>d'. on_time_performance
          (ref_store (\<lambda>c. if c = ''on_time_performance''
                          then [[(''_id'', PObjectId ''5f1d''), (''Origin'', PStr ''ATL'')]] else []))
          (\<lambda>k. None) = Render ''flight.html'' [(''flight'', TDoc (Some d'))] \<and>
        field_matches d' ''Carrier'' PNone \<and> field_matches d' ''FlightDate'' PNone \<and>
        field_matches d' ''FlightNum'' PNone"
  by (rule on_time_performance_no_params [OF ref_store_valid, where d = "[(''_id'', PObjectId ''5f1d''), (''Origin'', PStr ''ATL'')]"])
     simp_all

text \<open>C13: list_flights fails with AttributeError under PyMongo 4, where Cursor.count no longer exists; under PyMongo 3 it renders flights.html with the documents of the route and date, sorted by DepTime and then ArrTime, and a flight_count equal to the number of flights listed.\<close>

theorem list_flights_result:
  assumes "valid_store db st"
  shows "list_flights PyMongo4 st origin dest flight_date = Inl AttributeError \<and>
         (\<exists>flights. list_flights PyMongo3 st origin dest flight_date =
              Inr (Render ''flights.html'' [(''flights'', TDocs flights), (''flight_date'', TStr flight_date),
                                            (''flight_count'', TNat (length flights))]) \<and>
            mset flights = mset (filter (doc_matches [(''Origin'', PStr origin), (''Dest'', PStr dest), (''FlightDate'', PStr flight_date)])
                                  (db ''on_time_performance'')) \<and>
            sorted (map (doc_sort_key [''DepTime'', ''ArrTime'']) flights))"
  using valid_store_count [OF assms] valid_store_find_mset [OF assms] valid_store_find_sorted [OF assms]
  by (simp add: list_flights_def route_filter_def cursor_count_def Let_def)

text \<open>C8: When every document of airplane_manufacturer_totals carries an ObjectId _id (MongoDB assigns one to every document inserted without an id), airplane_manufacturers_chart raises TypeError, because json.dumps cannot serialise an ObjectId.\<close>

theorem airplane_manufacturers_chart_objectid:
  assumes "valid_store db st" and "db ''airplane_manufacturer_totals'' \<noteq> []"
    and "\<forall>d \<in> set (db ''airplane_manufacturer_totals''). \<exists>i. map_of d ''_id'' = Some (PObjectId i)"
  shows "airplane_manufacturers_chart st = Inl TypeError"
proof -
  from assms(2) have "list_ex (doc_matches []) (db ''airplane_manufacturer_totals'')"
    by (cases "db ''airplane_manufacturer_totals''") auto
  then obtain d where d: "find_one_op st ''airplane_manufacturer_totals'' [] = Some d"
    using valid_store_find_one_None [OF assms(1)] by fastforce
  with valid_store_find_one_Some [OF assms(1) d] assms(3)
  obtain i where "map_of d ''_id'' = Some (PObjectId i)" by blast
  then have "has_oid_members d" by (rule has_oid_members_field) simp
  with d show ?thesis by (simp add: airplane_manufacturers_chart_Inl_iff)
qed

theorem airplane_manufacturers_chart_objectid_witness:
  "airplane_manufacturers_chart
     (ref_store (\<lambda>c. [[(''_id'', PObjectId ''5f1d''), (''Boeing'', PInt 4000)]])) = Inl TypeError"
  by (rule airplane_manufacturers_chart_objectid [OF ref_store_valid]) simp_all

text \<open>C28: total_flights and total_flights_chart render the same list, all documents of flights_by_month sorted by Year and then Month, and total_flights_json serves that list without raising, as a JSON text that reads back
  as the same documents (ObjectIds written as {"$oid": ...}).\<close>

theorem total_flights_views:
  assumes "valid_store db st"
  shows "\<exists>docs s. total_flights st = Render ''total_flights.html'' [(''total_flights'', TDocs docs)] \<and>
              total_flights_chart st = Render ''total_flights_chart.html'' [(''total_flights'', TDocs docs)] \<and>
              total_flights_json st = Inr (Body s) \<and> json_loads s = Some (PList (map (\<lambda>d. PDict (bson_convert_members d)) docs)) \<and>
              mset docs = mset (db ''flights_by_month'') \<and> sorted (map (doc_sort_key [''Year'', ''Month'']) docs)"
proof -
  obtain s where s: "json_util_dumps False (PList (map PDict (monthly_totals st))) = Inr s"
    using json_util_dumps_Inr by blast
  have "mset (monthly_totals st) = mset (db ''flights_by_month'')"
    using valid_store_find_mset [OF assms] by (simp add: monthly_totals_def)
  with s json_util_docs_body [OF s] valid_store_find_sorted [OF assms] show ?thesis
    by (auto simp: total_flights_def total_flights_chart_def total_flights_json_def monthly_totals_def)
qed

text \<open>C29: The two chapter 2 executive applications agree: the JSON application never raises and serves a JSON text that reads back as exactly the documents the table application renders (ObjectIds written as {"$oid": ...}), which are the executives whose name field matches the requested name.\<close>

theorem executive_apps_agree:
  assumes "valid_store db st"
  shows "\<exists>docs s. executive_bootstrap st name = Render ''table.html'' [(''executives'', TDocs docs)] \<and>
              executive_pymongo st name = Inr (Body s) \<and> json_loads s = Some (PList (map (\<lambda>d. PDict (bson_convert_members d)) docs)) \<and>
              mset docs = mset (filter (\<lambda>d. field_matches d ''name'' (PStr name)) (db ''executives''))"
proof -
  obtain s where s: "json_util_dumps True (PList (map PDict (executives_named st name))) = Inr s"
    using json_util_dumps_Inr by blast
  with json_util_docs_body [OF s] valid_store_find_mset [OF assms] show ?thesis
    by (simp add: executive_bootstrap_def executive_pymongo_def executives_named_def)
qed

theorem on_time_performance_result_witness:
  "\<exists>flight. on_time_performance (ref_store (\<lambda>c. if c = ''on_time_performance'' then
                [[(''Origin'', PStr ''ATL''), (''Dest'', PStr ''SFO''), (''FlightDate'', PStr ''2015-01-01''),
                  (''Carrier'', PStr ''DL''), (''FlightNum'', PStr ''1417''), (''DepTime'', PStr ''1405'')],
                 [(''Origin'', PStr ''ATL''), (''Dest'', PStr ''SFO''), (''FlightDate'', PStr ''2015-01-01''),
                  (''Carrier'', PStr ''DL''), (''FlightNum'', PStr ''1219''), (''DepTime'', PStr ''0730'')]]
              else if c = ''flights_by_month'' then
                [[(''Year'', PInt 2015), (''Month'', PInt 2), (''total_flights'', PInt 429191)],
                 [(''Year'', PInt 2015), (''Month'', PInt 1), (''total_flights'', PInt 469968)]]
              else if c = ''executives'' then
                [[(''_id'', PObjectId ''5f1d''), (''name'', PStr ''Ann'')], [(''name'', PStr ''Bob'')]]
              else [])) (\<lambda>k. if k = ''Carrier'' then Some ''DL'' else if k = ''FlightNum'' then Some ''1219'' else if k = ''FlightDate'' then Some ''2015-01-01'' else None)
       = Render ''flight.html'' [(''flight'', TDoc flight)] \<and>
     (flight = None \<longleftrightarrow> \<not> list_ex (doc_matches (flight_filter (\<lambda>k. if k = ''Carrier'' then Some ''DL'' else if k = ''FlightNum'' then Some ''1219'' else if k = ''FlightDate'' then Some ''2015-01-01'' else None))) ((\<lambda>c. if c = ''on_time_performance'' then
                [[(''Origin'', PStr ''ATL''), (''Dest'', PStr ''SFO''), (''FlightDate'', PStr ''2015-01-01''),
                  (''Carrier'', PStr ''DL''), (''FlightNum'', PStr ''1417''), (''DepTime'', PStr ''1405'')],
                 [(''Origin'', PStr ''ATL''), (''Dest'', PStr ''SFO''), (''FlightDate'', PStr ''2015-01-01''),
                  (''Carrier'', PStr ''DL''), (''FlightNum'', PStr ''1219''), (''DepTime'', PStr ''0730'')]]
              else if c = ''flights_by_month'' then
                [[(''Year'', PInt 2015), (''Month'', PInt 2), (''total_flights'', PInt 429191)],
                 [(''Year'', PInt 2015), (''Month'', PInt 1), (''total_flights'', PInt 469968)]]
              else if c = ''executives'' then
                [[(''_id'', PObjectId ''5f1d''), (''name'', PStr ''Ann'')], [(''name'', PStr ''Bob'')]]
              else []) ''on_time_performance'')) \<and>
     (\<forall>d. flight = Some d \<longrightarrow> d \<in> set ((\<lambda>c. if c = ''on_time_performance'' then
                [[(''Origin'', PStr ''ATL''), (''Dest'', PStr ''SFO''), (''FlightDate'', PStr ''2015-01-01''),
                  (''Carrier'', PStr ''DL''), (''FlightNum'', PStr ''1417''), (''DepTime'', PStr ''1405'')],
                 [(''Origin'', PStr ''ATL''), (''Dest'', PStr ''SFO''), (''FlightDate'', PStr ''2015-01-01''),
                  (''Carrier'', PStr ''DL''), (''FlightNum'', PStr ''1219''), (''DepTime'', PStr ''0730'')]]
              else if c = ''flights_by_month'' then
                [[(''Year'', PInt 2015), (''Month'', PInt 2), (''total_flights'', PInt 429191)],
                 [(''Year'', PInt 2015), (''Month'', PInt 1), (''total_flights'', PInt 469968)]]
              else if c = ''executives'' then
                [[(''_id'', PObjectId ''5f1d''), (''name'', PStr ''Ann'')], [(''name'', PStr ''Bob'')]]
              else []) ''on_time_performance'') \<and> doc_matches (flight_filter (\<lambda>k. if k = ''Carrier'' then Some ''DL'' else if k = ''FlightNum'' then Some ''1219'' else if k = ''FlightDate'' then Some ''2015-01-01'' else None)) d)"
  by (rule on_time_performance_result [OF ref_store_valid])

theorem list_flights_result_witness:
  "list_flights PyMongo4 (ref_store (\<lambda>c. if c = ''on_time_performance'' then
                [[(''Origin'', PStr ''ATL''), (''Dest'', PStr ''SFO''), (''FlightDate'', PStr ''2015-01-01''),
                  (''Carrier'', PStr ''DL''), (''FlightNum'', PStr ''1417''), (''DepTime'', PStr ''1405'')],
                 [(''Origin'', PStr ''ATL''), (''Dest'', PStr ''SFO''), (''FlightDate'', PStr ''2015-01-01''),
                  (''Carrier'', PStr ''DL''), (''FlightNum'', PStr ''1219''), (''DepTime'', PStr ''0730'')]]
              else if c = ''flights_by_month'' then
                [[(''Year'', PInt 2015), (''Month'', PInt 2), (''total_flights'', PInt 429191)],
                 [(''Year'', PInt 2015), (''Month'', PInt 1), (''total_flights'', PInt 469968)]]
              else if c = ''executives'' then
                [[(''_id'', PObjectId ''5f1d''), (''name'', PStr ''Ann'')], [(''name'', PStr ''Bob'')]]
              else [])) ''ATL'' ''SFO'' ''2015-01-01'' = Inl AttributeError \<and>
   (\<exists>flights. list_flights PyMongo3 (ref_store (\<lambda>c. if c = ''on_time_performance'' then
                [[(''Origin'', PStr ''ATL''), (''Dest'', PStr ''SFO''), (''FlightDate'', PStr ''2015-01-01''),
                  (''Carrier'', PStr ''DL''), (''FlightNum'', PStr ''1417''), (''DepTime'', PStr ''1405'')],
                 [(''Origin'', PStr ''ATL''), (''Dest'', PStr ''SFO''), (''FlightDate'', PStr ''2015-01-01''),
                  (''Carrier'', PStr ''DL''), (''FlightNum'', PStr ''1219''), (''DepTime'', PStr ''0730'')]]
              else if c = ''flights_by_month'' then
                [[(''Year'', PInt 2015), (''Month'', PInt 2), (''total_flights'', PInt 429191)],
                 [(''Year'', PInt 2015), (''Month'', PInt 1), (''total_flights'', PInt 469968)]]
              else if c = ''executives'' then
                [[(''_id'', PObjectId ''5f1d''), (''name'', PStr ''Ann'')], [(''name'', PStr ''Bob'')]]
              else [])) ''ATL'' ''SFO'' ''2015-01-01'' =
        Inr (Render ''flights.html'' [(''flights'', TDocs flights), (''flight_date'', TStr ''2015-01-01''),
                                      (''flight_count'', TNat (length flights))]) \<and>
      mset flights = mset (filter (doc_matches [(''Origin'', PStr ''ATL''), (''Dest'', PStr ''SFO''), (''FlightDate'', PStr ''2015-01-01'')]) ((\<lambda>c. if c = ''on_time_performance'' then
                [[(''Origin'', PStr ''ATL''), (''Dest'', PStr ''SFO''), (''FlightDate'', PStr ''2015-01-01''),
                  (''Carrier'', PStr ''DL''), (''FlightNum'', PStr ''1417''), (''DepTime'', PStr ''1405'')],
                 [(''Origin'', PStr ''ATL''), (''Dest'', PStr ''SFO''), (''FlightDate'', PStr ''2015-01-01''),
                  (''Carrier'', PStr ''DL''), (''FlightNum'', PStr ''1219''), (''DepTime'', PStr ''0730'')]]
              else if c = ''flights_by_month'' then
                [[(''Year'', PInt 2015), (''Month'', PInt 2), (''total_flights'', PInt 429191)],
                 [(''Year'', PInt 2015), (''Month'', PInt 1), (''total_flights'', PInt 469968)]]
              else if c = ''executives'' then
                [[(''_id'', PObjectId ''5f1d''), (''name'', PStr ''Ann'')], [(''name'', PStr ''Bob'')]]
              else []) ''on_time_performance'')) \<and>
      sorted (map (doc_sort_key [''DepTime'', ''ArrTime'']) flights))"
  by (rule list_flights_result [OF ref_store_valid])

theorem total_flights_views_witness:
  "\<exists>docs s. total_flights (ref_store (\<lambda>c. if c = ''on_time_performance'' then
                [[(''Origin'', PStr ''ATL''), (''Dest'', PStr ''SFO''), (''FlightDate'', PStr ''2015-01-01''),
                  (''Carrier'', PStr ''DL''), (''FlightNum'', PStr ''1417''), (''DepTime'', PStr ''1405'')],
                 [(''Origin'', PStr ''ATL''), (''Dest'', PStr ''SFO''), (''FlightDate'', PStr ''2015-01-01''),
                  (''Carrier'', PStr ''DL''), (''FlightNum'', PStr ''1219''), (''DepTime'', PStr ''0730'')]]
              else if c = ''flights_by_month'' then
                [[(''Year'', PInt 2015), (''Month'', PInt 2), (''total_flights'', PInt 429191)],
                 [(''Year'', PInt 2015), (''Month'', PInt 1), (''total_flights'', PInt 469968)]]
              else if c = ''executives'' then
                [[(''_id'', PObjectId ''5f1d''), (''name'', PStr ''Ann'')], [(''name'', PStr ''Bob'')]]
              else [])) = Render ''total_flights.html'' [(''total_flights'', TDocs docs)] \<and>
      total_flights_chart (ref_store (\<lambda>c. if c = ''on_time_performance'' then
                [[(''Origin'', PStr ''ATL''), (''Dest'', PStr ''SFO''), (''FlightDate'', PStr ''2015-01-01''),
                  (''Carrier'', PStr ''DL''), (''FlightNum'', PStr ''1417''), (''DepTime'', PStr ''1405'')],
                 [(''Origin'', PStr ''ATL''), (''Dest'', PStr ''SFO''), (''FlightDate'', PStr ''2015-01-01''),
                  (''Carrier'', PStr ''DL''), (''FlightNum'', PStr ''1219''), (''DepTime'', PStr ''0730'')]]
              else if c = ''flights_by_month'' then
                [[(''Year'', PInt 2015), (''Month'', PInt 2), (''total_flights'', PInt 429191)],
                 [(''Year'', PInt 2015), (''Month'', PInt 1), (''total_flights'', PInt 469968)]]
              else if c = ''executives'' then
                [[(''_id'', PObjectId ''5f1d''), (''name'', PStr ''Ann'')], [(''name'', PStr ''Bob'')]]
              else [])) = Render ''total_flights_chart.html'' [(''total_flights'', TDocs docs)] \<and>
      total_flights_json (ref_store (\<lambda>c. if c = ''on_time_performance'' then
                [[(''Origin'', PStr ''ATL''), (''Dest'', PStr ''SFO''), (''FlightDate'', PStr ''2015-01-01''),
                  (''Carrier'', PStr ''DL''), (''FlightNum'', PStr ''1417''), (''DepTime'', PStr ''1405'')],
                 [(''Origin'', PStr ''ATL''), (''Dest'', PStr ''SFO''), (''FlightDate'', PStr ''2015-01-01''),
                  (''Carrier'', PStr ''DL''), (''FlightNum'', PStr ''1219''), (''DepTime'', PStr ''0730'')]]
              else if c = ''flights_by_month'' then
                [[(''Year'', PInt 2015), (''Month'', PInt 2), (''total_flights'', PInt 429191)],
                 [(''Year'', PInt 2015), (''Month'', PInt 1), (''total_flights'', PInt 469968)]]
              else if c = ''executives'' then
                [[(''_id'', PObjectId ''5f1d''), (''name'', PStr ''Ann'')], [(''name'', PStr ''Bob'')]]
              else [])) = Inr (Body s) \<and> json_loads s = Some (PList (map (\<lambda>d. PDict (bson_convert_members d)) docs)) \<and>
      mset docs = mset ((\<lambda>c. if c = ''on_time_performance'' then
                [[(''Origin'', PStr ''ATL''), (''Dest'', PStr ''SFO''), (''FlightDate'', PStr ''2015-01-01''),
                  (''Carrier'', PStr ''DL''), (''FlightNum'', PStr ''1417''), (''DepTime'', PStr ''1405'')],
                 [(''Origin'', PStr ''ATL''), (''Dest'', PStr ''SFO''), (''FlightDate'', PStr ''2015-01-01''),
                  (''Carrier'', PStr ''DL''), (''FlightNum'', PStr ''1219''), (''DepTime'', PStr ''0730'')]]
              else if c = ''flights_by_month'' then
                [[(''Year'', PInt 2015), (''Month'', PInt 2), (''total_flights'', PInt 429191)],
                 [(''Year'', PInt 2015), (''Month'', PInt 1), (''total_flights'', PInt 469968)]]
              else if c = ''executives'' then
                [[(''_id'', PObjectId ''5f1d''), (''name'', PStr ''Ann'')], [(''name'', PStr ''Bob'')]]
              else []) ''flights_by_month'') \<and> sorted (map (doc_sort_key [''Year'', ''Month'']) docs)"
  by (rule total_flights_views [OF ref_store_valid])

theorem executive_apps_agree_witness:
  "\<exists>docs s. executive_bootstrap (ref_store (\<lambda>c. if c = ''on_time_performance'' then
                [[(''Origin'', PStr ''ATL''), (''Dest'', PStr ''SFO''), (''FlightDate'', PStr ''2015-01-01''),
                  (''Carrier'', PStr ''DL''), (''FlightNum'', PStr ''1417''), (''DepTime'', PStr ''1405'')],
                 [(''Origin'', PStr ''ATL''), (''Dest'', PStr ''SFO''), (''FlightDate'', PStr ''2015-01-01''),
                  (''Carrier'', PStr ''DL''), (''FlightNum'', PStr ''1219''), (''DepTime'', PStr ''0730'')]]
              else if c = ''flights_by_month'' then
                [[(''Year'', PInt 2015), (''Month'', PInt 2), (''total_flights'', PInt 429191)],
                 [(''Year'', PInt 2015), (''Month'', PInt 1), (''total_flights'', PInt 469968)]]
              else if c = ''executives'' then
                [[(''_id'', PObjectId ''5f1d''), (''name'', PStr ''Ann'')], [(''name'', PStr ''Bob'')]]
              else [])) ''Ann'' = Render ''table.html'' [(''executives'', TDocs docs)] \<and>
      executive_pymongo (ref_store (\<lambda>c. if c = ''on_time_performance'' then
                [[(''Origin'', PStr ''ATL''), (''Dest'', PStr ''SFO''), (''FlightDate'', PStr ''2015-01-01''),
                  (''Carrier'', PStr ''DL''), (''FlightNum'', PStr ''1417''), (''DepTime'', PStr ''1405'')],
                 [(''Origin'', PStr ''ATL''), (''Dest'', PStr ''SFO''), (''FlightDate'', PStr ''2015-01-01''),
                  (''Carrier'', PStr ''DL''), (''FlightNum'', PStr ''1219''), (''DepTime'', PStr ''0730'')]]
              else if c = ''flights_by_month'' then
                [[(''Year'', PInt 2015), (''Month'', PInt 2), (''total_flights'', PInt 429191)],
                 [(''Year'', PInt 2015), (''Month'', PInt 1), (''total_flights'', PInt 469968)]]
              else if c = ''executives'' then
                [[(''_id'', PObjectId ''5f1d''), (''name'', PStr ''Ann'')], [(''name'', PStr ''Bob'')]]
              else [])) ''Ann'' = Inr (Body s) \<and> json_loads s = Some (PList (map (\<lambda>d. PDict (bson_convert_members d)) docs)) \<and>
      mset docs = mset (filter (\<lambda>d. field_matches d ''name'' (PStr ''Ann'')) ((\<lambda>c. if c = ''on_time_performance'' then
                [[(''Origin'', PStr ''ATL''), (''Dest'', PStr ''SFO''), (''FlightDate'', PStr ''2015-01-01''),
                  (''Carrier'', PStr ''DL''), (''FlightNum'', PStr ''1417''), (''DepTime'', PStr ''1405'')],
                 [(''Origin'', PStr ''ATL''), (''Dest'', PStr ''SFO''), (''FlightDate'', PStr ''2015-01-01''),
                  (''Carrier'', PStr ''DL''), (''FlightNum'', PStr ''1219''), (''DepTime'', PStr ''0730'')]]
              else if c = ''flights_by_month'' then
                [[(''Year'', PInt 2015), (''Month'', PInt 2), (''total_flights'', PInt 429191)],
                 [(''Year'', PInt 2015), (''Month'', PInt 1), (''total_flights'', PInt 469968)]]
              else if c = ''executives'' then
                [[(''_id'', PObjectId ''5f1d''), (''name'', PStr ''Ann'')], [(''name'', PStr ''Bob'')]]
              else []) ''executives''))"
  by (rule executive_apps_agree [OF ref_store_valid])


text \<open>C31: The body airplane_manufacturers_chart returns, when it returns one, is
  printable ASCII (json.dumps escapes control characters and every character
  above U+007E, ensure_ascii being on by default) and is a JSON text that
  reads back as the stored document, or null when there is none.\<close>

theorem airplane_manufacturers_chart_body:
  "airplane_manufacturers_chart st = Inr (Body s) \<Longrightarrow>
     list_all printable s \<and> json_loads s = Some (doc_value (find_one_op st ''airplane_manufacturer_totals'' []))"
proof -
  assume "airplane_manufacturers_chart st = Inr (Body s)"
  then have "json_dumps True (doc_value (find_one_op st ''airplane_manufacturer_totals'' [])) = Inr s"
    by (auto simp: airplane_manufacturers_chart_def)
  then show ?thesis using json_dumps_printable(1) json_loads_dumps by blast
qed

theorem airplane_manufacturers_chart_body_witness:
  "airplane_manufacturers_chart (ref_store (\<lambda>c. [[(''Name'', PStr [CHR 0xE9])]])) =
     Inr (Body (''{'' @ [CHR 0x22] @ ''Name'' @ [CHR 0x22] @ '': '' @ [CHR 0x22, CHR 0x5C] @ ''u00e9'' @ [CHR 0x22] @ ''}'')) \<and>
   list_all printable (''{'' @ [CHR 0x22] @ ''Name'' @ [CHR 0x22] @ '': '' @ [CHR 0x22, CHR 0x5C] @ ''u00e9'' @ [CHR 0x22] @ ''}'') \<and>
   json_loads (''{'' @ [CHR 0x22] @ ''Name'' @ [CHR 0x22] @ '': '' @ [CHR 0x22, CHR 0x5C] @ ''u00e9'' @ [CHR 0x22] @ ''}'') =
     Some (PDict [(''Name'', PStr [CHR 0xE9])])"
proof -
  have chars: "char_of (48::nat) = CHR ''0''" "char_of (101::nat) = CHR ''e''" "char_of (57::nat) = CHR ''9''"
    by code_simp+
  have h: "airplane_manufacturers_chart (ref_store (\<lambda>c. [[(''Name'', PStr [CHR 0xE9])]])) =
     Inr (Body (''{'' @ [CHR 0x22] @ ''Name'' @ [CHR 0x22] @ '': '' @ [CHR 0x22, CHR 0x5C] @ ''u00e9'' @ [CHR 0x22] @ ''}''))"
    by (simp add: airplane_manufacturers_chart_def ref_store_def doc_value_def json_str_def
        json_escape_char_def json_u_escape_def hex_digit_def chars)
  show ?thesis using h airplane_manufacturers_chart_body [OF h] by (simp add: ref_store_def doc_value_def)
qed

text \<open>C30: The airline page and the airlines2 page of a carrier show the same
  airplanes and airports documents; every document shown on either page is a
  document of its collection whose Carrier (or, for the summary, CarrierCode)
  field matches the carrier code of the route.\<close>

theorem airline_pages_agree:
  assumes "valid_store db st"
  shows "\<exists>ap apt summary.
     airline st c = Render ''airlines.html''
       [(''airline_airplanes'', TDoc ap), (''carrier_code'', TStr c), (''airline_airports'', TDoc apt)] \<and>
     airline2 st c = Render ''airlines2.html''
       [(''airline_summary'', TDoc summary), (''airline_airplanes'', TDoc ap), (''airline_airports'', TDoc apt),
        (''carrier_code'', TStr c)] \<and>
     (\<forall>d. ap = Some d \<longrightarrow> d \<in> set (db ''airplanes_per_carrier'') \<and> field_matches d ''Carrier'' (PStr c)) \<and>
     (\<forall>d. apt = Some d \<longrightarrow> d \<in> set (db ''airports_per_carrier'') \<and> field_matches d ''Carrier'' (PStr c)) \<and>
     (\<forall>d. summary = Some d \<longrightarrow> d \<in> set (db ''airlines'') \<and> field_matches d ''CarrierCode'' (PStr c))"
  by (auto simp: airline_def airline2_def dest: valid_store_find_one_field [OF assms])

theorem airline_pages_agree_witness:
  "\<exists>ap apt summary.
     airline (ref_store (\<lambda>c. if c = ''airlines'' then [[(''CarrierCode'', PStr ''DL''), (''Name'', PStr ''Delta'')]]
                               else [[(''Carrier'', PStr ''DL''), (''Total'', PInt 3)]])) ''DL'' = Render ''airlines.html''
       [(''airline_airplanes'', TDoc ap), (''carrier_code'', TStr ''DL''), (''airline_airports'', TDoc apt)] \<and>
     airline2 (ref_store (\<lambda>c. if c = ''airlines'' then [[(''CarrierCode'', PStr ''DL''), (''Name'', PStr ''Delta'')]]
                               else [[(''Carrier'', PStr ''DL''), (''Total'', PInt 3)]])) ''DL'' = Render ''airlines2.html''
       [(''airline_summary'', TDoc summary), (''airline_airplanes'', TDoc ap), (''airline_airports'', TDoc apt),
        (''carrier_code'', TStr ''DL'')] \<and>
     (\<forall>d. ap = Some d \<longrightarrow> d \<in> set [[(''Carrier'', PStr ''DL''), (''Total'', PInt 3)]] \<and> field_matches d ''Carrier'' (PStr ''DL'')) \<and>
     (\<forall>d. apt = Some d \<longrightarrow> d \<in> set [[(''Carrier'', PStr ''DL''), (''Total'', PInt 3)]] \<and> field_matches d ''Carrier'' (PStr ''DL'')) \<and>
     (\<forall>d. summary = Some d \<longrightarrow> d \<in> set [[(''CarrierCode'', PStr ''DL''), (''Name'', PStr ''Delta'')]] \<and> field_matches d ''CarrierCode'' (PStr ''DL''))"
  using airline_pages_agree [OF ref_store_valid, of "\<lambda>c. if c = ''airlines'' then [[(''CarrierCode'', PStr ''DL''), (''Name'', PStr ''Delta'')]]
                               else [[(''Carrier'', PStr ''DL''), (''Total'', PInt 3)]]" "''DL''"]
  by simp

end
