(* ===== verification/QueryString.thy ===== *)
theory QueryString
  imports Json
begin

text \<open>
  The request parameters the controllers read with \<^verbatim>\<open>request.args.get(k)\<close>,
  computed from the URL as Werkzeug computes them: the query string is the
  text after the first \<^verbatim>\<open>?\<close> (\<open>url_query\<close>); it is split at every
  \<^verbatim>\<open>&\<close>, empty pieces are skipped, each piece is split at its first
  \<^verbatim>\<open>=\<close> (a piece without one is a key with the empty value), and keys and
  values are decoded by \<^verbatim>\<open>unquote_plus\<close> (\<^verbatim>\<open>+\<close> is a space, \<^verbatim>\<open>%XY\<close> the
  character with that code, a malformed escape is kept as it is)
  (\<open>qs_pairs\<close>, \<^verbatim>\<open>parse_qsl(..., keep_blank_values=True)\<close>). The parameters
  form a \<^verbatim>\<open>MultiDict\<close> whose \<^verbatim>\<open>get\<close> returns the first value of a key
  (\<open>url_args\<close>, \<open>map_of\<close> of the pairs in order). Escapes above \<^verbatim>\<open>%7F\<close>
  are decoded to the single code point; Python decodes them as UTF-8, which
  the character type of the model, one byte, does not represent.
\<close>

definition url_query :: "string \<Rightarrow> string" where
  "url_query url = (case dropWhile (\<lambda>c. c \<noteq> CHR ''?'') url of [] \<Rightarrow> [] | _ # q \<Rightarrow> q)"

fun split_amp :: "string \<Rightarrow> string list" where
  "split_amp [] = [[]]"
| "split_amp (c # cs) =
     (if c = CHR ''&'' then [] # split_amp cs
      else (case split_amp cs of [] \<Rightarrow> [[c]] | w # ws \<Rightarrow> (c # w) # ws))"

fun unquote_plus :: "string \<Rightarrow> string" where
  "unquote_plus [] = []"
| "unquote_plus (c # cs) =
     (if c = CHR ''+'' then CHR '' '' # unquote_plus cs
      else if c = CHR ''%'' then
        (case cs of
           h1 # h2 # r \<Rightarrow>
             (case (hex_val h1, hex_val h2) of
                (Some a, Some b) \<Rightarrow> char_of (16 * a + b) # unquote_plus r
              | _ \<Rightarrow> c # unquote_plus cs)
         | _ \<Rightarrow> c # unquote_plus cs)
      else c # unquote_plus cs)"

definition qs_pair :: "string \<Rightarrow> string \<times> string" where
  "qs_pair seg =
     (let k = takeWhile (\<lambda>c. c \<noteq> CHR ''='') seg
      in (unquote_plus k, unquote_plus (drop (Suc (length k)) seg)))"

definition qs_pairs :: "string \<Rightarrow> (string \<times> string) list" where
  "qs_pairs q = map qs_pair (filter (\<lambda>seg. seg \<noteq> []) (split_amp q))"

definition url_args :: "string \<Rightarrow> query_args" where
  "url_args url = map_of (qs_pairs (url_query url))"

section \<open>Lemmas\<close>

lemma split_amp_ne: "split_amp s \<noteq> []"
  by (induction s) (auto split: list.splits)

lemma split_amp_append_amp: "split_amp (q @ CHR ''&'' # r) = split_amp q @ split_amp r"
proof (induction q)
  case Nil
  show ?case by simp
next
  case (Cons c q)
  obtain w ws where "split_amp q = w # ws" using split_amp_ne [of q] by (cases "split_amp q") auto
  with Cons show ?case by simp
qed

lemma split_amp_no_amp: "CHR ''&'' \<notin> set w \<Longrightarrow> split_amp w = [w]"
  by (induction w) auto

lemma unquote_plus_id: "CHR ''+'' \<notin> set w \<Longrightarrow> CHR ''%'' \<notin> set w \<Longrightarrow> unquote_plus w = w"
  by (induction w) auto

lemma url_query_append: "CHR ''?'' \<in> set p \<Longrightarrow> url_query (p @ x) = url_query p @ x"
  by (induction p) (auto simp: url_query_def)

lemma url_query_first: "CHR ''?'' \<notin> set base \<Longrightarrow> url_query (base @ CHR ''?'' # x) = x"
  by (induction base) (auto simp: url_query_def)

text \<open>A query that starts with \<^verbatim>\<open>k=v&\<close> gives \<open>k\<close> the value \<open>v\<close>,
  whatever follows.\<close>

lemma url_args_first_param:
  assumes "CHR ''?'' \<notin> set base"
    and "CHR ''&'' \<notin> set k" "CHR ''='' \<notin> set k" "CHR ''+'' \<notin> set k" "CHR ''%'' \<notin> set k" "k \<noteq> []"
    and "CHR ''&'' \<notin> set v" "CHR ''+'' \<notin> set v" "CHR ''%'' \<notin> set v"
  shows "url_args (base @ CHR ''?'' # k @ CHR ''='' # v @ CHR ''&'' # r) k = Some v"
proof -
  have "split_amp (k @ CHR ''='' # v) = [k @ CHR ''='' # v]"
    using assms by (intro split_amp_no_amp) auto
  moreover have "takeWhile (\<lambda>c. c \<noteq> CHR ''='') (k @ CHR ''='' # v) = k"
    using assms(3) by (subst takeWhile_append2) auto
  ultimately have sa: "split_amp (k @ CHR ''='' # v @ CHR ''&'' # r) = (k @ CHR ''='' # v) # split_amp r"
    and tw: "takeWhile (\<lambda>c. c \<noteq> CHR ''='') (k @ CHR ''='' # v) = k"
    using split_amp_append_amp [of "k @ CHR ''='' # v" r] by simp_all
  have "qs_pairs (k @ CHR ''='' # v @ CHR ''&'' # r) = (k, v) # qs_pairs r"
    using assms tw by (simp add: qs_pairs_def sa qs_pair_def unquote_plus_id)
  then show ?thesis
    using assms(1) by (simp add: url_args_def url_query_first)
qed

text \<open>Appending \<^verbatim>\<open>&k=v\<close> to a URL with a query adds the pair \<open>(k, v)\<close> after
  the pairs already there, when neither contains a separator or an escape.\<close>

lemma qs_pairs_append_param:
  assumes "CHR ''&'' \<notin> set k" "CHR ''='' \<notin> set k" "CHR ''+'' \<notin> set k" "CHR ''%'' \<notin> set k" "k \<noteq> []"
    and "CHR ''&'' \<notin> set v" "CHR ''+'' \<notin> set v" "CHR ''%'' \<notin> set v"
  shows "qs_pairs (q @ CHR ''&'' # k @ CHR ''='' # v) = qs_pairs q @ [(k, v)]"
proof -
  have "split_amp (k @ CHR ''='' # v) = [k @ CHR ''='' # v]"
    using assms by (intro split_amp_no_amp) auto
  moreover have "takeWhile (\<lambda>c. c \<noteq> CHR ''='') (k @ CHR ''='' # v) = k"
    using assms(2) by (subst takeWhile_append2) auto
  ultimately show ?thesis
    using assms by (simp add: qs_pairs_def split_amp_append_amp qs_pair_def unquote_plus_id)
qed

text \<open>The decimal form of an integer contains no separator and no escape.\<close>

lemma py_str_int_plain:
  "CHR ''&'' \<notin> set (py_str_int n) \<and> CHR ''='' \<notin> set (py_str_int n) \<and>
   CHR ''+'' \<notin> set (py_str_int n) \<and> CHR ''%'' \<notin> set (py_str_int n)"
  by (auto dest!: py_str_int_char)

text \<open>The parameters of a navigation link: \<^verbatim>\<open>&start=\<close>\<open>b\<close>\<^verbatim>\<open>&end=\<close>\<open>t\<close>
  appended to a URL with a query add two pairs after the URL's own; a key the
  URL already has keeps its first value.\<close>

lemma url_args_link:
  assumes "CHR ''?'' \<in> set p"
  shows "url_args (p @ ''&start='' @ py_str_int b @ ''&end='' @ py_str_int t) =
           map_of [(''start'', py_str_int b), (''end'', py_str_int t)] ++ url_args p"
proof -
  let ?q = "url_query p"
  have eq: "?q @ ''&start='' @ py_str_int b @ ''&end='' @ py_str_int t =
            (?q @ CHR ''&'' # ''start'' @ CHR ''='' # py_str_int b) @ CHR ''&'' # ''end'' @ CHR ''='' # py_str_int t"
    by simp
  have h1: "qs_pairs ((?q @ CHR ''&'' # ''start'' @ CHR ''='' # py_str_int b) @ CHR ''&'' # ''end'' @ CHR ''='' # py_str_int t) =
             qs_pairs (?q @ CHR ''&'' # ''start'' @ CHR ''='' # py_str_int b) @ [(''end'', py_str_int t)]"
    by (rule qs_pairs_append_param) (use py_str_int_plain [of t] in simp_all)
  have h2: "qs_pairs (?q @ CHR ''&'' # ''start'' @ CHR ''='' # py_str_int b) = qs_pairs ?q @ [(''start'', py_str_int b)]"
    by (rule qs_pairs_append_param) (use py_str_int_plain [of b] in simp_all)
  have "qs_pairs (?q @ ''&start='' @ py_str_int b @ ''&end='' @ py_str_int t) =
          qs_pairs ?q @ [(''start'', py_str_int b), (''end'', py_str_int t)]"
    unfolding eq h1 h2 by simp
  then show ?thesis
    using assms by (simp add: url_args_def url_query_append map_of_append)
qed

end
