(* ===== verification/Routing.thy ===== *)
theory Routing
  imports SearchQuery Lookups QueryString
begin

text \<open>
  The Flask application of \<^verbatim>\<open>src/ch06/web/report_flask.py\<close>: the route
  table its \<^verbatim>\<open>@app.route\<close> decorators build (\<open>report_routes\<close>, the rules
  in source order with the view function each names) and the dispatch of a
  request to the view function (\<open>report_app\<close>). Rules are matched as
  Werkzeug matches them: the path and the rule are split at \<^verbatim>\<open>/\<close>
  (\<open>split_slash\<close>), a literal part must be equal, a part
  \<^verbatim>\<open><name>\<close> (the default \<^verbatim>\<open>string\<close> converter, \<^verbatim>\<open>[^/]+\<close>) takes any
  non-empty part and binds it to \<open>name\<close> (\<open>seg_match\<close>). A path that no rule
  matches but that a rule ending in \<^verbatim>\<open>/\<close> matches once the slash is
  appended is redirected there (\<^verbatim>\<open>strict_slashes\<close>); any other path is a
  404. Werkzeug tries static parts before converters; the table is proved
  unambiguous, so the order in which the rules are tried does not change the
  result and \<open>dispatch\<close> takes the first match. A view function's exception
  becomes an internal server error. \<^verbatim>\<open>request.url\<close> is the root of the
  application, the path and, when the query string is not empty,
  \<^verbatim>\<open>?\<close> and the query string; \<^verbatim>\<open>request.args\<close> is parsed from the query
  string (\<open>qs_pairs\<close>).
\<close>

section \<open>Rule matching\<close>

datatype seg = SLit string | SVar string

fun split_slash :: "string \<Rightarrow> string list" where
  "split_slash [] = [[]]"
| "split_slash (c # cs) =
     (if c = CHR ''/'' then [] # split_slash cs
      else (case split_slash cs of [] \<Rightarrow> [[c]] | w # ws \<Rightarrow> (c # w) # ws))"

definition rule_seg :: "string \<Rightarrow> seg" where
  "rule_seg w =
     (if w \<noteq> [] \<and> hd w = CHR ''<'' \<and> last w = CHR ''>'' then SVar (butlast (tl w)) else SLit w)"

definition rule_segs :: "string \<Rightarrow> seg list" where
  "rule_segs r = map rule_seg (split_slash r)"

fun seg_match :: "seg list \<Rightarrow> string list \<Rightarrow> (string \<times> string) list option" where
  "seg_match [] [] = Some []"
| "seg_match (SLit a # rs) (w # ws) = (if a = w then seg_match rs ws else None)"
| "seg_match (SVar v # rs) (w # ws) =
     (if w = [] then None else map_option (\<lambda>vs. (v, w) # vs) (seg_match rs ws))"
| "seg_match _ _ = None"

definition route_match :: "string \<Rightarrow> string \<Rightarrow> (string \<times> string) list option" where
  "route_match rule path = seg_match (rule_segs rule) (split_slash path)"

definition matching :: "(string \<times> 'e) list \<Rightarrow> string \<Rightarrow> ('e \<times> (string \<times> string) list) list" where
  "matching rt path = List.map_filter (\<lambda>(r, e). map_option (Pair e) (route_match r path)) rt"

datatype 'e route_result = RMatch 'e "(string \<times> string) list" | RRedirect string | RNotFound

definition dispatch :: "(string \<times> 'e) list \<Rightarrow> string \<Rightarrow> 'e route_result" where
  "dispatch rt path =
     (case matching rt path of
        (e, vs) # _ \<Rightarrow> RMatch e vs
      | [] \<Rightarrow> if path \<noteq> [] \<and> last path \<noteq> CHR ''/'' \<and> matching rt (path @ ''/'') \<noteq> []
              then RRedirect (path @ ''/'') else RNotFound)"

section \<open>The route table of report_flask.py\<close>

datatype endpoint = OnTimePerformance | ListFlights | TotalFlights | TotalFlightsJson
  | TotalFlightsChart | SearchAirplanes | AirplaneManufacturersChart | FlightsPerAirplane
  | AirlineEp | AirportEp | Airline2Ep | AirlinesEp | SearchFlights

definition report_routes :: "(string \<times> endpoint) list" where
  "report_routes =
     [(''/on_time_performance'', OnTimePerformance),
      (''/flights/<origin>/<dest>/<flight_date>'', ListFlights),
      (''/total_flights'', TotalFlights),
      (''/total_flights.json'', TotalFlightsJson),
      (''/total_flights_chart'', TotalFlightsChart),
      (''/airplanes'', SearchAirplanes),
      (''/airplanes/'', SearchAirplanes),
      (''/airplanes/chart/manufacturers.json'', AirplaneManufacturersChart),
      (''/airplanes/chart/manufacturers.json'', AirplaneManufacturersChart),
      (''/airplane/<tail_number>'', FlightsPerAirplane),
      (''/airplane/flights/<tail_number>'', FlightsPerAirplane),
      (''/airlines/<carrier_code>'', AirlineEp),
      (''/airport/<airport_code>'', AirportEp),
      (''/airlines2/<carrier_code>'', Airline2Ep),
      (''/'', AirlinesEp),
      (''/airlines'', AirlinesEp),
      (''/airlines/'', AirlinesEp),
      (''/flights/search'', SearchFlights),
      (''/flights/search/'', SearchFlights)]"

datatype http_response = HRender response | HFlightsPage flights_page | HAirplanesPage airplanes_page
  | HServerError py_error | HNotFound | HRedirect string

definition http_result :: "('a \<Rightarrow> http_response) \<Rightarrow> 'a py_result \<Rightarrow> http_response" where
  "http_result f r = (case r of Inl e \<Rightarrow> HServerError e | Inr a \<Rightarrow> f a)"

definition route_arg :: "(string \<times> string) list \<Rightarrow> string \<Rightarrow> string" where
  "route_arg vs k = (case map_of vs k of Some w \<Rightarrow> w | None \<Rightarrow> [])"

definition request_url :: "string \<Rightarrow> string \<Rightarrow> string \<Rightarrow> string" where
  "request_url root path query = root @ path @ (if query = [] then [] else CHR ''?'' # query)"

definition report_app ::
  "config \<Rightarrow> es_client \<Rightarrow> mongo_store \<Rightarrow> pymongo_version \<Rightarrow>
   string \<Rightarrow> string \<Rightarrow> string \<Rightarrow> http_response" where
  "report_app cfg elastic_search st ver root path query =
     (let args = map_of (qs_pairs query);
          req = \<lparr>req_args = args, req_url = request_url root path query\<rparr>
      in case dispatch report_routes path of
           RNotFound \<Rightarrow> HNotFound
         | RRedirect p \<Rightarrow> HRedirect (request_url root p query)
         | RMatch e vs \<Rightarrow>
             (case e of
                OnTimePerformance \<Rightarrow> HRender (on_time_performance st args)
              | ListFlights \<Rightarrow>
                  http_result HRender (list_flights ver st (route_arg vs ''origin'')
                    (route_arg vs ''dest'') (route_arg vs ''flight_date''))
              | TotalFlights \<Rightarrow> HRender (total_flights st)
              | TotalFlightsJson \<Rightarrow> http_result HRender (total_flights_json st)
              | TotalFlightsChart \<Rightarrow> HRender (total_flights_chart st)
              | SearchAirplanes \<Rightarrow> http_result HAirplanesPage (search_airplanes cfg elastic_search req)
              | AirplaneManufacturersChart \<Rightarrow> http_result HRender (airplane_manufacturers_chart st)
              | FlightsPerAirplane \<Rightarrow> HRender (flights_per_airplane st (route_arg vs ''tail_number''))
              | AirlineEp \<Rightarrow> HRender (airline st (route_arg vs ''carrier_code''))
              | AirportEp \<Rightarrow> HRender (airport st (route_arg vs ''airport_code''))
              | Airline2Ep \<Rightarrow> HRender (airline2 st (route_arg vs ''carrier_code''))
              | AirlinesEp \<Rightarrow> HRender (airlines st)
              | SearchFlights \<Rightarrow> http_result HFlightsPage (search_flights cfg elastic_search req)))"

text \<open>The URL of a rule for given values of its converters, as
  \<^verbatim>\<open>url_for\<close> builds it (values without a slash need no quoting).\<close>

fun join_slash :: "string list \<Rightarrow> string" where
  "join_slash [] = []"
| "join_slash [w] = w"
| "join_slash (w # ws) = w @ CHR ''/'' # join_slash ws"

definition seg_fill :: "(string \<Rightarrow> string) \<Rightarrow> seg \<Rightarrow> string" where
  "seg_fill vals s = (case s of SLit a \<Rightarrow> a | SVar v \<Rightarrow> vals v)"

definition rule_vars :: "string \<Rightarrow> string list" where
  "rule_vars r = concat (map (\<lambda>s. case s of SVar v \<Rightarrow> [v] | SLit _ \<Rightarrow> []) (rule_segs r))"

definition rule_build :: "string \<Rightarrow> (string \<Rightarrow> string) \<Rightarrow> string" where
  "rule_build r vals = join_slash (map (seg_fill vals) (rule_segs r))"

section \<open>Lemmas\<close>

text \<open>Two rules that can match the same path: equal literals, a converter
  only against a non-empty literal, and the same number of parts.\<close>

fun seg_compat :: "seg list \<Rightarrow> seg list \<Rightarrow> bool" where
  "seg_compat [] [] = True"
| "seg_compat (SLit a # rs) (SLit b # ss) = (a = b \<and> seg_compat rs ss)"
| "seg_compat (SLit a # rs) (SVar _ # ss) = (a \<noteq> [] \<and> seg_compat rs ss)"
| "seg_compat (SVar _ # rs) (SLit b # ss) = (b \<noteq> [] \<and> seg_compat rs ss)"
| "seg_compat (SVar _ # rs) (SVar _ # ss) = seg_compat rs ss"
| "seg_compat _ _ = False"

lemma seg_match_compat:
  "seg_match rs ws = Some a \<Longrightarrow> seg_match ss ws = Some b \<Longrightarrow> seg_compat rs ss"
proof (induction rs ws arbitrary: ss a b rule: seg_match.induct)
  case (2 x rs w ws)
  then obtain s ss' where "ss = s # ss'" by (cases ss) auto
  with 2 show ?case by (cases s) (auto split: if_splits)
next
  case (3 v rs w ws)
  then obtain s ss' where "ss = s # ss'" by (cases ss) auto
  with 3 show ?case by (cases s) (auto split: if_splits)
qed (auto elim: seg_match.elims)

lemma matching_iff:
  "x \<in> set (matching rt path) \<longleftrightarrow> (\<exists>r. (r, fst x) \<in> set rt \<and> route_match r path = Some (snd x))"
  by (induction rt) (auto simp: matching_def List.map_filter_simps split: option.splits)

lemma report_routes_compat_check:
  "list_all (\<lambda>(r1, e1). list_all (\<lambda>(r2, e2).
      \<not> seg_compat (rule_segs r1) (rule_segs r2) \<or> (r1 = r2 \<and> e1 = e2)) report_routes) report_routes"
  by code_simp

lemma report_routes_compat:
  assumes "(r1, e1) \<in> set report_routes" and "(r2, e2) \<in> set report_routes"
    and "seg_compat (rule_segs r1) (rule_segs r2)"
  shows "r1 = r2 \<and> e1 = e2"
  using report_routes_compat_check assms unfolding list_all_iff by fast

lemma split_slash_ne: "split_slash s \<noteq> []"
  by (induction s) (auto split: list.splits)

lemma split_slash_append_slash: "split_slash (u @ CHR ''/'' # v) = split_slash u @ split_slash v"
proof (induction u)
  case (Cons c u)
  obtain w ws where "split_slash u = w # ws" using split_slash_ne [of u] by (cases "split_slash u") auto
  with Cons show ?case by simp
qed simp

lemma split_slash_no_slash: "CHR ''/'' \<notin> set w \<Longrightarrow> split_slash w = [w]"
  by (induction w) auto

lemma split_slash_parts: "w \<in> set (split_slash s) \<Longrightarrow> CHR ''/'' \<notin> set w"
proof (induction s arbitrary: w)
  case (Cons c s)
  obtain v vs where "split_slash s = v # vs" using split_slash_ne [of s] by (cases "split_slash s") auto
  with Cons show ?case by (auto split: if_splits)
qed simp

lemma split_slash_join:
  "ws \<noteq> [] \<Longrightarrow> \<forall>w \<in> set ws. CHR ''/'' \<notin> set w \<Longrightarrow> split_slash (join_slash ws) = ws"
  by (induction ws rule: join_slash.induct) (simp_all add: split_slash_append_slash split_slash_no_slash)

lemma seg_match_fill:
  "\<forall>v. SVar v \<in> set rs \<longrightarrow> vals v \<noteq> [] \<Longrightarrow>
   seg_match rs (map (seg_fill vals) rs) =
     Some (map (\<lambda>v. (v, vals v)) (concat (map (\<lambda>s. case s of SVar v \<Rightarrow> [v] | SLit _ \<Rightarrow> []) rs)))"
  by (induction rs) (auto simp: seg_fill_def split: seg.splits)

lemma rule_seg_fill_parts:
  assumes "\<forall>v \<in> set (rule_vars r). CHR ''/'' \<notin> set (vals v)"
  shows "\<forall>w \<in> set (map (seg_fill vals) (rule_segs r)). CHR ''/'' \<notin> set w"
  using assms split_slash_parts [of _ r]
  by (auto simp: rule_segs_def rule_vars_def rule_seg_def seg_fill_def split: if_splits)

lemma route_match_build:
  assumes "\<forall>v \<in> set (rule_vars r). vals v \<noteq> [] \<and> CHR ''/'' \<notin> set (vals v)"
  shows "route_match r (rule_build r vals) = Some (map (\<lambda>v. (v, vals v)) (rule_vars r))"
proof -
  have "split_slash (rule_build r vals) = map (seg_fill vals) (rule_segs r)"
    unfolding rule_build_def using assms rule_seg_fill_parts [of r vals]
    by (intro split_slash_join) (auto simp: rule_segs_def split_slash_ne)
  moreover have "\<forall>v. SVar v \<in> set (rule_segs r) \<longrightarrow> vals v \<noteq> []"
    using assms by (force simp: rule_vars_def)
  ultimately show ?thesis
    by (simp add: route_match_def seg_match_fill rule_vars_def)
qed

text \<open>Two rules of the table that match the same path are the same rule.\<close>

lemma report_routes_disjoint:
  assumes "(r1, e1) \<in> set report_routes" and "(r2, e2) \<in> set report_routes"
    and "route_match r1 path = Some a" and "route_match r2 path = Some b"
  shows "r1 = r2 \<and> e1 = e2 \<and> a = b"
proof -
  from assms(3,4) have "seg_compat (rule_segs r1) (rule_segs r2)"
    unfolding route_match_def by (blast intro: seg_match_compat)
  with assms show ?thesis by (auto dest: report_routes_compat)
qed

lemma py_str_int_no_slash: "CHR ''/'' \<notin> set (py_str_int n)"
  by (auto dest!: py_str_int_char)

lemma dispatch_flights_search: "dispatch report_routes ''/flights/search'' = RMatch SearchFlights []"
  by code_simp

text \<open>A path \<^verbatim>\<open>/flights/\<close>\<open>w\<close> with a last part other than \<^verbatim>\<open>search\<close> has
  no view function: the only rules under \<^verbatim>\<open>/flights/\<close> are the search
  and the four-part \<^verbatim>\<open>list_flights\<close> rule.\<close>

lemma dispatch_flights_other:
  assumes "CHR ''/'' \<notin> set w" and "w \<noteq> ''search''"
  shows "dispatch report_routes (''/flights/'' @ w) = RNotFound"
proof -
  have s1: "split_slash (''/flights/'' @ w) = [[], ''flights'', w]"
    using assms(1) by (simp add: split_slash_no_slash)
  have s2: "split_slash ((''/flights/'' @ w) @ ''/'') = [[], ''flights'', w, []]"
    using assms(1) by (simp add: split_slash_append_slash split_slash_no_slash)
  have ne: "''search'' \<noteq> w" using assms(2) by blast
  have "matching report_routes (''/flights/'' @ w) = []"
    using ne unfolding matching_def route_match_def s1
    by (simp add: report_routes_def rule_segs_def rule_seg_def List.map_filter_simps)
  moreover have "matching report_routes ((''/flights/'' @ w) @ ''/'') = []"
    using ne unfolding matching_def route_match_def s2
    by (simp add: report_routes_def rule_segs_def rule_seg_def List.map_filter_simps)
  ultimately show ?thesis by (simp add: dispatch_def)
qed

section \<open>Properties\<close>

text \<open>C32: the route table is unambiguous: two rules that match the same path
  name the same view function and bind the same arguments, so whichever
  order Werkzeug tries the rules in, the same handler runs with the same
  arguments.\<close>

theorem routes_unambiguous:
  assumes "x \<in> set (matching report_routes path)" and "y \<in> set (matching report_routes path)"
  shows "x = y"
proof -
  from assms obtain r1 r2 where
    "(r1, fst x) \<in> set report_routes" "route_match r1 path = Some (snd x)"
    "(r2, fst y) \<in> set report_routes" "route_match r2 path = Some (snd y)"
    by (auto simp: matching_iff)
  then show ?thesis by (cases x, cases y) (auto dest: report_routes_disjoint)
qed

theorem routes_unambiguous_witness:
  "(FlightsPerAirplane, [(''tail_number'', ''flights'')]) \<in> set (matching report_routes ''/airplane/flights'') \<and>
   (FlightsPerAirplane, [(''tail_number'', ''flights'')]) = (FlightsPerAirplane, [(''tail_number'', ''flights'')])"
proof -
  have m: "(FlightsPerAirplane, [(''tail_number'', ''flights'')]) \<in> set (matching report_routes ''/airplane/flights'')"
    by code_simp
  show ?thesis using routes_unambiguous [OF m m] m by simp
qed

text \<open>C33: no rule is shadowed: the URL \<^verbatim>\<open>url_for\<close> builds from a rule, with
  non-empty values without a slash for its converters, dispatches to that
  rule's view function with exactly those values.\<close>

theorem route_build_dispatch:
  assumes "(r, e) \<in> set report_routes"
    and "\<forall>v \<in> set (rule_vars r). vals v \<noteq> [] \<and> CHR ''/'' \<notin> set (vals v)"
  shows "dispatch report_routes (rule_build r vals) = RMatch e (map (\<lambda>v. (v, vals v)) (rule_vars r))"
proof -
  let ?x = "(e, map (\<lambda>v. (v, vals v)) (rule_vars r))"
  have x: "?x \<in> set (matching report_routes (rule_build r vals))"
    using assms by (auto simp: matching_iff route_match_build)
  then obtain y ys where m: "matching report_routes (rule_build r vals) = y # ys"
    by (cases "matching report_routes (rule_build r vals)") auto
  then have "y \<in> set (matching report_routes (rule_build r vals))" by simp
  with x have "y = ?x"
    by (cases y) (auto simp: matching_iff dest: report_routes_disjoint)
  with m show ?thesis by (simp add: dispatch_def)
qed

theorem route_build_dispatch_witness:
  "(''/flights/<origin>/<dest>/<flight_date>'', ListFlights) \<in> set report_routes \<and>
   rule_vars ''/flights/<origin>/<dest>/<flight_date>'' = [''origin'', ''dest'', ''flight_date''] \<and>
   dispatch report_routes ''/flights/ATL/SFO/2015-01-01'' =
     RMatch ListFlights [(''origin'', ''ATL''), (''dest'', ''SFO''), (''flight_date'', ''2015-01-01'')]"
proof -
  let ?vals = "route_arg [(''origin'', ''ATL''), (''dest'', ''SFO''), (''flight_date'', ''2015-01-01'')]"
  have r: "(''/flights/<origin>/<dest>/<flight_date>'', ListFlights) \<in> set report_routes"
    by (simp add: report_routes_def)
  have v: "\<forall>v \<in> set (rule_vars ''/flights/<origin>/<dest>/<flight_date>''). ?vals v \<noteq> [] \<and> CHR ''/'' \<notin> set (?vals v)"
    by code_simp
  have b: "rule_build ''/flights/<origin>/<dest>/<flight_date>'' ?vals = ''/flights/ATL/SFO/2015-01-01''"
    by code_simp
  have a: "map (\<lambda>v. (v, ?vals v)) (rule_vars ''/flights/<origin>/<dest>/<flight_date>'') =
           [(''origin'', ''ATL''), (''dest'', ''SFO''), (''flight_date'', ''2015-01-01'')]"
    by code_simp
  have n: "rule_vars ''/flights/<origin>/<dest>/<flight_date>'' = [''origin'', ''dest'', ''flight_date'']"
    by code_simp
  show ?thesis using route_build_dispatch [OF r v] r n unfolding a b by blast
qed

text \<open>C5: the navigation links of a flight search requested without a query
  string are dead: \<^verbatim>\<open>request.url\<close> then has no \<^verbatim>\<open>?\<close>, \<open>strip_place\<close>
  returns it unchanged, and the link
  \<open>nav_path\<close>\<^verbatim>\<open>&start=\<close>\<open>b\<close>\<^verbatim>\<open>&end=\<close>\<open>t\<close> requests the path
  \<^verbatim>\<open>/flights/search&start=\<close>\<open>b\<close>\<^verbatim>\<open>&end=\<close>\<open>t\<close>, which no rule matches:
  the application answers 404.\<close>

theorem search_nav_link_not_found:
  assumes "report_app cfg es st ver root ''/flights/search'' [] = HFlightsPage page"
    and "CHR ''&'' \<notin> set root"
  shows "fp_nav_path page @ ''&start='' @ py_str_int b @ ''&end='' @ py_str_int t =
           request_url root (''/flights/search&start='' @ py_str_int b @ ''&end='' @ py_str_int t) [] \<and>
         report_app cfg es st ver root (''/flights/search&start='' @ py_str_int b @ ''&end='' @ py_str_int t) [] =
           HNotFound"
proof -
  have sf: "search_flights cfg es \<lparr>req_args = map_of [], req_url = root @ ''/flights/search''\<rparr> = Inr page"
    using assms(1)
    by (simp add: report_app_def dispatch_flights_search http_result_def qs_pairs_def request_url_def
             split: sum.splits)
  have "fp_nav_path page = root @ ''/flights/search''"
    using search_flights_page_fields [OF sf] strip_place_no_amp [of "root @ ''/flights/search''"] assms(2)
    by (simp add: page_param_def)
  moreover have "dispatch report_routes (''/flights/'' @ ''search&start='' @ py_str_int b @ ''&end='' @ py_str_int t) = RNotFound"
    using py_str_int_no_slash [of b] py_str_int_no_slash [of t] by (intro dispatch_flights_other) auto
  ultimately show ?thesis
    by (simp add: request_url_def report_app_def)
qed

theorem search_nav_link_not_found_witness:
  "\<exists>page. report_app \<lparr>records_per_page = 20, airplane_records_per_page = 10\<rparr>
       (\<lambda>i q. Inr (es_response (PInt 21) [PDict [(''_source'', PStr ''AA100'')]])) (ref_store (\<lambda>c. [])) PyMongo3
       ''http://localhost:5000'' ''/flights/search'' [] = HFlightsPage page \<and>
     CHR ''&'' \<notin> set ''http://localhost:5000'' \<and>
     fp_nav_path page @ ''&start='' @ py_str_int 20 @ ''&end='' @ py_str_int 40 =
       ''http://localhost:5000/flights/search&start=20&end=40'' \<and>
     report_app \<lparr>records_per_page = 20, airplane_records_per_page = 10\<rparr>
       (\<lambda>i q. Inr (es_response (PInt 21) [PDict [(''_source'', PStr ''AA100'')]])) (ref_store (\<lambda>c. [])) PyMongo3
       ''http://localhost:5000'' (''/flights/search&start='' @ py_str_int 20 @ ''&end='' @ py_str_int 40) [] = HNotFound"
proof -
  let ?cfg = "\<lparr>records_per_page = 20, airplane_records_per_page = 10\<rparr>"
  let ?es = "\<lambda>(i::string) (q::es_query). Inr (es_response (PInt 21) [PDict [(''_source'', PStr ''AA100'')]]) :: pyval py_result"
  let ?root = "''http://localhost:5000''"
  have amp: "CHR ''&'' \<notin> set ?root" by simp
  have ps: "process_search (es_response (PInt 21) [PDict [(''_source'', PStr ''AA100'')]]) =
            Inr ([PStr ''AA100''], PInt 21)"
    by (rule process_search_response) (simp_all add: has_sources_def)
  have "\<exists>page. search_flights ?cfg ?es \<lparr>req_args = map_of [], req_url = ?root @ ''/flights/search''\<rparr> = Inr page"
    using ps strip_place_no_amp [of "?root @ ''/flights/search''"]
    by (simp add: search_flights_def Let_def page_param_def)
  then obtain page where
    "search_flights ?cfg ?es \<lparr>req_args = map_of [], req_url = ?root @ ''/flights/search''\<rparr> = Inr page"
    by blast
  then have app: "report_app ?cfg ?es (ref_store (\<lambda>c. [])) PyMongo3 ?root ''/flights/search'' [] = HFlightsPage page"
    by (simp add: report_app_def dispatch_flights_search http_result_def qs_pairs_def request_url_def)
  have "py_str_int 20 = ''20''" "py_str_int 40 = ''40''" by code_simp+
  with search_nav_link_not_found [OF app amp, of 20 40] app amp show ?thesis
    by (auto simp: request_url_def)
qed

end
