(* ===== verification/Spec2Isabelle.thy ===== *)
theory Spec2Isabelle
  imports SearchQuery Lookups QueryString Routing "HOL-Library.While_Combinator"
begin

text \<open>
  A verification development of the flight-data web controllers of the
  repository (\<^verbatim>\<open>src/ch06/web/report_flask.py\<close> and the three chapter-2
  examples under \<^verbatim>\<open>src/ch02/web/\<close>).

  \<^bold>\<open>The program.\<close> Every route handler reads the request parameters, issues one
  or two look-ups to a document store (MongoDB) or a search index
  (Elasticsearch), and hands the result to a template or a JSON serializer.
  Three helpers carry the logic: \<^verbatim>\<open>process_search\<close> (lines 21--29) turns a
  search response into records and a total, \<^verbatim>\<open>get_navigation_offsets\<close>
  (lines 33--43) computes the ``Previous'' and ``Next'' offsets of a result
  page, and \<^verbatim>\<open>strip_place\<close> (lines 47--52) removes the paging parameters
  from the request URL with a regular expression. The two search controllers
  \<^verbatim>\<open>search_airplanes\<close> (lines 118--174) and \<^verbatim>\<open>search_flights\<close> (lines
  262--325) parse \<^verbatim>\<open>start\<close> and \<^verbatim>\<open>end\<close> with Python's \<^verbatim>\<open>int\<close>, build a
  boolean ``must'' query with one match clause per non-empty parameter, call
  the search engine and the helpers, and render the page; the page template
  turns the offsets into links \<open>nav_path\<close>\<^verbatim>\<open>&start=\<close>\<open>b\<close>\<^verbatim>\<open>&end=\<close>\<open>t\<close>,
  which lead back to the same controller.

  \<^bold>\<open>Theories and what they model.\<close>
  \<^item> \<open>Prelude\<close>: Python exceptions as the \<open>Inl\<close> values of \<open>py_error + 'a\<close>
    and their bind \<open>py_bind\<close>; request parameters (\<^verbatim>\<open>request.args\<close>) as a
    map and the truthiness of \<^verbatim>\<open>args.get(k)\<close>; list and string lemmas the
    components share.
  \<^item> \<open>PyValue\<close>: the decoded JSON response as Python values, with Python's
    subscript, truthiness and iteration and their \<^verbatim>\<open>KeyError\<close> and
    \<^verbatim>\<open>TypeError\<close>.
  \<^item> \<open>ProcessSearch\<close>: \<open>process_search\<close> and its loop
    \<open>collect_sources\<close>; it succeeds exactly on a response with a total and a
    non-empty list of hits with sources, and raises \<^verbatim>\<open>UnboundLocalError\<close>
    on an empty one.
  \<^item> \<open>Navigation\<close>: \<open>get_navigation_offsets\<close>; the page window
    (\<open>start\<close>, \<open>end\<close>), the link the template offers (\<open>follow_link\<close>) and
    the windows reachable from the first page (\<open>nav_reachable\<close>, an
    inductive relation) with the invariant that every query offset is a
    non-negative multiple of the page size, the ``Next''/``Previous'' round
    trip and the reachability of every page.
  \<^item> \<open>Regex\<close>: Python's \<^verbatim>\<open>re.match\<close> for the fragment the code's pattern
    uses (literals, the dot, greedy \<^verbatim>\<open>+\<close> of one character class, groups,
    concatenation) as a backtracking matcher returning all matches in the
    engine's order (\<open>matches\<close>); \<open>re_match\<close> takes the first. It is proved
    sound and complete against the language predicate \<open>full_match\<close>, and a
    greedy group followed by a group-free pattern captures the longest
    possible prefix.
  \<^item> \<open>StripPlace\<close>: \<open>strip_place\<close> with its \<^verbatim>\<open>try\<close>/\<^verbatim>\<open>except\<close>; it never
    raises, returns the longest prefix followed by
    \<^verbatim>\<open>&start=\<close>\<dots>\<^verbatim>\<open>&end=\<close>\<dots> (\<open>place_split\<close>), or the URL unchanged,
    and so also cuts every parameter after \<^verbatim>\<open>end\<close>.
  \<^item> \<open>IntParse\<close>: Python's \<^verbatim>\<open>int\<close> on strings (whitespace, sign, digits
    with single underscores; \<^verbatim>\<open>ValueError\<close> otherwise), \<^verbatim>\<open>str\<close> of an
    integer and their round trip; \<open>page_param\<close> is
    \<^verbatim>\<open>int(request.args.get(k) or default)\<close>.
  \<^item> \<open>SearchEngine\<close>: Elasticsearch as the controllers call it through the
    \<^verbatim>\<open>elasticsearch7\<close> client (line 17; \<^verbatim>\<open>elastic.search(query, index=...)\<close>),
    a client \<open>es_client\<close> of the index and the query body \<open>es_query\<close> that
    answers or raises, with the contract \<open>valid_es\<close>: a window outside
    \<^verbatim>\<open>from >= 0\<close>, \<^verbatim>\<open>size >= 0\<close>, \<^verbatim>\<open>from + size <= 10000\<close> is refused
    (\<^verbatim>\<open>RequestError\<close>); otherwise the hits are the window of the matching
    documents sorted on the sort fields, and the total is the Elasticsearch 7
    object \<^verbatim>\<open>{"value", "relation"}\<close>, exact up to 10000. \<open>ref_es\<close> is an
    executable engine meeting it.
  \<^item> \<open>SearchQuery\<close>: both controllers as functions of the configuration, the
    search client and the request, returning the template variables or the
    exception. Both query builders implement the abstract clause list
    \<open>must_clauses\<close>. The end-to-end lemmas give the rendered page on
    success, the \<^verbatim>\<open>UnboundLocalError\<close> on an empty result and the
    \<^verbatim>\<open>ValueError\<close> on a bad \<^verbatim>\<open>start\<close>; over any engine meeting the
    contract, a rendered page is the window of the matching flights sorted by
    date, with the total object as \<^verbatim>\<open>flight_count\<close>
    (\<open>search_flights_refines\<close>), and an airplanes page the window of the
    matching airplanes in the engine's order (\<open>search_airplanes_refines\<close>).
    On every rendered flights page the ``Next'' start is non-negative (the
    engine refuses a negative \<^verbatim>\<open>from\<close>) but its end is the unchecked
    \<^verbatim>\<open>end\<close> parameter plus a page (\<open>search_flights_next_offsets\<close>).
  \<^item> \<open>DocStore\<close>: MongoDB as the controllers use it through PyMongo, an
    interface record \<open>mongo_store\<close> of \<^verbatim>\<open>find_one\<close>, sorted \<^verbatim>\<open>find\<close>
    and \<^verbatim>\<open>Cursor.count\<close>, with the contract \<open>valid_store\<close>: equality
    filters where \<^verbatim>\<open>None\<close> matches a missing field and a value matches an
    array holding it (\<open>field_matches\<close>), ascending sorts in BSON's cross-type
    order (\<open>bson_sort_key\<close>). MongoDB leaves natural order and the order of
    ties open, so the controllers are proved for every store meeting the
    contract; \<open>ref_store\<close> is an executable store that meets it, over any
    reordering of the collections, and runs the witnesses. The contract fixes
    the result of a sorted \<^verbatim>\<open>find\<close> up to the order of ties.
  \<^item> \<open>Json\<close>: \<^verbatim>\<open>json.dumps\<close> (\<open>json_dumps\<close>, both \<^verbatim>\<open>ensure_ascii\<close>
    modes) and \<^verbatim>\<open>bson.json_util.dumps\<close> (\<open>json_util_dumps\<close>); the first
    raises \<^verbatim>\<open>TypeError\<close> exactly on values holding an \<^verbatim>\<open>ObjectId\<close>, the
    second never raises, and every string written reads back with an RFC 8259
    string reader.
  \<^item> \<open>JsonRead\<close>: a reference reader of the JSON the model writes, the
    client side of the JSON endpoints: a lexer (\<open>json_lex\<close>, a \<open>function\<close>
    whose termination is proved by the length of the input) and a recursive
    descent parser with fuel (\<open>jparse_value\<close>, result \<open>JOk\<close>, \<open>JErr\<close> or
    \<open>JFuel\<close>). The fuel \<open>2 * n + 1\<close> for \<open>n\<close> tokens is proved always to
    suffice (\<open>jparse_terminates\<close>), and \<open>json_loads\<close> inverts
    \<open>json_dumps\<close> on every value it writes (\<open>json_loads_dumps\<close>).
  \<^item> \<open>QueryString\<close>: \<^verbatim>\<open>request.args\<close> computed from the URL as Werkzeug
    computes it (\<open>url_args\<close>): the query after the first \<^verbatim>\<open>?\<close>, split at
    \<^verbatim>\<open>&\<close>, each piece split at its first \<^verbatim>\<open>=\<close> and decoded by
    \<^verbatim>\<open>unquote_plus\<close>; \<^verbatim>\<open>get\<close> returns the first value of a key.
  \<^item> \<open>Lookups\<close>: the MongoDB controllers of \<^verbatim>\<open>report_flask.py\<close>
    (\<^verbatim>\<open>on_time_performance\<close>, \<^verbatim>\<open>list_flights\<close>, \<^verbatim>\<open>total_flights\<close>,
    \<^verbatim>\<open>total_flights_json\<close>, \<^verbatim>\<open>total_flights_chart\<close>,
    \<^verbatim>\<open>airplane_manufacturers_chart\<close>, \<^verbatim>\<open>flights_per_airplane\<close>,
    \<^verbatim>\<open>airline\<close>, \<^verbatim>\<open>airport\<close>, \<^verbatim>\<open>airline2\<close>, \<^verbatim>\<open>airlines\<close>,
    lines 56--115 and 177--259) and the chapter-2 applications, each a function
    of the store and the request returning the template and its variables or
    the body. Their lemmas: what each lookup renders, that a request without
    parameters to \<^verbatim>\<open>on_time_performance\<close> matches documents lacking the
    fields, that \<^verbatim>\<open>list_flights\<close> fails under PyMongo 4 (whose cursor has
    no \<^verbatim>\<open>count\<close>, \<open>cursor_count\<close>) and otherwise lists the flights of
    exactly the route and date, sorted, with a consistent count, that
    \<^verbatim>\<open>airplane_manufacturers_chart\<close> raises \<^verbatim>\<open>TypeError\<close> on documents
    with an \<^verbatim>\<open>ObjectId\<close> and otherwise returns printable ASCII that
    reads back as the stored document, that the JSON bodies read back as the
    documents the controllers looked up, and that
    the views of the same data agree (the two airline pages, the three
    monthly-totals views, the two executive applications).
  \<^item> \<open>Routing\<close>: the application itself. The nineteen \<^verbatim>\<open>@app.route\<close>
    rules of \<^verbatim>\<open>report_flask.py\<close> in source order (\<open>report_routes\<close>), matched
    as Werkzeug matches them (parts split at \<^verbatim>\<open>/\<close>, literal parts equal,
    a converter \<^verbatim>\<open><name>\<close> taking any non-empty part; the strict-slashes
    redirect), and \<open>report_app\<close>, which dispatches a request, given as the
    application root, the path and the query string, to the view function
    with its route arguments, \<^verbatim>\<open>request.args\<close> and \<^verbatim>\<open>request.url\<close>,
    an exception becoming an internal server error. The table is proved
    unambiguous (any order of trying the rules gives the same handler) and
    free of shadowed rules (every URL \<^verbatim>\<open>url_for\<close> builds reaches its
    rule), and the navigation links of a search requested without a query
    string are proved to lead to a 404.
  \<^item> This theory: the properties spanning the components. Following a
    navigation link runs \<^verbatim>\<open>search_flights\<close> again on the same path, with
    the offsets the link was built from and the same search fields
    (\<open>follow_nav_link\<close>): \<open>strip_place\<close>, the query-string parser and
    \<^verbatim>\<open>int\<close> compose to invert the template's link. For every URL that carries
    \<^verbatim>\<open>start\<close> as its first parameter (\<^verbatim>\<open>?start=\<close>\<dots>) and no
    \<^verbatim>\<open>&start=\<close>, the pattern does not match, the path keeps the old offsets,
    and since \<^verbatim>\<open>get\<close> returns the first value the ``Next'' link leads back
    to the same page (\<open>nav_link_start_first\<close>). The ``Next'' link of the last page of
    results, followed, runs the search past its results and fails with
    \<^verbatim>\<open>UnboundLocalError\<close>, or with \<^verbatim>\<open>RequestError\<close> beyond the result
    window (\<open>next_from_last_page_fails\<close>). Following ``Next'' while the
    page is served (\<open>next_chain\<close>, a \<open>while_option\<close> loop over page windows)
    always ends, at most one page past the matching documents
    (\<open>next_chain_terminates\<close>).

  \<^bold>\<open>Bounds and fuel.\<close> No loop of the program can run forever: every loop is a
  structural recursion over a finite list (the hits, the search
  configuration, the characters of a string, the documents of a collection),
  so no fuel is needed. The only fuel of the development is that of the
  reference JSON parser, which is not program code; each token consumes at
  most two units, so \<open>2 * n + 1\<close> units for \<open>n\<close> tokens always suffice, and
  this is proved. The one loop of the development that is not structural
  is \<open>next_chain\<close>, a reader following ``Next'' links; it is written with
  \<open>while_option\<close>, whose \<open>None\<close> would be a chain that never ends, and it
  is proved to return \<open>Some\<close>, with the number of matching documents not
  yet passed as the measure. Python integers are unbounded and are modelled as
  \<open>int\<close>; no width applies. The bounds that do apply are the search
  engine's: a result window of 10000 (\<^verbatim>\<open>index.max_result_window\<close>) and
  exact totals up to 10000 (\<^verbatim>\<open>track_total_hits\<close>), the defaults of
  Elasticsearch 7.

  \<^bold>\<open>Not modelled.\<close> The templates, the database server and the search
  engine's ranking and text analysis are external: the search engine and the
  database are interfaces with a contract, the analyser a parameter of the
  engine's, and
  \<^verbatim>\<open>render_template\<close> the returned list of template variables. Of Flask
  and Werkzeug, the route table, the dispatch and \<^verbatim>\<open>request.args\<close> are
  modelled; the WSGI server, slash merging and converters other than the
  default one (which the code does not use) are not, and the chapter-2
  applications, one route each, are called with their route parameter.
  The \<^verbatim>\<open>print\<close> in \<^verbatim>\<open>flights_per_airplane\<close> only writes a log line. The
  modules \<^verbatim>\<open>config\<close> and \<^verbatim>\<open>search_helpers\<close> are not in the
  repository. Of \<^verbatim>\<open>config\<close> only the two page sizes are used, as
  parameters. Both search controllers call \<^verbatim>\<open>search_helpers.strip_place\<close> and
  \<^verbatim>\<open>search_helpers.get_navigation_offsets\<close>, and \<^verbatim>\<open>search_airplanes\<close>
  also its \<^verbatim>\<open>process_search\<close>; the model uses the same-named functions of
  \<^verbatim>\<open>report_flask.py\<close>, which the spec (sections 4.1 and 7) describes,
  so every property of the search pages that involves the URL or the
  offsets assumes the module's copies behave as this file's. The page
  template is not in the repository either: its links
  \<open>nav_path\<close>\<^verbatim>\<open>&start=\<close>\<open>b\<close>\<^verbatim>\<open>&end=\<close>\<open>t\<close> (\<open>follow_link\<close>,
  \<open>link_url\<close>) are inferred from the parameters \<open>strip_place\<close> removes,
  without the template's display guard. Percent-escapes above
  \<^verbatim>\<open>%7F\<close> are decoded as one code point, not as UTF-8 sequences, since
  the characters of the model are bytes. The contract lets the order of
  sort ties differ between two queries, where a real index usually repeats
  it.
\<close>

section \<open>Following the navigation links\<close>

text \<open>The page template links each result page to
  \<open>nav_path\<close>\<^verbatim>\<open>&start=\<close>\<open>b\<close>\<^verbatim>\<open>&end=\<close>\<open>t\<close> (\<open>link_url\<close>); the browser
  requests that URL (\<open>link_request\<close>), and the page is served when
  \<^verbatim>\<open>search_flights\<close> returns one (\<open>page_served\<close>). A reader, or a crawler,
  that keeps following ``Next'' from a window runs the loop \<open>next_chain\<close>:
  while the page is served, move to the window of its ``Next'' link, which
  keeps the path (\<open>follow_nav_link\<close>) and moves both offsets by one page.
  The result is the first window whose request fails.\<close>

definition link_url :: "string \<Rightarrow> page_window \<Rightarrow> string" where
  "link_url p w = p @ ''&start='' @ py_str_int (win_start w) @ ''&end='' @ py_str_int (win_end w)"

definition link_request :: "string \<Rightarrow> page_window \<Rightarrow> request" where
  "link_request p w = \<lparr>req_args = url_args (link_url p w), req_url = link_url p w\<rparr>"

definition page_served :: "config \<Rightarrow> es_client \<Rightarrow> string \<Rightarrow> page_window \<Rightarrow> bool" where
  "page_served cfg es p w =
     (case search_flights cfg es (link_request p w) of Inr _ \<Rightarrow> True | Inl _ \<Rightarrow> False)"

definition next_chain :: "config \<Rightarrow> es_client \<Rightarrow> string \<Rightarrow> page_window \<Rightarrow> page_window option" where
  "next_chain cfg es p w =
     while_option (page_served cfg es p) (\<lambda>v. follow_link (records_per_page cfg) v Next) w"

section \<open>Navigation links across the components\<close>

text \<open>The page template builds each navigation link by appending
  \<^verbatim>\<open>&start=\<close>\<open>str(bottom_offset)\<close>\<^verbatim>\<open>&end=\<close>\<open>str(top_offset)\<close> to
  \<open>nav_path\<close>. The lemmas below show that the next request recovers both the
  path and the offsets.\<close>

lemma amp_suffix:
  assumes "suffix (CHR ''&'' # y) (u @ v)" and "CHR ''&'' \<notin> set u"
  shows "suffix (CHR ''&'' # y) v"
proof -
  from assms(1) consider "suffix (CHR ''&'' # y) v"
    | xs where "suffix xs u" "CHR ''&'' # y = xs @ v"
    by (auto simp: suffix_append)
  then show ?thesis
  proof cases
    case (2 xs)
    show ?thesis
    proof (cases xs)
      case Nil
      with 2 show ?thesis by simp
    next
      case (Cons x xs')
      with 2 have "CHR ''&'' \<in> set u" by (auto dest: set_mono_suffix)
      with assms(2) show ?thesis by blast
    qed
  qed
qed

lemma py_str_int_chars:
  "CHR ''&'' \<notin> set (py_str_int n) \<and> no_newline (py_str_int n) \<and> py_str_int n \<noteq> []"
proof -
  have "py_str_int n \<noteq> []" by (simp add: py_str_int_def show_nat_ne)
  then show ?thesis by (auto simp: no_newline_iff dest!: py_str_int_char)
qed

lemma link_split_longest:
  assumes "place_split (p @ ''&start='' @ py_str_int b @ ''&end='' @ py_str_int t) q"
  shows "length q \<le> length p"
proof (rule ccontr)
  let ?R = "''&start='' @ py_str_int b @ ''&end='' @ py_str_int t"
  assume "\<not> length q \<le> length p"
  from assms obtain a b' c where u: "p @ ?R = q @ ''&start='' @ a @ ''&end='' @ b' @ c"
    unfolding place_split_def by blast
  let ?Z = "a @ ''&end='' @ b' @ c"
  from u \<open>\<not> length q \<le> length p\<close> obtain x where "q = p @ x" "x \<noteq> []"
    by (auto simp: append_eq_append_conv2)
  with u have "?R = x @ ''&start='' @ a @ ''&end='' @ b' @ c" by simp
  moreover note \<open>x \<noteq> []\<close>
  ultimately have "suffix (CHR ''&'' # ''start='' @ ?Z) (tl ?R)"
    by (cases x) (auto simp: suffix_def)
  then have "suffix (CHR ''&'' # ''start='' @ ?Z) ((''start='' @ py_str_int b) @ (''&end='' @ py_str_int t))"
    by simp
  then have "suffix (CHR ''&'' # ''start='' @ ?Z) (''&end='' @ py_str_int t)"
    by (rule amp_suffix) (use py_str_int_chars [of b] in simp)
  then have "''start='' @ ?Z = ''end='' @ py_str_int t \<or>
             suffix (CHR ''&'' # ''start='' @ ?Z) (''end='' @ py_str_int t)"
    by (simp add: suffix_Cons)
  moreover have "\<not> suffix (CHR ''&'' # ''start='' @ ?Z) (''end='' @ py_str_int t)"
    using py_str_int_chars [of t] by (auto dest: set_mono_suffix)
  ultimately show False by simp
qed

text \<open>The request a navigation link makes: \<open>strip_place\<close> gives back the path
  the link was built from, and \<^verbatim>\<open>int(request.args.get(...))\<close> the two
  offsets, when the path has a query and no \<^verbatim>\<open>start\<close> or \<^verbatim>\<open>end\<close> of its
  own.\<close>

lemma nav_link_roundtrip:
  assumes "p \<noteq> []" and "no_newline p" and "CHR ''?'' \<in> set p"
    and "url_args p ''start'' = None" and "url_args p ''end'' = None"
  shows "strip_place (p @ ''&start='' @ py_str_int b @ ''&end='' @ py_str_int t) = Inr p \<and>
         page_param (url_args (p @ ''&start='' @ py_str_int b @ ''&end='' @ py_str_int t)) ''start'' dflt_start = Inr b \<and>
         page_param (url_args (p @ ''&start='' @ py_str_int b @ ''&end='' @ py_str_int t)) ''end'' dflt_end = Inr t"
proof -
  have split: "place_split (p @ ''&start='' @ py_str_int b @ ''&end='' @ py_str_int t) p"
    unfolding place_split_def
    using assms(1,2) py_str_int_chars [of b] py_str_int_chars [of t]
    by (intro exI [of _ "py_str_int b"] exI [of _ "py_str_int t"] exI [of _ "[]"]) simp
  have strip: "strip_place (p @ ''&start='' @ py_str_int b @ ''&end='' @ py_str_int t) = Inr p"
    by (rule strip_place_of_longest [OF split link_split_longest])
  have args: "url_args (p @ ''&start='' @ py_str_int b @ ''&end='' @ py_str_int t) ''start'' = Some (py_str_int b)"
             "url_args (p @ ''&start='' @ py_str_int b @ ''&end='' @ py_str_int t) ''end'' = Some (py_str_int t)"
    using url_args_link [OF assms(3), of b t] assms(4,5) by (simp_all add: map_add_def)
  show ?thesis
    using strip args py_str_int_chars [of b] py_str_int_chars [of t]
    by (simp add: page_param_def int_str_roundtrip)
qed

text \<open>The search of a link is the search of its path: the paging parameters
  are not search fields.\<close>

lemma link_hits:
  assumes "CHR ''?'' \<in> set p"
  shows "hit_matches mt (flights_query cfg (url_args (p @ ''&start='' @ py_str_int b @ ''&end='' @ py_str_int t)) s) =
         hit_matches mt (flights_query cfg (url_args p) s')"
proof -
  have "url_args (p @ ''&start='' @ py_str_int b @ ''&end='' @ py_str_int t) f = url_args p f"
    if "f \<in> set flight_fields" for f
    using that url_args_link [OF assms, of b t]
    by (auto simp: flight_fields_def map_add_def split: option.splits)
  then have "must_clauses (url_args (p @ ''&start='' @ py_str_int b @ ''&end='' @ py_str_int t)) flight_fields =
             must_clauses (url_args p) flight_fields"
    by (rule must_clauses_cong)
  then show ?thesis by (intro hit_matches_must) (simp add: flights_query_def)
qed

text \<open>A link whose \<^verbatim>\<open>start\<close> is at or past the number of documents the
  path's search matches leads to a failing request.\<close>

lemma link_past_end:
  assumes "p \<noteq> []" and "no_newline p" and "CHR ''?'' \<in> set p"
    and "url_args p ''start'' = None" and "url_args p ''end'' = None"
    and "valid_es mt db es" and "0 \<le> b"
    and "length (filter (hit_matches mt (flights_query cfg (url_args p) 0)) (db ''agile_data_science'')) \<le> nat b"
  shows "search_flights cfg es
           \<lparr>req_args = url_args (p @ ''&start='' @ py_str_int b @ ''&end='' @ py_str_int t),
            req_url = p @ ''&start='' @ py_str_int b @ ''&end='' @ py_str_int t\<rparr> =
         (if window_ok (flights_query cfg (url_args p) b) then Inl UnboundLocalError else Inl RequestError)"
proof -
  let ?l = "p @ ''&start='' @ py_str_int b @ ''&end='' @ py_str_int t"
  have rt: "strip_place ?l = Inr p \<and> page_param (url_args ?l) ''start'' 0 = Inr b \<and>
            page_param (url_args ?l) ''end'' (records_per_page cfg) = Inr t"
    by (rule nav_link_roundtrip [OF assms(1-5)])
  have cnt: "length (filter (hit_matches mt (flights_query cfg (url_args ?l) b)) (db ''agile_data_science'')) \<le> nat b"
    using assms(8) link_hits [OF assms(3), of mt cfg b t b 0] by simp
  have "search_flights cfg es \<lparr>req_args = url_args ?l, req_url = ?l\<rparr> =
          (if window_ok (flights_query cfg (url_args ?l) b) then Inl UnboundLocalError else Inl RequestError)"
    using rt assms(7) by (intro search_flights_past_end [OF assms(6) _ _ _ _ cnt]) simp_all
  then show ?thesis by simp
qed

section \<open>Properties spanning the components\<close>

text \<open>C3: following a navigation link keeps the search: when
  \<^verbatim>\<open>search_flights\<close> answers the request a link
  \<open>nav_path\<close>\<^verbatim>\<open>&start=\<close>\<open>b\<close>\<^verbatim>\<open>&end=\<close>\<open>t\<close> makes (its parameters parsed
  from its URL), the page it renders has the same \<open>nav_path\<close>, the six search
  parameters of that path, and the offsets \<^verbatim>\<open>get_navigation_offsets\<close>
  computes from \<open>b\<close> and \<open>t\<close>.\<close>

theorem follow_nav_link:
  assumes "p \<noteq> []" and "no_newline p" and "CHR ''?'' \<in> set p"
    and "url_args p ''start'' = None" and "url_args p ''end'' = None"
    and "search_flights cfg es
           \<lparr>req_args = url_args (p @ ''&start='' @ py_str_int b @ ''&end='' @ py_str_int t),
            req_url = p @ ''&start='' @ py_str_int b @ ''&end='' @ py_str_int t\<rparr> = Inr page"
  shows "fp_nav_path page = p \<and>
         fp_nav_offsets page = get_navigation_offsets b t (records_per_page cfg) \<and>
         fp_carrier page = url_args p ''Carrier'' \<and> fp_flight_date page = url_args p ''FlightDate'' \<and>
         fp_origin page = url_args p ''Origin'' \<and> fp_dest page = url_args p ''Dest'' \<and>
         fp_tail_number page = url_args p ''TailNum'' \<and> fp_flight_number page = url_args p ''FlightNum''"
proof -
  let ?link = "p @ ''&start='' @ py_str_int b @ ''&end='' @ py_str_int t"
  have rt: "strip_place (p @ ''&start='' @ py_str_int b @ ''&end='' @ py_str_int t) = Inr p \<and>
         page_param (url_args (p @ ''&start='' @ py_str_int b @ ''&end='' @ py_str_int t)) ''start'' 0 = Inr b \<and>
         page_param (url_args (p @ ''&start='' @ py_str_int b @ ''&end='' @ py_str_int t)) ''end'' (records_per_page cfg) = Inr t"
    by (rule nav_link_roundtrip [OF assms(1-5)])
  have pf: "fp_nav_path page = p \<and> fp_nav_offsets page = get_navigation_offsets b t (records_per_page cfg) \<and>
      fp_carrier page = url_args ?link ''Carrier'' \<and> fp_flight_date page = url_args ?link ''FlightDate'' \<and>
      fp_origin page = url_args ?link ''Origin'' \<and> fp_dest page = url_args ?link ''Dest'' \<and>
      fp_tail_number page = url_args ?link ''TailNum'' \<and> fp_flight_number page = url_args ?link ''FlightNum''"
    using rt by (intro search_flights_page_fields [OF assms(6)]) simp_all
  show ?thesis
    using pf url_args_link [OF assms(3), of b t] by (simp add: map_add_def split: option.splits)
qed

theorem follow_nav_link_witness:
  "\<exists>page. search_flights \<lparr>records_per_page = 20, airplane_records_per_page = 10\<rparr>
       (\<lambda>i q. Inr (es_response (PInt 21) [PDict [(''_source'', PStr ''AA100'')]]))
       \<lparr>req_args = url_args (''/flights/search?Origin=ATL'' @ ''&start='' @ py_str_int 20 @ ''&end='' @ py_str_int 40),
        req_url = ''/flights/search?Origin=ATL'' @ ''&start='' @ py_str_int 20 @ ''&end='' @ py_str_int 40\<rparr> = Inr page \<and>
     fp_nav_path page = ''/flights/search?Origin=ATL'' \<and>
     fp_nav_offsets page = get_navigation_offsets 20 40 20 \<and>
     fp_carrier page = None \<and> fp_flight_date page = None \<and>
     fp_origin page = Some ''ATL'' \<and> fp_dest page = None \<and>
     fp_tail_number page = None \<and> fp_flight_number page = None"
proof -
  let ?p = "''/flights/search?Origin=ATL''"
  let ?l = "?p @ ''&start='' @ py_str_int 20 @ ''&end='' @ py_str_int 40"
  have pre: "?p \<noteq> []" "no_newline ?p" "CHR ''?'' \<in> set ?p"
    "url_args ?p ''start'' = None" "url_args ?p ''end'' = None"
    by (simp_all add: url_args_def url_query_def qs_pairs_def qs_pair_def)
  have rt: "strip_place ?l = Inr ?p \<and> page_param (url_args ?l) ''start'' 0 = Inr 20 \<and>
            page_param (url_args ?l) ''end'' 20 = Inr 40"
    by (rule nav_link_roundtrip [OF pre])
  have ps: "process_search (es_response (PInt 21) [PDict [(''_source'', PStr ''AA100'')]]) =
            Inr ([PStr ''AA100''], PInt 21)"
    by (rule process_search_response) (simp_all add: has_sources_def)
  have "\<exists>page. search_flights \<lparr>records_per_page = 20, airplane_records_per_page = 10\<rparr>
       (\<lambda>i q. Inr (es_response (PInt 21) [PDict [(''_source'', PStr ''AA100'')]]))
       \<lparr>req_args = url_args ?l, req_url = ?l\<rparr> = Inr page"
    using rt ps by (simp add: search_flights_def Let_def)
  then obtain page where pg: "search_flights \<lparr>records_per_page = 20, airplane_records_per_page = 10\<rparr>
       (\<lambda>i q. Inr (es_response (PInt 21) [PDict [(''_source'', PStr ''AA100'')]]))
       \<lparr>req_args = url_args ?l, req_url = ?l\<rparr> = Inr page" by blast
  have "url_args ?p ''Carrier'' = None" "url_args ?p ''FlightDate'' = None" "url_args ?p ''Origin'' = Some ''ATL''"
    "url_args ?p ''Dest'' = None" "url_args ?p ''TailNum'' = None" "url_args ?p ''FlightNum'' = None"
    by (simp_all add: url_args_def url_query_def qs_pairs_def qs_pair_def)
  with follow_nav_link [OF pre pg] pg show ?thesis by simp
qed

text \<open>C4: a navigation link does not move when the page's URL has \<^verbatim>\<open>start\<close>
  as its first parameter and no \<^verbatim>\<open>&start=\<close>: \<open>strip_place\<close> only removes a
  \<^verbatim>\<open>&start=\<close>\<open>\<dots>\<close>\<^verbatim>\<open>&end=\<close>\<open>\<dots>\<close> with an ampersand before it, so the URL
  comes back unchanged, every link appends a second \<^verbatim>\<open>start\<close>, and
  \<^verbatim>\<open>request.args.get("start")\<close> returns the first: the ``Next'' link of the
  page at \<^verbatim>\<open>start=\<close>\<open>b\<close> requests \<open>b\<close> again, for every \<open>b\<close>, \<open>t\<close>, page
  size and further parameters.\<close>

theorem nav_link_start_first:
  assumes "CHR ''?'' \<notin> set base"
    and "\<not> sublist ''&start='' (base @ ''?start='' @ py_str_int b @ ''&end='' @ py_str_int t @ rest)"
  shows "strip_place (base @ ''?start='' @ py_str_int b @ ''&end='' @ py_str_int t @ rest) =
           Inr (base @ ''?start='' @ py_str_int b @ ''&end='' @ py_str_int t @ rest) \<and>
         page_param
           (url_args ((base @ ''?start='' @ py_str_int b @ ''&end='' @ py_str_int t @ rest) @
              ''&start='' @ py_str_int (bottom_offset (nav_next (get_navigation_offsets b t n))) @
              ''&end='' @ py_str_int (top_offset (nav_next (get_navigation_offsets b t n)))))
           ''start'' 0 = Inr b"
proof -
  let ?u = "base @ ''?start='' @ py_str_int b @ ''&end='' @ py_str_int t @ rest"
  have "\<not> place_split ?u q" for q
  proof
    assume "place_split ?u q"
    then obtain a c where "?u = q @ ''&start='' @ a @ c" unfolding place_split_def by blast
    then have "sublist ''&start='' ?u" unfolding sublist_def by blast
    with assms(2) show False by blast
  qed
  then have strip: "strip_place ?u = Inr ?u" by (intro strip_place_unchanged) blast
  have first: "url_args ?u ''start'' = Some (py_str_int b)"
    using url_args_first_param [OF assms(1), of "''start''" "py_str_int b" "''end='' @ py_str_int t @ rest"]
      py_str_int_plain [of b] by simp
  have "CHR ''?'' \<in> set ?u" by simp
  from url_args_link [OF this] first
  have "url_args (?u @ ''&start='' @ py_str_int (b + n) @ ''&end='' @ py_str_int (t + n)) ''start'' =
          Some (py_str_int b)"
    by (simp add: map_add_def)
  with strip py_str_int_chars [of b] show ?thesis
    by (simp add: page_param_def int_str_roundtrip)
qed

theorem nav_link_start_first_witness:
  "CHR ''?'' \<notin> set ''/flights/search'' \<and>
   \<not> sublist ''&start='' (''/flights/search'' @ ''?start='' @ py_str_int 20 @ ''&end='' @ py_str_int 40 @ ''&Origin=ATL'') \<and>
   strip_place (''/flights/search'' @ ''?start='' @ py_str_int 20 @ ''&end='' @ py_str_int 40 @ ''&Origin=ATL'') =
     Inr (''/flights/search'' @ ''?start='' @ py_str_int 20 @ ''&end='' @ py_str_int 40 @ ''&Origin=ATL'') \<and>
   page_param
     (url_args ((''/flights/search'' @ ''?start='' @ py_str_int 20 @ ''&end='' @ py_str_int 40 @ ''&Origin=ATL'') @
        ''&start='' @ py_str_int (bottom_offset (nav_next (get_navigation_offsets 20 40 20))) @
        ''&end='' @ py_str_int (top_offset (nav_next (get_navigation_offsets 20 40 20)))))
     ''start'' 0 = Inr 20"
proof -
  have q: "CHR ''?'' \<notin> set ''/flights/search''" by simp
  have s20: "py_str_int 20 = ''20''" "py_str_int 40 = ''40''" by code_simp+
  have ns: "\<not> sublist ''&start='' (''/flights/search'' @ ''?start='' @ py_str_int 20 @ ''&end='' @ py_str_int 40 @ ''&Origin=ATL'')"
    unfolding s20 by code_simp
  show ?thesis using nav_link_start_first [OF q ns, of 20] q ns by blast
qed

text \<open>C6: the ``Next'' link of the last page of a flight search fails:
  when at most \<open>b\<close> plus one page of documents match the search, following
  the link \<open>nav_path\<close>\<^verbatim>\<open>&start=\<close>\<open>b + n\<close>\<^verbatim>\<open>&end=\<close>\<open>t + n\<close> (\<open>n\<close> the
  page size) runs the same search past its results, which raises
  \<^verbatim>\<open>UnboundLocalError\<close> in \<open>process_search\<close>, or, beyond the engine's result
  window of 10000, \<^verbatim>\<open>RequestError\<close>: the application answers HTTP 500
  instead of an empty page.\<close>

theorem next_from_last_page_fails:
  assumes "p \<noteq> []" and "no_newline p" and "CHR ''?'' \<in> set p"
    and "url_args p ''start'' = None" and "url_args p ''end'' = None"
    and "valid_es mt db es" and "0 \<le> b" and "0 \<le> records_per_page cfg"
    and "length (filter (hit_matches mt (flights_query cfg (url_args p) b)) (db ''agile_data_science''))
           \<le> nat (b + records_per_page cfg)"
  shows "search_flights cfg es
           \<lparr>req_args = url_args (p @ ''&start='' @
                 py_str_int (bottom_offset (nav_next (get_navigation_offsets b t (records_per_page cfg)))) @
                 ''&end='' @ py_str_int (top_offset (nav_next (get_navigation_offsets b t (records_per_page cfg))))),
            req_url = p @ ''&start='' @
                 py_str_int (bottom_offset (nav_next (get_navigation_offsets b t (records_per_page cfg)))) @
                 ''&end='' @ py_str_int (top_offset (nav_next (get_navigation_offsets b t (records_per_page cfg))))\<rparr> =
         (if b + 2 * records_per_page cfg \<le> 10000 then Inl UnboundLocalError else Inl RequestError)"
proof -
  have cnt: "length (filter (hit_matches mt (flights_query cfg (url_args p) 0)) (db ''agile_data_science''))
               \<le> nat (b + records_per_page cfg)"
    using assms(9) hit_matches_must [of "flights_query cfg (url_args p) b" "flights_query cfg (url_args p) 0" mt]
    by (simp add: flights_query_def)
  from link_past_end [OF assms(1-6) _ cnt, of "t + records_per_page cfg"] assms(7,8) show ?thesis
    by (simp add: max_result_window_def)
qed

theorem next_from_last_page_fails_witness:
  "valid_es keyword_match (\<lambda>i. [[(''Origin'', PStr ''ATL'')]]) (ref_es keyword_match (\<lambda>i. [[(''Origin'', PStr ''ATL'')]])) \<and>
   length (filter (hit_matches keyword_match
       (flights_query \<lparr>records_per_page = 20, airplane_records_per_page = 10\<rparr> (url_args ''/flights/search?Origin=ATL'') 0))
       [[(''Origin'', PStr ''ATL'')]]) = 1 \<and>
   search_flights \<lparr>records_per_page = 20, airplane_records_per_page = 10\<rparr>
     (ref_es keyword_match (\<lambda>i. [[(''Origin'', PStr ''ATL'')]]))
     \<lparr>req_args = url_args (''/flights/search?Origin=ATL'' @ ''&start='' @
           py_str_int (bottom_offset (nav_next (get_navigation_offsets 0 20 20))) @
           ''&end='' @ py_str_int (top_offset (nav_next (get_navigation_offsets 0 20 20)))),
      req_url = ''/flights/search?Origin=ATL'' @ ''&start='' @
           py_str_int (bottom_offset (nav_next (get_navigation_offsets 0 20 20))) @
           ''&end='' @ py_str_int (top_offset (nav_next (get_navigation_offsets 0 20 20)))\<rparr> =
   Inl UnboundLocalError"
proof -
  let ?p = "''/flights/search?Origin=ATL''"
  let ?cfg = "\<lparr>records_per_page = 20, airplane_records_per_page = 10\<rparr>"
  have pre: "?p \<noteq> []" "no_newline ?p" "CHR ''?'' \<in> set ?p"
    "url_args ?p ''start'' = None" "url_args ?p ''end'' = None"
    by (simp_all add: url_args_def url_query_def qs_pairs_def qs_pair_def)
  have one: "length (filter (hit_matches keyword_match (flights_query ?cfg (url_args ?p) 0))
               [[(''Origin'', PStr ''ATL'')]]) = 1"
    by code_simp
  then have cnt: "length (filter (hit_matches keyword_match (flights_query ?cfg (url_args ?p) 0))
               ((\<lambda>i::string. [[(''Origin'', PStr ''ATL'')]]) ''agile_data_science'')) \<le> nat (0 + records_per_page ?cfg)"
    by simp
  have rpp: "records_per_page ?cfg = 20" by simp
  have c: "(if 0 + 2 * 20 \<le> (10000::int) then Inl UnboundLocalError else Inl RequestError) =
           (Inl UnboundLocalError :: flights_page py_result)" by simp
  have "0 \<le> (0::int)" "0 \<le> records_per_page ?cfg" by simp_all
  note inst = next_from_last_page_fails
      [where p = ?p and b = 0 and t = 20 and cfg = ?cfg and mt = keyword_match
         and db = "\<lambda>i. [[(''Origin'', PStr ''ATL'')]]" and es = "ref_es keyword_match (\<lambda>i. [[(''Origin'', PStr ''ATL'')]])",
       OF pre ref_es_valid this cnt]
  show ?thesis
    using ref_es_valid one inst [unfolded rpp c] by blast
qed

text \<open>C7: following ``Next'' always ends: over any search engine meeting the
  contract, from any window with a non-negative start and with a positive
  page size, the loop of following the ``Next'' link while the page is
  served terminates, at a window whose request fails, whose start has not
  moved back and lies at most one page past the number of documents the
  search matches. The measure is the number of matching documents not yet
  passed: a served page starts before the last of them, and each ``Next''
  moves one page on.\<close>

theorem next_chain_terminates:
  assumes "p \<noteq> []" and "no_newline p" and "CHR ''?'' \<in> set p"
    and "url_args p ''start'' = None" and "url_args p ''end'' = None"
    and "valid_es mt db es" and "0 \<le> win_start w" and "0 < records_per_page cfg"
  shows "\<exists>w'. next_chain cfg es p w = Some w' \<and> \<not> page_served cfg es p w' \<and>
              win_start w \<le> win_start w' \<and>
              win_start w' \<le> max (win_start w)
                (int (length (filter (hit_matches mt (flights_query cfg (url_args p) 0)) (db ''agile_data_science'')))
                 + records_per_page cfg)"
proof -
  let ?N = "int (length (filter (hit_matches mt (flights_query cfg (url_args p) 0)) (db ''agile_data_science'')))"
  let ?i = "records_per_page cfg"
  let ?c = "\<lambda>v. follow_link ?i v Next"
  have below: "win_start v < ?N" if "page_served cfg es p v" and "0 \<le> win_start v" for v
  proof (rule ccontr)
    assume "\<not> win_start v < ?N"
    then have "length (filter (hit_matches mt (flights_query cfg (url_args p) 0)) (db ''agile_data_science''))
                 \<le> nat (win_start v)" by simp
    from link_past_end [OF assms(1-6) that(2) this, of "win_end v"] that(1) show False
      by (simp add: page_served_def link_request_def link_url_def split: if_splits)
  qed
  let ?P = "\<lambda>v. 0 \<le> win_start v \<and> win_start w \<le> win_start v \<and> win_start v \<le> max (win_start w) (?N + ?i)"
  have step: "?P (?c v) \<and> nat (?N - win_start (?c v)) < nat (?N - win_start v)"
    if "?P v" and "page_served cfg es p v" for v
    using that below [of v] assms(8) by auto
  obtain w' where r: "next_chain cfg es p w = Some w'"
    using measure_while_option_Some [of ?P "page_served cfg es p" ?c "\<lambda>v. nat (?N - win_start v)" w] step assms(7)
    unfolding next_chain_def by auto
  have "?P w'"
    using while_option_rule [of ?P "page_served cfg es p" ?c w w'] step r assms(7)
    unfolding next_chain_def by auto
  moreover have "\<not> page_served cfg es p w'"
    using while_option_stop [of "page_served cfg es p" ?c w w'] r unfolding next_chain_def by blast
  ultimately show ?thesis using r by blast
qed

theorem next_chain_terminates_witness:
  "valid_es keyword_match (\<lambda>i. [[(''Origin'', PStr ''ATL'')]]) (ref_es keyword_match (\<lambda>i. [[(''Origin'', PStr ''ATL'')]])) \<and>
   (\<exists>w'. next_chain \<lparr>records_per_page = 20, airplane_records_per_page = 10\<rparr>
           (ref_es keyword_match (\<lambda>i. [[(''Origin'', PStr ''ATL'')]])) ''/flights/search?Origin=ATL'' (first_window 20)
           = Some w' \<and>
         \<not> page_served \<lparr>records_per_page = 20, airplane_records_per_page = 10\<rparr>
           (ref_es keyword_match (\<lambda>i. [[(''Origin'', PStr ''ATL'')]])) ''/flights/search?Origin=ATL'' w' \<and>
         win_start (first_window 20) \<le> win_start w' \<and>
         win_start w' \<le> max (win_start (first_window 20))
           (int (length (filter (hit_matches keyword_match
               (flights_query \<lparr>records_per_page = 20, airplane_records_per_page = 10\<rparr> (url_args ''/flights/search?Origin=ATL'') 0))
               [[(''Origin'', PStr ''ATL'')]]))
            + records_per_page \<lparr>records_per_page = 20, airplane_records_per_page = 10\<rparr>))"
proof -
  let ?p = "''/flights/search?Origin=ATL''"
  let ?cfg = "\<lparr>records_per_page = 20, airplane_records_per_page = 10\<rparr>"
  have pre: "?p \<noteq> []" "no_newline ?p" "CHR ''?'' \<in> set ?p"
    "url_args ?p ''start'' = None" "url_args ?p ''end'' = None"
    by (simp_all add: url_args_def url_query_def qs_pairs_def qs_pair_def)
  have "0 \<le> win_start (first_window 20)" "0 < records_per_page ?cfg"
    by (simp_all add: first_window_def)
  note inst = next_chain_terminates
      [where p = ?p and w = "first_window 20" and cfg = ?cfg and mt = keyword_match
         and db = "\<lambda>i. [[(''Origin'', PStr ''ATL'')]]" and es = "ref_es keyword_match (\<lambda>i. [[(''Origin'', PStr ''ATL'')]])",
       OF pre ref_es_valid this]
  show ?thesis using ref_es_valid inst by blast
qed

end
